theory Spec2Isabelle
  imports Main
begin

section \<open>Projection configuration\<close>

text \<open>
  \<^verbatim>\<open>export type OptionMode = "never" | "include" | "only"\<close>
\<close>

datatype OptionMode = Never | Include | Only

text \<open>
  The field names of \<^verbatim>\<open>interface ParseOptions\<close> (\<^verbatim>\<open>keyof ParseOptions\<close>), in the
  order of the interface.
\<close>

datatype OptionKey =
    JSDoc | Name | Level | Decorators | ExportInfo | Type | TypeAst | ItemType
  | Location | Arguments | TypeParameters | ReturnType | ReturnTypeAST | Value
  | ValueText | ValueParsed | SubType | Target | Const | Members | Accessibility
  | Static | Async | For | IsJSType | Default | DefaultParsed | Optional
  | Readonly | Abstract | Private | GetterSetter | KeyType

text \<open>
  \<^verbatim>\<open>ParseOptions\<close> has only optional fields: a configuration is a partial map from
  field names to modes, \<open>None\<close> for a field that is not set.
\<close>

type_synonym ParseOptions = "OptionKey \<Rightarrow> OptionMode option"

type_synonym NormalizedOptions = "OptionKey \<Rightarrow> OptionMode option"

definition OptionKeys :: "OptionKey list" where
  "OptionKeys =
    [JSDoc, Name, Level, Decorators, ExportInfo, Type, TypeAst, ItemType,
     Location, Arguments, TypeParameters, ReturnType, ReturnTypeAST, Value,
     ValueText, ValueParsed, SubType, Target, Const, Members, Accessibility,
     Static, Async, For, IsJSType, Default, DefaultParsed, Optional,
     Readonly, Abstract, Private, GetterSetter, KeyType]"

text \<open>\<^verbatim>\<open>DEFAULT_OPTIONS\<close>: every field is \<^verbatim>\<open>"include"\<close>.\<close>

definition DEFAULT_OPTIONS :: NormalizedOptions where
  "DEFAULT_OPTIONS = (\<lambda>key. Some Include)"

text \<open>
  \<^verbatim>\<open>return { ...DEFAULT_OPTIONS, ...(options ?? {}) }\<close>: the fields the caller set
  override the defaults. An absent configuration is the empty map.
\<close>

definition normalizeOptions :: "ParseOptions option \<Rightarrow> NormalizedOptions" where
  "normalizeOptions options =
     DEFAULT_OPTIONS ++ (case options of None \<Rightarrow> Map.empty | Some given \<Rightarrow> given)"

text \<open>
  \<^verbatim>\<open>const onlyMode = Object.values(opts).includes("only")\<close>, the second statement of
  \<^verbatim>\<open>parseWithTsMorph\<close>.
\<close>

definition onlyModeOf :: "NormalizedOptions \<Rightarrow> bool" where
  "onlyModeOf opts = (Some Only \<in> set (map opts OptionKeys))"

text \<open>
  \<^verbatim>\<open>
  const v = options[key] ?? "include";
  if (onlyMode) return v === "only";
  return v !== "never";
  \<close>
\<close>

definition shouldInclude :: "NormalizedOptions \<Rightarrow> bool \<Rightarrow> OptionKey \<Rightarrow> bool" where
  "shouldInclude options onlyMode key =
     (let v = (case options key of None \<Rightarrow> Include | Some m \<Rightarrow> m)
      in if onlyMode then v = Only else v \<noteq> Never)"

section \<open>Output values\<close>

text \<open>
  The items the parser returns are plain JSON-like objects. An object is the list of
  its own properties in insertion order (what \<^verbatim>\<open>Object.keys\<close> enumerates); a property
  whose value is \<^verbatim>\<open>undefined\<close> is still a property.
\<close>

datatype jv =
    JUndefined
  | JNull
  | JBool bool
  | JNum int
  | JStr string
  | JArr "jv list"
  | JObj "(string \<times> jv) list"

type_synonym obj = "(string \<times> jv) list"

text \<open>
  What the model can stop with: an exception thrown by the JavaScript runtime or by a
  front-end accessor (carrying what \<^verbatim>\<open>String(err)\<close> would show), a value that is
  outside the TypeScript type of the parameter it is passed for, and the end of the
  fuel of the one recursion that goes through the external parser.
\<close>

datatype error = Thrown string | IllTyped | OutOfFuel

definition bindE :: "error + 'a \<Rightarrow> ('a \<Rightarrow> error + 'b) \<Rightarrow> error + 'b" where
  "bindE m f = (case m of Inl e \<Rightarrow> Inl e | Inr x \<Rightarrow> f x)"

text \<open>\<^verbatim>\<open>xs.map(f)\<close> on a list, left to right, stopping at the first exception.\<close>

fun mapE :: "('a \<Rightarrow> error + 'b) \<Rightarrow> 'a list \<Rightarrow> error + 'b list" where
  "mapE f [] = Inr []"
| "mapE f (x # xs) = bindE (f x) (\<lambda>y. bindE (mapE f xs) (\<lambda>ys. Inr (y # ys)))"

text \<open>
  What a recursive call inside \<open>bindE\<close> and \<open>mapE\<close> may assume about its argument.
\<close>

lemma bindE_cong [fundef_cong]:
  "m = m' \<Longrightarrow> (\<And>x. m' = Inr x \<Longrightarrow> f x = f' x) \<Longrightarrow> bindE m f = bindE m' f'"
  by (auto simp: bindE_def split: sum.splits)

lemma mapE_cong [fundef_cong]:
  "xs = ys \<Longrightarrow> (\<And>x. x \<in> set ys \<Longrightarrow> f x = g x) \<Longrightarrow> mapE f xs = mapE g ys"
  by (induction ys arbitrary: xs) (auto intro!: bindE_cong)

text \<open>JavaScript truthiness, as \<^verbatim>\<open>if (item.arguments)\<close> tests it.\<close>

fun truthy :: "jv \<Rightarrow> bool" where
  "truthy JUndefined = False"
| "truthy JNull = False"
| "truthy (JBool b) = b"
| "truthy (JNum n) = (n \<noteq> 0)"
| "truthy (JStr s) = (s \<noteq> [])"
| "truthy (JArr xs) = True"
| "truthy (JObj props) = True"

text \<open>
  Reading a property, \<^verbatim>\<open>item.arguments\<close>: \<^verbatim>\<open>undefined\<close> when the object has no such
  property. The names read here (\<^verbatim>\<open>type\<close>, \<^verbatim>\<open>arguments\<close>, \<^verbatim>\<open>members\<close>, ...) are
  properties of records only.
\<close>

fun getp :: "jv \<Rightarrow> string \<Rightarrow> jv" where
  "getp (JObj props) key = (case map_of props key of None \<Rightarrow> JUndefined | Some v \<Rightarrow> v)"
| "getp _ key = JUndefined"

text \<open>
  Assigning a property, \<^verbatim>\<open>item.arguments = ...\<close>: an existing property keeps its
  place, a new one is added last.
\<close>

fun assign :: "obj \<Rightarrow> string \<Rightarrow> jv \<Rightarrow> obj" where
  "assign [] key v = [(key, v)]"
| "assign ((k, x) # props) key v =
     (if k = key then (k, v) # props else (k, x) # assign props key v)"

fun setp :: "jv \<Rightarrow> string \<Rightarrow> jv \<Rightarrow> jv" where
  "setp (JObj props) key v = JObj (assign props key v)"
| "setp item key v = item"

section \<open>Field projection\<close>

text \<open>
  The second parameter of \<^verbatim>\<open>pruneObject\<close>, \<^verbatim>\<open>Record<string, keyof ParseOptions | null>\<close>:
  a property name is absent from it, or mapped to \<^verbatim>\<open>null\<close> (\<open>None\<close>), or to a
  configuration field.
\<close>

type_synonym FieldMap = "(string \<times> OptionKey option) list"

text \<open>
  One round of the loop of \<^verbatim>\<open>pruneObject\<close>: whether the property \<open>key\<close> survives.
  \<^verbatim>\<open>
  const optKey = map[key];
  if (optKey === null) continue;
  if (!optKey) { if (onlyMode) delete obj[key]; continue; }
  if (!shouldInclude(options, onlyMode, optKey)) delete obj[key];
  \<close>
\<close>

definition keeps :: "FieldMap \<Rightarrow> NormalizedOptions \<Rightarrow> bool \<Rightarrow> string \<Rightarrow> bool" where
  "keeps fmap options onlyMode key =
     (case map_of fmap key of
        Some None \<Rightarrow> True
      | None \<Rightarrow> \<not> onlyMode
      | Some (Some optKey) \<Rightarrow> shouldInclude options onlyMode optKey)"

text \<open>
  \<^verbatim>\<open>for (const key of Object.keys(obj)) { ... delete obj[key] ... }\<close>: the properties
  that survive stay in their order. The parameter is typed \<^verbatim>\<open>Record<string, any>\<close> and
  every caller passes a record of the item tree; on another value the model stops.
\<close>

fun pruneObject :: "jv \<Rightarrow> FieldMap \<Rightarrow> NormalizedOptions \<Rightarrow> bool \<Rightarrow> error + jv" where
  "pruneObject (JObj props) fmap options onlyMode =
     Inr (JObj (filter (\<lambda>(key, v). keeps fmap options onlyMode key) props))"
| "pruneObject v fmap options onlyMode = Inl IllTyped"

text \<open>
  \<^verbatim>\<open>xs.map(f)\<close> on a property value: a value that is not an array has no \<^verbatim>\<open>map\<close>.
\<close>

fun mapArr :: "(jv \<Rightarrow> error + jv) \<Rightarrow> jv \<Rightarrow> error + jv" where
  "mapArr f (JArr xs) = bindE (mapE f xs) (\<lambda>ys. Inr (JArr ys))"
| "mapArr f v = Inl (Thrown ''TypeError: map is not a function'')"

text \<open>
  The recurring statement \<^verbatim>\<open>if (item.key) { item.key = item.key.map(f) }\<close>.
\<close>

definition mapField :: "string \<Rightarrow> (jv \<Rightarrow> error + jv) \<Rightarrow> jv \<Rightarrow> error + jv" where
  "mapField key f item =
     (if truthy (getp item key)
      then bindE (mapArr f (getp item key)) (\<lambda>ys. Inr (setp item key ys))
      else Inr item)"

definition applyParamOptions :: "jv \<Rightarrow> NormalizedOptions \<Rightarrow> bool \<Rightarrow> error + jv" where
  "applyParamOptions param options onlyMode =
     pruneObject param
       [(''name'', Some Name), (''isJSType'', Some IsJSType), (''type'', Some Type),
        (''default'', Some Default), (''defaultParsed'', Some DefaultParsed),
        (''typeAst'', Some TypeAst), (''decorators'', Some Decorators),
        (''loc'', Some Location)]
       options onlyMode"

definition applyMethodParamOptions :: "jv \<Rightarrow> NormalizedOptions \<Rightarrow> bool \<Rightarrow> error + jv" where
  "applyMethodParamOptions param options onlyMode =
     bindE (applyParamOptions param options onlyMode) (\<lambda>param.
     pruneObject param [(''optional'', Some Optional)] options onlyMode)"

definition applyTypeParameterOptions :: "jv \<Rightarrow> NormalizedOptions \<Rightarrow> bool \<Rightarrow> error + jv" where
  "applyTypeParameterOptions tp options onlyMode =
     pruneObject tp
       [(''name'', Some Name), (''constraint'', Some Type), (''default'', Some Default)]
       options onlyMode"

definition applyBaseItemOptions :: "jv \<Rightarrow> NormalizedOptions \<Rightarrow> bool \<Rightarrow> error + jv" where
  "applyBaseItemOptions item options onlyMode =
     pruneObject item
       [(''name'', Some Name), (''type'', Some ItemType), (''level'', Some Level),
        (''exports'', Some ExportInfo), (''jsdoc'', Some JSDoc),
        (''decorators'', Some Decorators), (''loc'', Some Location)]
       options onlyMode"

definition applyFunctionItemOptions :: "jv \<Rightarrow> NormalizedOptions \<Rightarrow> bool \<Rightarrow> error + jv" where
  "applyFunctionItemOptions item options onlyMode =
     bindE (mapField ''arguments'' (\<lambda>p. applyParamOptions p options onlyMode) item) (\<lambda>item.
     bindE (mapField ''typeParameters'' (\<lambda>tp. applyTypeParameterOptions tp options onlyMode) item) (\<lambda>item.
     bindE (applyBaseItemOptions item options onlyMode) (\<lambda>item.
     pruneObject item
       [(''arguments'', Some Arguments), (''typeParameters'', Some TypeParameters),
        (''returnType'', Some ReturnType), (''returnTypeAst'', Some ReturnTypeAST)]
       options onlyMode)))"

definition applyVariableItemOptions :: "jv \<Rightarrow> NormalizedOptions \<Rightarrow> bool \<Rightarrow> error + jv" where
  "applyVariableItemOptions item options onlyMode =
     bindE (applyBaseItemOptions item options onlyMode) (\<lambda>item.
     pruneObject item
       [(''subtype'', Some SubType), (''value'', Some Value), (''valueText'', Some ValueText),
        (''valueParsed'', Some ValueParsed), (''arguments'', Some Arguments)]
       options onlyMode)"

definition applyClassMemberPropertyOptions :: "jv \<Rightarrow> NormalizedOptions \<Rightarrow> bool \<Rightarrow> error + jv" where
  "applyClassMemberPropertyOptions item options onlyMode =
     pruneObject item
       [(''name'', Some Name), (''private'', Some Private), (''static'', Some Static),
        (''readonly'', Some Readonly), (''value'', Some Value), (''type'', Some Type),
        (''decorators'', Some Decorators), (''loc'', Some Location)]
       options onlyMode"

definition applyMethodItemOptions :: "jv \<Rightarrow> NormalizedOptions \<Rightarrow> bool \<Rightarrow> error + jv" where
  "applyMethodItemOptions item options onlyMode =
     bindE (mapField ''arguments'' (\<lambda>p. applyMethodParamOptions p options onlyMode) item) (\<lambda>item.
     bindE (mapField ''typeParameters'' (\<lambda>tp. applyTypeParameterOptions tp options onlyMode) item) (\<lambda>item.
     pruneObject item
       [(''name'', Some Name), (''accessibility'', Some Accessibility),
        (''static'', Some Static), (''async'', Some Async), (''abstract'', Some Abstract),
        (''isGetter'', Some GetterSetter), (''isSetter'', Some GetterSetter),
        (''readonly'', Some Readonly), (''arguments'', Some Arguments),
        (''typeParameters'', Some TypeParameters), (''returnType'', Some ReturnType),
        (''returnTypeAst'', Some ReturnTypeAST), (''decorators'', Some Decorators),
        (''loc'', Some Location), (''jsdoc'', Some JSDoc)]
       options onlyMode))"

definition applyIndexSignatureOptions :: "jv \<Rightarrow> NormalizedOptions \<Rightarrow> bool \<Rightarrow> error + jv" where
  "applyIndexSignatureOptions item options onlyMode =
     pruneObject item
       [(''keyType'', Some KeyType), (''returnType'', Some ReturnType),
        (''readonly'', Some Readonly)]
       options onlyMode"

definition applyEnumMemberOptions :: "jv \<Rightarrow> NormalizedOptions \<Rightarrow> bool \<Rightarrow> error + jv" where
  "applyEnumMemberOptions item options onlyMode =
     pruneObject item
       [(''name'', Some Name), (''value'', Some Value), (''jsdoc'', Some JSDoc)]
       options onlyMode"

definition applyInterfaceMemberPropertyOptions ::
    "jv \<Rightarrow> NormalizedOptions \<Rightarrow> bool \<Rightarrow> error + jv" where
  "applyInterfaceMemberPropertyOptions item options onlyMode =
     pruneObject item
       [(''name'', Some Name), (''optional'', Some Optional), (''readonly'', Some Readonly),
        (''type'', Some Type), (''jsdoc'', Some JSDoc), (''loc'', Some Location)]
       options onlyMode"

definition applyInterfaceMemberMethodOptions ::
    "jv \<Rightarrow> NormalizedOptions \<Rightarrow> bool \<Rightarrow> error + jv" where
  "applyInterfaceMemberMethodOptions item options onlyMode =
     bindE (mapField ''arguments'' (\<lambda>p. applyParamOptions p options onlyMode) item) (\<lambda>item.
     pruneObject item
       [(''name'', Some Name), (''arguments'', Some Arguments),
        (''returnType'', Some ReturnType), (''optional'', Some Optional),
        (''jsdoc'', Some JSDoc), (''loc'', Some Location)]
       options onlyMode)"

text \<open>
  The callback of \<^verbatim>\<open>it.items.map\<close> in the \<^verbatim>\<open>"class"\<close> case of
  \<^verbatim>\<open>applyParsedItemOptions\<close>: a class member is told apart by its shape.
\<close>

definition applyClassMember :: "jv \<Rightarrow> NormalizedOptions \<Rightarrow> bool \<Rightarrow> error + jv" where
  "applyClassMember m options onlyMode =
     (if getp m ''type'' = JStr ''constructor'' then
        bindE (pruneObject m [(''for'', Some For), (''function'', Some Members)] options onlyMode)
          (\<lambda>ctor.
            if truthy (getp ctor ''function'')
            then bindE (applyFunctionItemOptions (getp ctor ''function'') options onlyMode)
                   (\<lambda>f. Inr (setp ctor ''function'' f))
            else Inr ctor)
      else if getp m ''arguments'' \<noteq> JUndefined then applyMethodItemOptions m options onlyMode
      else if getp m ''keyType'' \<noteq> JUndefined then applyIndexSignatureOptions m options onlyMode
      else applyClassMemberPropertyOptions m options onlyMode)"

text \<open>The callback of \<^verbatim>\<open>it.members.map\<close> in the \<^verbatim>\<open>"interface"\<close> case.\<close>

definition applyInterfaceMember :: "jv \<Rightarrow> NormalizedOptions \<Rightarrow> bool \<Rightarrow> error + jv" where
  "applyInterfaceMember m options onlyMode =
     (if getp m ''keyType'' \<noteq> JUndefined then applyIndexSignatureOptions m options onlyMode
      else if getp m ''arguments'' \<noteq> JUndefined
        then applyInterfaceMemberMethodOptions m options onlyMode
      else applyInterfaceMemberPropertyOptions m options onlyMode)"

text \<open>
  The \<^verbatim>\<open>"namespace"\<close> case of \<^verbatim>\<open>applyParsedItemOptions\<close> applies the function to the
  members of the item, so the function is recursive over the item tree. The members are
  read from the item after its base properties are pruned.
\<close>

lemma mapArr_cong [fundef_cong]:
  "v = w \<Longrightarrow> (\<And>xs x. w = JArr xs \<Longrightarrow> x \<in> set xs \<Longrightarrow> f x = g x) \<Longrightarrow> mapArr f v = mapArr g w"
  by (cases w) (auto intro!: bindE_cong mapE_cong)

lemma mapField_cong [fundef_cong]:
  "item = item' \<Longrightarrow> key = key'
   \<Longrightarrow> (\<And>xs x. getp item' key' = JArr xs \<Longrightarrow> x \<in> set xs \<Longrightarrow> f x = g x)
   \<Longrightarrow> mapField key f item = mapField key' g item'"
  unfolding mapField_def by (auto intro!: bindE_cong mapArr_cong)

lemma size_map_of_lt: "map_of props key = Some v \<Longrightarrow> size v < size (JObj props)"
  by (induction props) (auto split: if_splits)

lemma size_getp_elem_lt:
  assumes "getp item key = JArr xs" and "x \<in> set xs"
  shows "size x < size item"
proof (cases item)
  case (JObj props)
  with assms(1) have "map_of props key = Some (JArr xs)"
    by (auto split: option.splits)
  then have "size (JArr xs) < size (JObj props)" by (rule size_map_of_lt)
  moreover from assms(2) have "size x < size (JArr xs)"
    by (induction xs) auto
  ultimately show ?thesis using JObj by simp
qed (use assms in simp_all)

lemma size_filter_le: "size_list f (filter P xs) \<le> size_list f xs"
  by (induction xs) auto

lemma size_pruneObject_le: "pruneObject v fmap options onlyMode = Inr w \<Longrightarrow> size w \<le> size v"
  by (cases v) (auto simp: size_filter_le)

function applyParsedItemOptions :: "jv \<Rightarrow> NormalizedOptions \<Rightarrow> bool \<Rightarrow> error + jv" where
  "applyParsedItemOptions item options onlyMode =
     (if item = JNull \<or> item = JUndefined then
        Inl (Thrown ''TypeError: Cannot read properties of undefined'')
      else if getp item ''type'' = JStr ''variable'' then
        applyVariableItemOptions item options onlyMode
      else if getp item ''type'' = JStr ''function'' then
        applyFunctionItemOptions item options onlyMode
      else if getp item ''type'' = JStr ''type-alias'' then
        bindE (applyBaseItemOptions item options onlyMode) (\<lambda>it.
        bindE (mapField ''typeParameters''
                 (\<lambda>tp. applyTypeParameterOptions tp options onlyMode) it) (\<lambda>it.
        pruneObject it [(''target'', Some Target), (''typeParameters'', Some TypeParameters)]
          options onlyMode))
      else if getp item ''type'' = JStr ''enum'' then
        bindE (applyBaseItemOptions item options onlyMode) (\<lambda>it.
        bindE (mapField ''members'' (\<lambda>m. applyEnumMemberOptions m options onlyMode) it) (\<lambda>it.
        pruneObject it [(''const'', Some Const), (''members'', Some Members)] options onlyMode))
      else if getp item ''type'' = JStr ''class'' then
        bindE (applyBaseItemOptions item options onlyMode) (\<lambda>it.
        bindE (mapField ''typeParameters''
                 (\<lambda>tp. applyTypeParameterOptions tp options onlyMode) it) (\<lambda>it.
        bindE (mapField ''items'' (\<lambda>m. applyClassMember m options onlyMode) it) (\<lambda>it.
        pruneObject it [(''items'', Some Members), (''typeParameters'', Some TypeParameters)]
          options onlyMode)))
      else if getp item ''type'' = JStr ''interface'' then
        bindE (applyBaseItemOptions item options onlyMode) (\<lambda>it.
        bindE (mapField ''typeParameters''
                 (\<lambda>tp. applyTypeParameterOptions tp options onlyMode) it) (\<lambda>it.
        bindE (mapField ''members'' (\<lambda>m. applyInterfaceMember m options onlyMode) it) (\<lambda>it.
        pruneObject it [(''members'', Some Members), (''typeParameters'', Some TypeParameters)]
          options onlyMode)))
      else if getp item ''type'' = JStr ''namespace'' then
        bindE (applyBaseItemOptions item options onlyMode) (\<lambda>it.
        bindE (mapField ''members'' (\<lambda>m. applyParsedItemOptions m options onlyMode) it) (\<lambda>it.
        pruneObject it [(''members'', Some Members)] options onlyMode))
      else Inr item)"
  by pat_completeness auto
termination
proof (relation "measure (\<lambda>(item, options, onlyMode). size item)", goal_cases)
  case 1
  show ?case by simp
next
  case (2 item options onlyMode it xs x)
  from 2(9) have "size it \<le> size item"
    unfolding applyBaseItemOptions_def by (rule size_pruneObject_le)
  moreover from 2(10,11) have "size x < size it" by (rule size_getp_elem_lt)
  ultimately show ?case by simp
qed

declare applyParsedItemOptions.simps [simp del]

section \<open>The source front end\<close>

text \<open>
  The syntax tree comes from the external front end (ts-morph). The parser types every
  node as \<^verbatim>\<open>any\<close> and reaches it through optional calls (\<^verbatim>\<open>node.getText?.()\<close>), so a
  node is modelled as what those calls can observe: a list of named members, each a
  data property, a method with its result, a method that throws, or a method of one
  argument given by the table of its results (\<^verbatim>\<open>undefined\<close> elsewhere).
\<close>

datatype fv =
    FUndef
  | FNull
  | FBool bool
  | FNum int
  | FStr string
  | FFunction
  | FArr "fv list"
  | FNode "(string \<times> member) list"
and member =
    Field fv
  | Method fv
  | Raises string
  | Method1 "(fv \<times> fv) list"

text \<open>
  The members of TypeScript's enum \<^verbatim>\<open>SyntaxKind\<close> that the parser names, with their
  numbers. The parser depends only on their being distinct and on \<^verbatim>\<open>Unknown\<close> being
  the one falsy kind, 0.
\<close>

datatype SyntaxKindName =
    Unknown | NumericLiteral | StringLiteral | FalseKeyword | NullKeyword | TrueKeyword
  | PropertySignature | PropertyDeclaration | MethodSignature | MethodDeclaration
  | Constructor | GetAccessor | SetAccessor | IndexSignature
  | TypePredicate | TypeReference | FunctionType | TypeQuery | TypeLiteral | ArrayType
  | TupleType | OptionalType | RestType | UnionType | IntersectionType | ConditionalType
  | InferType | ParenthesizedType | TypeOperator | IndexedAccessType | MappedType
  | LiteralType | TemplateLiteralType | ImportType
  | VariableStatement | FunctionDeclaration | ClassDeclaration | InterfaceDeclaration
  | TypeAliasDeclaration | EnumDeclaration | ModuleDeclaration | ExportAssignment

fun SyntaxKind :: "SyntaxKindName \<Rightarrow> int" where
  "SyntaxKind Unknown = 0"
| "SyntaxKind NumericLiteral = 9"
| "SyntaxKind StringLiteral = 11"
| "SyntaxKind FalseKeyword = 97"
| "SyntaxKind NullKeyword = 106"
| "SyntaxKind TrueKeyword = 112"
| "SyntaxKind PropertySignature = 171"
| "SyntaxKind PropertyDeclaration = 172"
| "SyntaxKind MethodSignature = 173"
| "SyntaxKind MethodDeclaration = 174"
| "SyntaxKind Constructor = 176"
| "SyntaxKind GetAccessor = 177"
| "SyntaxKind SetAccessor = 178"
| "SyntaxKind IndexSignature = 181"
| "SyntaxKind TypePredicate = 182"
| "SyntaxKind TypeReference = 183"
| "SyntaxKind FunctionType = 184"
| "SyntaxKind TypeQuery = 186"
| "SyntaxKind TypeLiteral = 187"
| "SyntaxKind ArrayType = 188"
| "SyntaxKind TupleType = 189"
| "SyntaxKind OptionalType = 190"
| "SyntaxKind RestType = 191"
| "SyntaxKind UnionType = 192"
| "SyntaxKind IntersectionType = 193"
| "SyntaxKind ConditionalType = 194"
| "SyntaxKind InferType = 195"
| "SyntaxKind ParenthesizedType = 196"
| "SyntaxKind TypeOperator = 198"
| "SyntaxKind IndexedAccessType = 199"
| "SyntaxKind MappedType = 200"
| "SyntaxKind LiteralType = 201"
| "SyntaxKind TemplateLiteralType = 203"
| "SyntaxKind ImportType = 205"
| "SyntaxKind VariableStatement = 243"
| "SyntaxKind FunctionDeclaration = 262"
| "SyntaxKind ClassDeclaration = 263"
| "SyntaxKind InterfaceDeclaration = 264"
| "SyntaxKind TypeAliasDeclaration = 265"
| "SyntaxKind EnumDeclaration = 266"
| "SyntaxKind ModuleDeclaration = 267"
| "SyntaxKind ExportAssignment = 277"

subsection \<open>The JavaScript operations the parser applies to front-end values\<close>

fun nullish :: "fv \<Rightarrow> bool" where
  "nullish FUndef = True"
| "nullish FNull = True"
| "nullish v = False"

text \<open>Truthiness: what \<^verbatim>\<open>!node\<close>, \<^verbatim>\<open>Boolean(x)\<close> and \<^verbatim>\<open>x ? a : b\<close> test.\<close>

fun ftruthy :: "fv \<Rightarrow> bool" where
  "ftruthy FUndef = False"
| "ftruthy FNull = False"
| "ftruthy (FBool b) = b"
| "ftruthy (FNum n) = (n \<noteq> 0)"
| "ftruthy (FStr s) = (s \<noteq> [])"
| "ftruthy FFunction = True"
| "ftruthy (FArr xs) = True"
| "ftruthy (FNode ms) = True"

text \<open>\<^verbatim>\<open>a ?? b\<close>: \<open>b\<close> is evaluated only when \<open>a\<close> is \<^verbatim>\<open>null\<close> or \<^verbatim>\<open>undefined\<close>.\<close>

definition orElse :: "error + fv \<Rightarrow> error + fv \<Rightarrow> error + fv" where
  "orElse a b = bindE a (\<lambda>v. if nullish v then b else Inr v)"

text \<open>
  \<^verbatim>\<open>try { ... } catch (err) { ... }\<close>: the handler receives \<^verbatim>\<open>String(err)\<close>.
\<close>

definition catchE :: "error + 'a \<Rightarrow> (string \<Rightarrow> error + 'a) \<Rightarrow> error + 'a" where
  "catchE m handler = (case m of Inl (Thrown err) \<Rightarrow> handler err | _ \<Rightarrow> m)"

text \<open>
  \<^verbatim>\<open>recv.name?.()\<close>: reading a member of \<^verbatim>\<open>null\<close> or \<^verbatim>\<open>undefined\<close> throws; a member
  that is absent (or a property holding \<^verbatim>\<open>null\<close> or \<^verbatim>\<open>undefined\<close>) gives \<^verbatim>\<open>undefined\<close>;
  a property holding another value is not callable. No accessor name the parser uses
  is a method of a string, a number, a boolean or an array.
\<close>

fun callOpt :: "fv \<Rightarrow> string \<Rightarrow> error + fv" where
  "callOpt FUndef name = Inl (Thrown ''TypeError: Cannot read properties of undefined'')"
| "callOpt FNull name = Inl (Thrown ''TypeError: Cannot read properties of null'')"
| "callOpt (FNode ms) name =
     (case map_of ms name of
        None \<Rightarrow> Inr FUndef
      | Some (Method r) \<Rightarrow> Inr r
      | Some (Raises err) \<Rightarrow> Inl (Thrown err)
      | Some (Method1 tab) \<Rightarrow> Inr (case map_of tab FUndef of None \<Rightarrow> FUndef | Some r \<Rightarrow> r)
      | Some (Field v) \<Rightarrow>
          if nullish v then Inr FUndef else Inl (Thrown ''TypeError: not a function''))"
| "callOpt v name = Inr FUndef"

text \<open>\<^verbatim>\<open>recv?.name?.()\<close>: as before, but \<^verbatim>\<open>undefined\<close> for a receiver that is nullish.\<close>

definition chainOpt :: "fv \<Rightarrow> string \<Rightarrow> error + fv" where
  "chainOpt recv name = (if nullish recv then Inr FUndef else callOpt recv name)"

text \<open>\<^verbatim>\<open>recv.name?.(arg)\<close>, a call with one argument.\<close>

fun callOpt1 :: "fv \<Rightarrow> string \<Rightarrow> fv \<Rightarrow> error + fv" where
  "callOpt1 FUndef name arg = Inl (Thrown ''TypeError: Cannot read properties of undefined'')"
| "callOpt1 FNull name arg = Inl (Thrown ''TypeError: Cannot read properties of null'')"
| "callOpt1 (FNode ms) name arg =
     (case map_of ms name of
        None \<Rightarrow> Inr FUndef
      | Some (Method r) \<Rightarrow> Inr r
      | Some (Raises err) \<Rightarrow> Inl (Thrown err)
      | Some (Method1 tab) \<Rightarrow> Inr (case map_of tab arg of None \<Rightarrow> FUndef | Some r \<Rightarrow> r)
      | Some (Field v) \<Rightarrow>
          if nullish v then Inr FUndef else Inl (Thrown ''TypeError: not a function''))"
| "callOpt1 v name arg = Inr FUndef"

text \<open>\<^verbatim>\<open>recv.name()\<close> and \<^verbatim>\<open>recv.name(arg)\<close>: a member that is not a method throws.\<close>

fun callStrict :: "fv \<Rightarrow> string \<Rightarrow> error + fv" where
  "callStrict (FNode ms) name =
     (case map_of ms name of
        Some (Method r) \<Rightarrow> Inr r
      | Some (Raises err) \<Rightarrow> Inl (Thrown err)
      | Some (Method1 tab) \<Rightarrow> Inr (case map_of tab FUndef of None \<Rightarrow> FUndef | Some r \<Rightarrow> r)
      | _ \<Rightarrow> Inl (Thrown ''TypeError: not a function''))"
| "callStrict v name = Inl (Thrown ''TypeError: not a function'')"

fun callStrict1 :: "fv \<Rightarrow> string \<Rightarrow> fv \<Rightarrow> error + fv" where
  "callStrict1 (FNode ms) name arg =
     (case map_of ms name of
        Some (Method r) \<Rightarrow> Inr r
      | Some (Raises err) \<Rightarrow> Inl (Thrown err)
      | Some (Method1 tab) \<Rightarrow> Inr (case map_of tab arg of None \<Rightarrow> FUndef | Some r \<Rightarrow> r)
      | _ \<Rightarrow> Inl (Thrown ''TypeError: not a function''))"
| "callStrict1 v name arg = Inl (Thrown ''TypeError: not a function'')"

text \<open>
  \<^verbatim>\<open>recv.name\<close> on a receiver that is not nullish: a method read as a property is a
  function value.
\<close>

fun propOf :: "fv \<Rightarrow> string \<Rightarrow> fv" where
  "propOf (FNode ms) name =
     (case map_of ms name of None \<Rightarrow> FUndef | Some (Field v) \<Rightarrow> v | Some _ \<Rightarrow> FFunction)"
| "propOf v name = FUndef"

text \<open>\<^verbatim>\<open>xs.length\<close> of an array or a string; other values have none.\<close>

fun lengthOf :: "fv \<Rightarrow> fv" where
  "lengthOf (FArr xs) = FNum (int (length xs))"
| "lengthOf (FStr s) = FNum (int (length s))"
| "lengthOf (FNode ms) = propOf (FNode ms) ''length''"
| "lengthOf v = FUndef"

text \<open>Decimal digits of a number, for \<^verbatim>\<open>String(n)\<close>.\<close>

fun digits :: "nat \<Rightarrow> string" where
  "digits n =
     (if n < 10 then [char_of (48 + n)]
      else digits (n div 10) @ [char_of (48 + n mod 10)])"

definition join :: "string \<Rightarrow> string list \<Rightarrow> string" where
  "join sep parts = (case parts of [] \<Rightarrow> [] | p # ps \<Rightarrow> p @ concat (map (\<lambda>q. sep @ q) ps))"

text \<open>
  \<^verbatim>\<open>String(v)\<close>. A node has no \<^verbatim>\<open>toString\<close> of its own; the text of a function value
  is not modelled.
\<close>

fun String :: "fv \<Rightarrow> string" where
  "String FUndef = ''undefined''"
| "String FNull = ''null''"
| "String (FBool b) = (if b then ''true'' else ''false'')"
| "String (FNum n) = (if n < 0 then CHR ''-'' # digits (nat (- n)) else digits (nat n))"
| "String (FStr s) = s"
| "String FFunction = ''function () { [native code] }''"
| "String (FArr xs) = join '','' (map (\<lambda>x. if nullish x then [] else String x) xs)"
| "String (FNode ms) = ''[object Object]''"

text \<open>
  JavaScript white space within the 8-bit characters, and \<^verbatim>\<open>s.trim()\<close>.
\<close>

definition isSpace :: "char \<Rightarrow> bool" where
  "isSpace c = (c \<in> set [CHR 0x20, CHR 0x09, CHR 0x0A, CHR 0x0B, CHR 0x0C, CHR 0x0D, CHR 0xA0])"

definition trim :: "string \<Rightarrow> string" where
  "trim s = rev (dropWhile isSpace (rev (dropWhile isSpace s)))"

text \<open>
  A front-end value that the parser stores in an item, as output value: the same
  primitive; of a node, its data properties.
\<close>

fun toJ :: "fv \<Rightarrow> jv" and toJ_props :: "(string \<times> member) list \<Rightarrow> obj" where
  "toJ FUndef = JUndefined"
| "toJ FNull = JNull"
| "toJ (FBool b) = JBool b"
| "toJ (FNum n) = JNum n"
| "toJ (FStr s) = JStr s"
| "toJ FFunction = JUndefined"
| "toJ (FArr xs) = JArr (map toJ xs)"
| "toJ (FNode ms) = JObj (toJ_props ms)"
| "toJ_props [] = []"
| "toJ_props ((name, Field v) # ms) = (name, toJ v) # toJ_props ms"
| "toJ_props ((name, m) # ms) = toJ_props ms"

section \<open>The type expression normalizer\<close>

lemma catchE_cong [fundef_cong]:
  "m = m' \<Longrightarrow> (\<And>err. m' = Inl (Thrown err) \<Longrightarrow> h err = h' err) \<Longrightarrow> catchE m h = catchE m' h'"
  by (auto simp: catchE_def split: sum.splits error.splits)

text \<open>
  \<^verbatim>\<open>xs.map(f)\<close> on a value of the front end, giving an array of output values.
\<close>

fun mapF :: "(fv \<Rightarrow> error + jv) \<Rightarrow> fv \<Rightarrow> error + jv" where
  "mapF f (FArr xs) = bindE (mapE f xs) (\<lambda>ys. Inr (JArr ys))"
| "mapF f v = Inl (Thrown ''TypeError: map is not a function'')"

lemma mapF_cong [fundef_cong]:
  "v = w \<Longrightarrow> (\<And>xs x. w = FArr xs \<Longrightarrow> x \<in> set xs \<Longrightarrow> f x = g x) \<Longrightarrow> mapF f v = mapF g w"
  by (cases w) (auto intro!: bindE_cong mapE_cong)

text \<open>
  Every node that \<^verbatim>\<open>parseTypeNode\<close> calls itself on is a part of its argument: the
  result of an accessor call or a property of the node, an element of such an array,
  or what an accessor of such an element returns.
\<close>

lemma size_member_lt: "map_of ms name = Some m \<Longrightarrow> size m < size (FNode ms)"
  by (induction ms) (auto split: if_splits)

lemma size_table_lt: "map_of tab arg = Some r \<Longrightarrow> size r < size (Method1 tab)"
  by (induction tab) (auto split: if_splits)

lemma callOpt_node_lt: "callOpt (FNode ms) name = Inr v \<Longrightarrow> size v < size (FNode ms)"
  by (auto split: option.splits member.splits if_splits dest!: size_member_lt size_table_lt)

lemma propOf_node_lt: "size (propOf (FNode ms) name) < size (FNode ms)"
  by (auto split: option.splits member.splits dest!: size_member_lt)

lemma callOpt_le: "callOpt n name = Inr v \<Longrightarrow> size v \<le> size n"
  by (cases n) (auto dest!: callOpt_node_lt simp del: callOpt.simps(3))

lemma size_elem_lt: "x \<in> set xs \<Longrightarrow> size x < size (FArr xs)"
  by (induction xs) auto

lemma orElse_cases: "orElse a b = Inr v \<Longrightarrow> a = Inr v \<or> b = Inr v"
  by (auto simp: orElse_def bindE_def split: sum.splits if_splits)

lemma node_of_kind:
  "orElse (callOpt node ''getKind'') (Inr (propOf node ''kind'')) = Inr (FNum c) \<Longrightarrow> \<exists>ms. node = FNode ms"
  by (cases node) (auto simp: orElse_def bindE_def)

lemma orElse_node_lt:
  assumes "orElse a b = Inr v" and "a = Inr v \<Longrightarrow> size v < size n" and "b = Inr v \<Longrightarrow> size v < size n"
  shows "size v < size n"
  using assms orElse_cases by blast

lemma term_child:
  assumes "orElse (callOpt node ''getKind'') (Inr (propOf node ''kind'')) = Inr k" "k = FNum c"
    and "callOpt node a = Inr v"
  shows "(v, node) \<in> measure size"
  using assms node_of_kind callOpt_node_lt by fastforce

lemma term_child_or_prop:
  assumes "orElse (callOpt node ''getKind'') (Inr (propOf node ''kind'')) = Inr k" "k = FNum c"
    and "orElse (callOpt node a) (Inr (propOf node b)) = Inr v"
  shows "(v, node) \<in> measure size"
proof -
  from assms(1,2) obtain ms where n: "node = FNode ms" using node_of_kind by blast
  from assms(3) have "size v < size (FNode ms)" unfolding n
    using callOpt_node_lt [of ms a v] propOf_node_lt [of ms b] orElse_cases by fastforce
  then show ?thesis by (simp add: n)
qed

lemma term_elem:
  assumes "orElse (callOpt node ''getKind'') (Inr (propOf node ''kind'')) = Inr k" "k = FNum c"
    and "orElse (callOpt node a) (Inr (FArr [])) = Inr arr" "arr = FArr xs" "x \<in> set xs"
  shows "(x, node) \<in> measure size"
proof -
  from assms(1,2) obtain ms where n: "node = FNode ms" using node_of_kind by blast
  from assms(3,4) have "callOpt node a = Inr (FArr xs) \<or> xs = []"
    using orElse_cases by fastforce
  with assms(5) have "callOpt (FNode ms) a = Inr (FArr xs)" by (auto simp: n)
  then have "size (FArr xs) < size (FNode ms)" by (rule callOpt_node_lt)
  with size_elem_lt [OF assms(5)] show ?thesis by (simp add: n)
qed

lemma term_elem_or_prop:
  assumes "orElse (callOpt node ''getKind'') (Inr (propOf node ''kind'')) = Inr k" "k = FNum c"
    and "orElse (orElse (callOpt node a) (Inr (propOf node b))) (Inr (FArr [])) = Inr arr"
      "arr = FArr xs" "x \<in> set xs"
  shows "(x, node) \<in> measure size"
proof -
  from assms(1,2) obtain ms where n: "node = FNode ms" using node_of_kind by blast
  from assms(3,4) have "orElse (callOpt node a) (Inr (propOf node b)) = Inr (FArr xs) \<or> xs = []"
    using orElse_cases by fastforce
  with assms(5) have "orElse (callOpt (FNode ms) a) (Inr (propOf (FNode ms) b)) = Inr (FArr xs)"
    by (auto simp: n)
  then have "size (FArr xs) < size (FNode ms)"
    using callOpt_node_lt [of ms a "FArr xs"] propOf_node_lt [of ms b] orElse_cases by fastforce
  with size_elem_lt [OF assms(5)] show ?thesis by (simp add: n)
qed

lemma term_elem_tuple:
  assumes "orElse (callOpt node ''getKind'') (Inr (propOf node ''kind'')) = Inr k" "k = FNum c"
    and "orElse (orElse (orElse (callOpt node a) (callOpt node a')) (Inr (propOf node b)))
           (Inr (FArr [])) = Inr arr"
      "arr = FArr xs" "x \<in> set xs"
  shows "(x, node) \<in> measure size"
proof -
  from assms(1,2) obtain ms where n: "node = FNode ms" using node_of_kind by blast
  from assms(3,4) have "callOpt node a = Inr (FArr xs) \<or> callOpt node a' = Inr (FArr xs)
      \<or> propOf node b = FArr xs \<or> xs = []"
    by (auto dest!: orElse_cases)
  with assms(5) have "size (FArr xs) < size (FNode ms)"
    using callOpt_node_lt [of ms a "FArr xs"] callOpt_node_lt [of ms a' "FArr xs"]
      propOf_node_lt [of ms b] by (auto simp: n simp del: callOpt.simps propOf.simps)
  with size_elem_lt [OF assms(5)] show ?thesis by (simp add: n)
qed

lemma term_elem_child:
  assumes "orElse (callOpt node ''getKind'') (Inr (propOf node ''kind'')) = Inr k" "k = FNum c"
    and "orElse (callOpt node a) (Inr (FArr [])) = Inr arr" "arr = FArr xs" "x \<in> set xs"
    and "callOpt x b = Inr v"
  shows "(v, node) \<in> measure size"
proof -
  from term_elem [OF assms(1-5)] have "size x < size node" by simp
  with callOpt_le [OF assms(6)] show ?thesis by simp
qed

text \<open>\<^verbatim>\<open>recv.acc?.()?.getText?.()\<close>\<close>

definition textOf :: "fv \<Rightarrow> string \<Rightarrow> error + fv" where
  "textOf recv acc = bindE (callOpt recv acc) (\<lambda>t. chainOpt t ''getText'')"

function parseTypeNode :: "fv \<Rightarrow> error + jv" where
  "parseTypeNode node =
    (if \<not> ftruthy node then Inr JUndefined else
     bindE (orElse (orElse (callOpt node ''getKindName'') (callOpt node ''getKind''))
                   (Inr (propOf node ''kind''))) (\<lambda>kind.
     bindE (orElse (callOpt node ''getText'') (Inr (FStr (String node)))) (\<lambda>text.
     catchE
       (bindE (orElse (callOpt node ''getKind'') (Inr (propOf node ''kind''))) (\<lambda>k.
          if k = FNum (SyntaxKind UnionType) then
            bindE (bindE (orElse (orElse (callOpt node ''getTypeNodes'')
                                         (Inr (propOf node ''types'')))
                                 (Inr (FArr [])))
                         (mapF parseTypeNode)) (\<lambda>types.
            Inr (JObj [(''kind'', JStr ''union''), (''text'', toJ text), (''types'', types)]))
          else if k = FNum (SyntaxKind IntersectionType) then
            bindE (bindE (orElse (orElse (callOpt node ''getTypeNodes'')
                                         (Inr (propOf node ''types'')))
                                 (Inr (FArr [])))
                         (mapF parseTypeNode)) (\<lambda>types.
            Inr (JObj [(''kind'', JStr ''intersection''), (''text'', toJ text),
                       (''types'', types)]))
          else if k = FNum (SyntaxKind ArrayType) then
            bindE (bindE (orElse (callOpt node ''getElementTypeNode'')
                                 (Inr (propOf node ''elementType'')))
                         parseTypeNode) (\<lambda>element.
            Inr (JObj [(''kind'', JStr ''array''), (''text'', toJ text), (''element'', element)]))
          else if k = FNum (SyntaxKind TupleType) then
            bindE (bindE (orElse (orElse (orElse (callOpt node ''getElements'')
                                                 (callOpt node ''getElementTypes''))
                                         (Inr (propOf node ''elementTypes'')))
                                 (Inr (FArr [])))
                         (mapF parseTypeNode)) (\<lambda>elements.
            Inr (JObj [(''kind'', JStr ''tuple''), (''text'', toJ text),
                       (''elements'', elements)]))
          else if k = FNum (SyntaxKind OptionalType) then
            bindE (bindE (orElse (callOpt node ''getType'') (Inr (propOf node ''elementType'')))
                         parseTypeNode) (\<lambda>ty.
            Inr (JObj [(''kind'', JStr ''optional''), (''text'', toJ text), (''type'', ty)]))
          else if k = FNum (SyntaxKind RestType) then
            bindE (bindE (orElse (callOpt node ''getType'') (Inr (propOf node ''elementType'')))
                         parseTypeNode) (\<lambda>ty.
            Inr (JObj [(''kind'', JStr ''rest''), (''text'', toJ text), (''type'', ty)]))
          else if k = FNum (SyntaxKind LiteralType) then
            bindE (orElse (textOf node ''getLiteral'') (Inr text)) (\<lambda>v.
            Inr (JObj [(''kind'', JStr ''literal''), (''text'', toJ text), (''value'', toJ v)]))
          else if k = FNum (SyntaxKind TemplateLiteralType) then
            bindE (bindE (orElse (callOpt node ''getTemplateSpans'') (Inr (FArr [])))
                     (mapF (\<lambda>s.
                        bindE (bindE (callOpt s ''getType'') parseTypeNode) (\<lambda>ty.
                        bindE (textOf s ''getLiteral'') (\<lambda>literal.
                        Inr (JObj [(''type'', ty), (''literal'', toJ literal)])))))) (\<lambda>spans.
            Inr (JObj [(''kind'', JStr ''template-literal''), (''text'', toJ text),
                       (''spans'', spans)]))
          else if k = FNum (SyntaxKind FunctionType) then
            bindE (bindE (orElse (callOpt node ''getParameters'') (Inr (FArr [])))
                     (mapF (\<lambda>p.
                        bindE (callOpt p ''getName'') (\<lambda>name.
                        bindE (textOf p ''getTypeNode'') (\<lambda>ty.
                        bindE (bindE (callOpt p ''getTypeNode'') parseTypeNode) (\<lambda>typeAst.
                        Inr (JObj [(''name'', toJ name), (''type'', toJ ty),
                                   (''typeAst'', typeAst)]))))))) (\<lambda>parameters.
            bindE (textOf node ''getReturnType'') (\<lambda>returnType.
            bindE (bindE (callOpt node ''getReturnType'') parseTypeNode) (\<lambda>returnTypeAst.
            Inr (JObj [(''kind'', JStr ''function''), (''text'', toJ text),
                       (''parameters'', parameters), (''returnType'', toJ returnType),
                       (''returnTypeAst'', returnTypeAst)]))))
          else if k = FNum (SyntaxKind ParenthesizedType) then
            bindE (bindE (callOpt node ''getType'') parseTypeNode) (\<lambda>ty.
            Inr (JObj [(''kind'', JStr ''parenthesized''), (''text'', toJ text), (''type'', ty)]))
          else if k = FNum (SyntaxKind TypeReference) then
            bindE (orElse (textOf node ''getTypeName'') (callOpt node ''getText'')) (\<lambda>typeName.
            bindE (bindE (orElse (callOpt node ''getTypeArguments'') (Inr (FArr [])))
                         (mapF parseTypeNode)) (\<lambda>typeArguments.
            Inr (JObj [(''kind'', JStr ''reference''), (''text'', toJ text),
                       (''name'', toJ typeName), (''typeArguments'', typeArguments)])))
          else if k = FNum (SyntaxKind TypeOperator) then
            bindE (orElse (textOf node ''getOperator'') (callOpt node ''getOperator'')) (\<lambda>operator.
            bindE (bindE (callOpt node ''getType'') parseTypeNode) (\<lambda>ty.
            Inr (JObj [(''kind'', JStr ''type-operator''), (''text'', toJ text),
                       (''operator'', toJ operator), (''type'', ty)])))
          else if k = FNum (SyntaxKind IndexedAccessType) then
            bindE (bindE (callOpt node ''getObjectType'') parseTypeNode) (\<lambda>objectType.
            bindE (bindE (callOpt node ''getIndexType'') parseTypeNode) (\<lambda>indexType.
            Inr (JObj [(''kind'', JStr ''indexed-access''), (''text'', toJ text),
                       (''objectType'', objectType), (''indexType'', indexType)])))
          else if k = FNum (SyntaxKind MappedType) then
            bindE (textOf node ''getTypeParameter'') (\<lambda>typeParameter.
            bindE (textOf node ''getNameType'') (\<lambda>nameType.
            bindE (textOf node ''getQuestionToken'') (\<lambda>optional.
            bindE (textOf node ''getReadonlyToken'') (\<lambda>readonly.
            bindE (bindE (callOpt node ''getType'') parseTypeNode) (\<lambda>ty.
            Inr (JObj [(''kind'', JStr ''mapped''), (''text'', toJ text),
                       (''typeParameter'', toJ typeParameter), (''nameType'', toJ nameType),
                       (''optional'', toJ optional), (''readonly'', toJ readonly),
                       (''type'', ty)]))))))
          else if k = FNum (SyntaxKind ConditionalType) then
            bindE (bindE (callOpt node ''getCheckType'') parseTypeNode) (\<lambda>checkType.
            bindE (bindE (callOpt node ''getExtendsType'') parseTypeNode) (\<lambda>extendsType.
            bindE (bindE (callOpt node ''getTrueType'') parseTypeNode) (\<lambda>trueType.
            bindE (bindE (callOpt node ''getFalseType'') parseTypeNode) (\<lambda>falseType.
            Inr (JObj [(''kind'', JStr ''conditional''), (''text'', toJ text),
                       (''checkType'', checkType), (''extendsType'', extendsType),
                       (''trueType'', trueType), (''falseType'', falseType)])))))
          else if k = FNum (SyntaxKind TypePredicate) then
            bindE (textOf node ''getParameterName'') (\<lambda>parameterName.
            bindE (callOpt node ''getAssertKeyword'') (\<lambda>assertKeyword.
            bindE (bindE (callOpt node ''getType'') parseTypeNode) (\<lambda>ty.
            Inr (JObj [(''kind'', JStr ''predicate''), (''text'', toJ text),
                       (''parameterName'', toJ parameterName),
                       (''asserts'', JBool (ftruthy assertKeyword)), (''type'', ty)]))))
          else if k = FNum (SyntaxKind TypeQuery) then
            bindE (orElse (textOf node ''getExprName'') (callOpt node ''getText'')) (\<lambda>exprName.
            Inr (JObj [(''kind'', JStr ''type-query''), (''text'', toJ text),
                       (''exprName'', toJ exprName)]))
          else if k = FNum (SyntaxKind InferType) then
            bindE (textOf node ''getTypeParameter'') (\<lambda>typeParameter.
            Inr (JObj [(''kind'', JStr ''infer''), (''text'', toJ text),
                       (''typeParameter'', toJ typeParameter)]))
          else if k = FNum (SyntaxKind TemplateLiteralType) then
            Inr (JObj [(''kind'', JStr ''template-literal''), (''text'', toJ text)])
          else if k = FNum (SyntaxKind TypeLiteral) then
            bindE (bindE (orElse (callOpt node ''getMembers'') (Inr (FArr [])))
                     (mapF (\<lambda>m.
                        bindE (orElse (callOpt m ''getName'') (Inr (FStr []))) (\<lambda>name.
                        bindE (textOf m ''getTypeNode'') (\<lambda>ty.
                        bindE (bindE (callOpt m ''getTypeNode'') parseTypeNode) (\<lambda>typeAst.
                        bindE (orElse (callOpt1 m ''hasModifier'' (FStr ''readonly''))
                                      (Inr (FBool False))) (\<lambda>readonly.
                        Inr (JObj [(''name'', toJ name), (''type'', toJ ty),
                                   (''typeAst'', typeAst),
                                   (''readonly'', toJ readonly)])))))))) (\<lambda>properties.
            Inr (JObj [(''kind'', JStr ''object''), (''text'', toJ text),
                       (''properties'', properties)]))
          else if k = FNum (SyntaxKind TupleType) then
            bindE (bindE (orElse (callOpt node ''getElementTypes'') (Inr (FArr [])))
                         (mapF parseTypeNode)) (\<lambda>elements.
            Inr (JObj [(''kind'', JStr ''tuple''), (''text'', toJ text),
                       (''elements'', elements)]))
          else if k = FNum (SyntaxKind ImportType) then
            bindE (orElse (textOf node ''getArgument'') (callOpt node ''getText'')) (\<lambda>argument.
            Inr (JObj [(''kind'', JStr ''import''), (''text'', toJ text),
                       (''argument'', toJ argument)]))
          else Inr (JObj [(''kind'', JStr ''unknown''), (''kindName'', toJ kind),
                          (''text'', toJ text)])))
       (\<lambda>err. Inr (JObj [(''kind'', JStr ''unknown''), (''text'', toJ text),
                          (''error'', JStr err)])))))"
  by pat_completeness auto
termination
  apply (relation "measure size")
   apply simp
  apply (rule term_child term_child_or_prop term_elem term_elem_or_prop term_elem_tuple
      term_elem_child; assumption)+
  done

declare parseTypeNode.simps [simp del]

section \<open>Best-effort literal values\<close>

text \<open>
  What the parser takes from the JavaScript runtime and from the external front end:
  \<^verbatim>\<open>Number(x)\<close>; \<^verbatim>\<open>project.createSourceFile(name, text)\<close>, the syntax tree of a text;
  and the three regular expressions of \<^verbatim>\<open>parseWithTsMorph\<close>, each as the function
  from the text to what the parser reads off the match (the first group, if any).
\<close>

record runtime =
  Number :: "fv \<Rightarrow> jv"
  createSourceFile :: "string \<Rightarrow> string \<Rightarrow> fv"
  isProbablyTS :: "string \<Rightarrow> bool"
  matchIndexKey :: "string \<Rightarrow> string option"
  matchIndexReturn :: "string \<Rightarrow> string option"

text \<open>
  \<^verbatim>\<open>t?.slice?.(0, 200)\<close>: the first 200 code units of a string (the first 200 elements
  of an array); \<^verbatim>\<open>undefined\<close> for a value without \<^verbatim>\<open>slice\<close>.
\<close>

fun slice200 :: "fv \<Rightarrow> error + fv" where
  "slice200 (FStr s) = Inr (FStr (take 200 s))"
| "slice200 (FArr xs) = Inr (FArr (take 200 xs))"
| "slice200 (FNode ms) = callOpt (FNode ms) ''slice''"
| "slice200 v = Inr FUndef"

definition literalValueText :: "runtime \<Rightarrow> fv \<Rightarrow> error + jv" where
  "literalValueText rt init =
     (if \<not> ftruthy init then Inr JUndefined else
      bindE (orElse (callOpt init ''getKind'') (Inr (propOf init ''kind''))) (\<lambda>k.
      if \<not> ftruthy k then Inr JUndefined
      else if k = FNum (SyntaxKind StringLiteral) then
        bindE (callStrict init ''getLiteralText'') (\<lambda>v. Inr (toJ v))
      else if k = FNum (SyntaxKind NumericLiteral) then
        bindE (callStrict init ''getText'') (\<lambda>t. Inr (Number rt t))
      else if k = FNum (SyntaxKind TrueKeyword) then Inr (JBool True)
      else if k = FNum (SyntaxKind FalseKeyword) then Inr (JBool False)
      else if k = FNum (SyntaxKind NullKeyword) then Inr JNull
      else bindE (callOpt init ''getText'') (\<lambda>t. bindE (slice200 t) (\<lambda>v. Inr (toJ v)))))"

section \<open>The declaration extractor\<close>

subsection \<open>More of the JavaScript runtime\<close>

text \<open>\<^verbatim>\<open>xs.map(f)\<close> on a value of the front end, giving the list of the results.\<close>

fun mapList :: "(fv \<Rightarrow> error + 'a) \<Rightarrow> fv \<Rightarrow> error + 'a list" where
  "mapList f (FArr xs) = mapE f xs"
| "mapList f v = Inl (Thrown ''TypeError: map is not a function'')"

text \<open>\<^verbatim>\<open>for (const x of xs)\<close>: the values the loop visits; only arrays and strings iterate.\<close>

fun forOf :: "fv \<Rightarrow> error + fv list" where
  "forOf (FArr xs) = Inr xs"
| "forOf (FStr s) = Inr (map (\<lambda>c. FStr [c]) s)"
| "forOf v = Inl (Thrown ''TypeError: not iterable'')"

text \<open>A string method (\<^verbatim>\<open>startsWith\<close>, \<^verbatim>\<open>match\<close>) called on a value: only a string has it.\<close>

fun asString :: "fv \<Rightarrow> error + string" where
  "asString (FStr s) = Inr s"
| "asString v = Inl (Thrown ''TypeError: not a function'')"

text \<open>\<^verbatim>\<open>x ?? undefined\<close> on an output value.\<close>

fun orUndefined :: "jv \<Rightarrow> jv" where
  "orUndefined JNull = JUndefined"
| "orUndefined v = v"

text \<open>
  \<^verbatim>\<open>node.asKind(kind)\<close> is the front end's: the node itself when its kind is \<open>kind\<close>,
  otherwise \<^verbatim>\<open>undefined\<close>.
\<close>

definition asKind :: "fv \<Rightarrow> SyntaxKindName \<Rightarrow> error + fv" where
  "asKind node kind =
     bindE (callOpt node ''getKind'') (\<lambda>k.
     Inr (if k = FNum (SyntaxKind kind) then node else FUndef))"

text \<open>
  \<^verbatim>\<open>{ ...it, level: "sub" }\<close>: a copy of the item with \<^verbatim>\<open>level\<close> set. The items
  spread here are the records a recursive call returned.
\<close>

fun withLevelSub :: "jv \<Rightarrow> jv" where
  "withLevelSub (JObj props) = JObj (assign props ''level'' (JStr ''sub''))"
| "withLevelSub v = JObj [(''level'', JStr ''sub'')]"

subsection \<open>Helpers of the extractor\<close>

text \<open>
  \<^verbatim>\<open>
  if (optionsJsDoc === "never") return null;
  return (node.getJsDocs?.() ?? []).map((d) => d.getInnerText()).join("\n").trim();
  \<close>
\<close>

definition getJsDocText :: "fv \<Rightarrow> OptionMode option \<Rightarrow> error + jv" where
  "getJsDocText node optionsJsDoc =
     (if optionsJsDoc = Some Never then Inr JNull else
      bindE (orElse (callOpt node ''getJsDocs'') (Inr (FArr []))) (\<lambda>docs.
      bindE (mapList (\<lambda>d. callStrict d ''getInnerText'') docs) (\<lambda>texts.
      Inr (JStr (trim (join [CHR 0x0A]
             (map (\<lambda>t. if nullish t then [] else String t) texts)))))))"

text \<open>
  \<^verbatim>\<open>node.isDefaultExport?.() ? "default" : node.isExported?.() ? "normal" : "none"\<close>, the
  expression every declaration item takes its \<^verbatim>\<open>exports\<close> from.
\<close>

definition exportKind :: "fv \<Rightarrow> error + jv" where
  "exportKind node =
     bindE (callOpt node ''isDefaultExport'') (\<lambda>d.
     if ftruthy d then Inr (JStr ''default'')
     else bindE (callOpt node ''isExported'') (\<lambda>e.
          Inr (JStr (if ftruthy e then ''normal'' else ''none''))))"

definition typeParamsOf :: "fv \<Rightarrow> error + jv" where
  "typeParamsOf node =
     bindE (orElse (callOpt node ''getTypeParameters'') (Inr (FArr []))) (\<lambda>tps.
     if \<not> ftruthy (lengthOf tps) then Inr JUndefined
     else mapF (\<lambda>tp.
            bindE (orElse (callOpt tp ''getName'') (Inr (FStr []))) (\<lambda>name.
            bindE (textOf tp ''getConstraint'') (\<lambda>constraint.
            bindE (textOf tp ''getDefault'') (\<lambda>dflt.
            Inr (JObj [(''name'', toJ name), (''constraint'', toJ constraint),
                       (''default'', toJ dflt)]))))) tps)"

text \<open>
  \<^verbatim>\<open>s.line\<close> where \<open>s\<close> is what \<^verbatim>\<open>getLineAndColumnAtPos\<close> returned: reading a property
  of \<^verbatim>\<open>null\<close> or \<^verbatim>\<open>undefined\<close> throws.
\<close>

definition readProp :: "fv \<Rightarrow> string \<Rightarrow> error + fv" where
  "readProp recv name =
     (if nullish recv then Inl (Thrown ''TypeError: Cannot read properties of undefined'')
      else Inr (propOf recv name))"

definition locOf :: "fv \<Rightarrow> error + jv" where
  "locOf node =
     catchE
       (bindE (orElse (callOpt node ''getSourceFile'') (callOpt node ''getSourceFile'')) (\<lambda>src.
        bindE (orElse (callOpt node ''getStart'') (callOpt node ''getPos'')) (\<lambda>start.
        bindE (orElse (callOpt node ''getEnd'') (callOpt node ''getEnd'')) (\<lambda>end.
        if \<not> ftruthy src \<or> nullish start \<or> nullish end then Inr JUndefined
        else
          bindE (callStrict1 src ''getLineAndColumnAtPos'' start) (\<lambda>s.
          bindE (callStrict1 src ''getLineAndColumnAtPos'' end) (\<lambda>e.
          bindE (readProp s ''line'') (\<lambda>sl.
          bindE (readProp s ''column'') (\<lambda>sc.
          bindE (readProp e ''line'') (\<lambda>el.
          bindE (readProp e ''column'') (\<lambda>ec.
          Inr (JObj [(''start'', JObj [(''line'', toJ sl), (''column'', toJ sc)]),
                     (''end'', JObj [(''line'', toJ el), (''column'', toJ ec)])])))))))))))
       (\<lambda>err. Inr JUndefined)"

definition parseDecorators :: "fv \<Rightarrow> error + jv" where
  "parseDecorators node =
     bindE (orElse (callOpt node ''getDecorators'') (Inr (FArr []))) (\<lambda>decs.
     if \<not> ftruthy (lengthOf decs) then Inr JUndefined
     else mapF (\<lambda>d.
            bindE (orElse (orElse (callOpt d ''getName'')
                             (bindE (callOpt d ''getExpression'') (\<lambda>e.
                              bindE (chainOpt e ''getExpression'') (\<lambda>e2.
                              chainOpt e2 ''getText''))))
                     (textOf d ''getExpression'')) (\<lambda>name.
            bindE (bindE (orElse (callOpt d ''getArguments'') (Inr (FArr [])))
                     (mapF (\<lambda>a. bindE (orElse (callOpt a ''getText'') (Inr (FStr (String a))))
                                   (\<lambda>t. Inr (toJ t))))) (\<lambda>arguments.
            bindE (callOpt d ''getText'') (\<lambda>txt.
            Inr (JObj [(''name'', toJ name), (''arguments'', arguments),
                       (''text'', toJ txt)]))))) decs)"

definition paramInfo :: "runtime \<Rightarrow> fv \<Rightarrow> error + jv" where
  "paramInfo rt param =
     bindE (callOpt param ''getInitializer'') (\<lambda>init.
     bindE (orElse (callOpt param ''getName'')
              (bindE (orElse (callOpt param ''getText'') (Inr (FStr [])))
                 (\<lambda>t. Inr (FStr (String t))))) (\<lambda>name.
     bindE (callOpt param ''getTypeNode'') (\<lambda>tn.
     bindE (textOf param ''getTypeNode'') (\<lambda>ty.
     bindE (chainOpt init ''getText'') (\<lambda>dflt.
     bindE (literalValueText rt init) (\<lambda>defaultParsed.
     bindE (bindE (callOpt param ''getTypeNode'') parseTypeNode) (\<lambda>typeAst.
     bindE (parseDecorators param) (\<lambda>decorators.
     bindE (locOf param) (\<lambda>loc.
     Inr (JObj [(''name'', toJ name), (''isJSType'', JBool (ftruthy tn)),
                (''type'', toJ ty), (''default'', toJ dflt),
                (''defaultParsed'', defaultParsed), (''typeAst'', typeAst),
                (''decorators'', orUndefined decorators),
                (''loc'', orUndefined loc)]))))))))))"

text \<open>\<^verbatim>\<open>{ ...paramInfo(param), optional: param.isOptional?.() ?? false }\<close>\<close>

definition methodParamInfo :: "runtime \<Rightarrow> fv \<Rightarrow> error + jv" where
  "methodParamInfo rt param =
     bindE (paramInfo rt param) (\<lambda>info.
     bindE (orElse (callOpt param ''isOptional'') (Inr (FBool False))) (\<lambda>optional.
     Inr (setp info ''optional'' (toJ optional))))"

definition functionLikeToItem :: "runtime \<Rightarrow> fv \<Rightarrow> string \<Rightarrow> OptionMode option \<Rightarrow> error + jv" where
  "functionLikeToItem rt fn level jsdocOption =
     bindE (orElse (callOpt fn ''getName'') (Inr FNull)) (\<lambda>name.
     bindE (exportKind fn) (\<lambda>exports.
     bindE (getJsDocText fn jsdocOption) (\<lambda>jsdoc.
     bindE (parseDecorators fn) (\<lambda>decorators.
     bindE (locOf fn) (\<lambda>loc.
     bindE (bindE (orElse (callOpt fn ''getParameters'') (Inr (FArr [])))
                  (mapF (paramInfo rt))) (\<lambda>arguments.
     bindE (typeParamsOf fn) (\<lambda>typeParameters.
     bindE (textOf fn ''getReturnTypeNode'') (\<lambda>returnType.
     bindE (bindE (callOpt fn ''getReturnTypeNode'') parseTypeNode) (\<lambda>returnTypeAst.
     Inr (JObj [(''name'', toJ name), (''type'', JStr ''function''), (''level'', JStr level),
                (''exports'', exports), (''jsdoc'', jsdoc),
                (''decorators'', orUndefined decorators), (''loc'', orUndefined loc),
                (''arguments'', arguments), (''typeParameters'', typeParameters),
                (''returnType'', toJ returnType),
                (''returnTypeAst'', returnTypeAst)]))))))))))"

subsection \<open>One statement of the source unit\<close>

fun asKindStrict :: "fv \<Rightarrow> SyntaxKindName \<Rightarrow> error + fv" where
  "asKindStrict (FNode ms) kind = asKind (FNode ms) kind"
| "asKindStrict v kind = Inl (Thrown ''TypeError: asKind is not a function'')"

text \<open>\<^verbatim>\<open>m.asKind?.(kind)\<close>\<close>

fun asKindOpt :: "fv \<Rightarrow> SyntaxKindName \<Rightarrow> error + fv" where
  "asKindOpt (FNode ms) kind = asKind (FNode ms) kind"
| "asKindOpt FUndef kind = Inl (Thrown ''TypeError: Cannot read properties of undefined'')"
| "asKindOpt FNull kind = Inl (Thrown ''TypeError: Cannot read properties of null'')"
| "asKindOpt v kind = Inr FUndef"

text \<open>
  The body of \<^verbatim>\<open>for (const d of vs.getDeclarationList().getDeclarations())\<close>: one
  Variable item per declared name.
\<close>

definition variableItem ::
    "runtime \<Rightarrow> NormalizedOptions \<Rightarrow> bool \<Rightarrow> fv \<Rightarrow> fv \<Rightarrow> fv \<Rightarrow> error + jv" where
  "variableItem rt opts onlyMode vs kind d =
     bindE (callOpt d ''getInitializer'') (\<lambda>init.
     bindE (callStrict d ''getName'') (\<lambda>name.
     bindE (literalValueText rt init) (\<lambda>val.
     bindE (chainOpt init ''getText'') (\<lambda>valueText.
     bindE (literalValueText rt init) (\<lambda>valueParsed.
     bindE (exportKind vs) (\<lambda>exports.
     bindE (getJsDocText d (opts JSDoc)) (\<lambda>jsdoc.
     bindE (parseDecorators d) (\<lambda>decorators.
     bindE (locOf d) (\<lambda>loc.
     applyVariableItemOptions
       (JObj [(''name'', toJ name), (''type'', JStr ''variable''),
              (''subtype'', JStr (if kind = FStr ''const'' then ''constant''
                                  else if kind = FStr ''let'' then ''let'' else ''var'')),
              (''value'', val), (''valueText'', toJ valueText),
              (''valueParsed'', valueParsed), (''exports'', exports),
              (''level'', JStr ''top''), (''jsdoc'', jsdoc),
              (''decorators'', orUndefined decorators), (''loc'', orUndefined loc),
              (''arguments'', JArr [])])
       opts onlyMode)))))))))"

definition variableStatementItems ::
    "runtime \<Rightarrow> NormalizedOptions \<Rightarrow> bool \<Rightarrow> fv \<Rightarrow> error + jv list" where
  "variableStatementItems rt opts onlyMode vs =
     bindE (callOpt vs ''getDeclarationKind'') (\<lambda>kind.
     bindE (callStrict vs ''getDeclarationList'') (\<lambda>dl.
     bindE (callStrict dl ''getDeclarations'') (\<lambda>ds.
     bindE (forOf ds) (\<lambda>decls.
     mapE (variableItem rt opts onlyMode vs kind) decls))))"

definition typeAliasItem :: "NormalizedOptions \<Rightarrow> bool \<Rightarrow> fv \<Rightarrow> error + jv" where
  "typeAliasItem opts onlyMode ta =
     bindE (orElse (callOpt ta ''getName'') (Inr FNull)) (\<lambda>name.
     bindE (exportKind ta) (\<lambda>exports.
     bindE (getJsDocText ta (opts JSDoc)) (\<lambda>jsdoc.
     bindE (orElse (textOf ta ''getTypeNode'') (textOf ta ''getType'')) (\<lambda>target.
     bindE (typeParamsOf ta) (\<lambda>typeParameters.
     bindE (applyBaseItemOptions
              (JObj [(''name'', toJ name), (''type'', JStr ''type-alias''),
                     (''level'', JStr ''top''), (''exports'', exports), (''jsdoc'', jsdoc),
                     (''target'', toJ target), (''typeParameters'', typeParameters)])
              opts onlyMode) (\<lambda>item.
     bindE (mapField ''typeParameters''
              (\<lambda>tp. applyTypeParameterOptions tp opts onlyMode) item) (\<lambda>item.
     pruneObject item [(''target'', Some Target), (''typeParameters'', Some TypeParameters)]
       opts onlyMode)))))))"

definition enumItem :: "runtime \<Rightarrow> NormalizedOptions \<Rightarrow> bool \<Rightarrow> fv \<Rightarrow> error + jv" where
  "enumItem rt opts onlyMode ed =
     bindE (bindE (callStrict ed ''getMembers'') forOf) (\<lambda>ms.
     bindE (mapE (\<lambda>m.
              bindE (orElse (callOpt m ''getName'') (Inr (FStr []))) (\<lambda>name.
              bindE (bindE (callOpt m ''getInitializer'') (literalValueText rt)) (\<lambda>val.
              bindE (getJsDocText m (opts JSDoc)) (\<lambda>jsdoc.
              applyEnumMemberOptions
                (JObj [(''name'', toJ name), (''value'', val), (''jsdoc'', jsdoc)])
                opts onlyMode)))) ms) (\<lambda>members.
     bindE (orElse (callOpt ed ''getName'') (Inr FNull)) (\<lambda>name.
     bindE (exportKind ed) (\<lambda>exports.
     bindE (getJsDocText ed (opts JSDoc)) (\<lambda>jsdoc.
     bindE (orElse (callOpt ed ''isConstEnum'') (Inr (FBool False))) (\<lambda>const.
     bindE (applyBaseItemOptions
              (JObj [(''name'', toJ name), (''type'', JStr ''enum''), (''level'', JStr ''top''),
                     (''exports'', exports), (''jsdoc'', jsdoc), (''const'', toJ const),
                     (''members'', JArr members)])
              opts onlyMode) (\<lambda>item.
     bindE (pruneObject item [(''const'', Some Const), (''members'', Some Members)]
              opts onlyMode) (\<lambda>item.
     mapField ''members'' (\<lambda>m. applyEnumMemberOptions m opts onlyMode) item))))))))"

text \<open>
  The statement \<^verbatim>\<open>export default <expression>\<close> (an \<^verbatim>\<open>ExportAssignment\<close>), after
  \<^verbatim>\<open>const expr = ea.getExpression?.(); if (!expr) continue;\<close>.
\<close>

definition exportAssignmentItems ::
    "runtime \<Rightarrow> NormalizedOptions \<Rightarrow> bool \<Rightarrow> fv \<Rightarrow> fv \<Rightarrow> error + jv list" where
  "exportAssignmentItems rt opts onlyMode src ea =
     bindE (callOpt ea ''getExpression'') (\<lambda>expr.
     if \<not> ftruthy expr then Inr [] else
     bindE (callOpt expr ''getKindName'') (\<lambda>k.
     if k = FStr ''FunctionExpression'' \<or> k = FStr ''ArrowFunction'' then
       bindE (functionLikeToItem rt expr ''top'' (opts JSDoc)) (\<lambda>f.
       bindE (applyFunctionItemOptions (setp f ''exports'' (JStr ''default'')) opts onlyMode)
         (\<lambda>item. Inr [item]))
     else
       bindE (callOpt expr ''getText'') (\<lambda>ident.
       if \<not> ftruthy ident then Inr [] else
       bindE (callStrict1 src ''getVariableDeclaration'' ident) (\<lambda>vd.
       if \<not> ftruthy vd then Inr [] else
       bindE (callStrict vd ''getName'') (\<lambda>name.
       bindE (bindE (callOpt vd ''getInitializer'') (literalValueText rt)) (\<lambda>val.
       bindE (bindE (callOpt vd ''getInitializer'') (\<lambda>i. chainOpt i ''getText'')) (\<lambda>valueText.
       bindE (bindE (callOpt vd ''getInitializer'') (literalValueText rt)) (\<lambda>valueParsed.
       bindE (getJsDocText vd (opts JSDoc)) (\<lambda>jsdoc.
       bindE (applyVariableItemOptions
                (JObj [(''name'', toJ name), (''type'', JStr ''variable''),
                       (''subtype'', JStr ''constant''), (''value'', val),
                       (''valueText'', toJ valueText), (''valueParsed'', valueParsed),
                       (''exports'', JStr ''default''), (''level'', JStr ''top''),
                       (''jsdoc'', jsdoc), (''arguments'', JArr [])])
                opts onlyMode) (\<lambda>item. Inr [item]))))))))))"

text \<open>
  An index signature, in a class and in an interface:
  \<^verbatim>\<open>
  const txt = idx.getText?.() ?? "";
  const mKey = txt.match(/\[\s*[^:]+:\s*([^\]]+)\]/);
  const keyType = mKey ? mKey[1].trim() : undefined;
  const returnType = idx.getReturnTypeNode?.()?.getText?.()
                     ?? txt.match(/:\s*([^;\]]+)$/)?.[1]?.trim();
  \<close>
\<close>

definition indexSignatureItem ::
    "runtime \<Rightarrow> NormalizedOptions \<Rightarrow> bool \<Rightarrow> fv \<Rightarrow> error + jv" where
  "indexSignatureItem rt opts onlyMode idx =
     bindE (bindE (orElse (callOpt idx ''getText'') (Inr (FStr []))) asString) (\<lambda>txt.
     bindE (orElse (textOf idx ''getReturnTypeNode'')
              (Inr (case matchIndexReturn rt txt of
                      None \<Rightarrow> FUndef | Some g \<Rightarrow> FStr (trim g)))) (\<lambda>returnType.
     bindE (orElse (callOpt1 idx ''hasModifier'' (FStr ''readonly''))
              (Inr (FBool False))) (\<lambda>readonly.
     applyIndexSignatureOptions
       (JObj [(''keyType'', (case matchIndexKey rt txt of
                               None \<Rightarrow> JUndefined | Some g \<Rightarrow> JStr (trim g))),
              (''returnType'', toJ returnType), (''readonly'', toJ readonly)])
       opts onlyMode)))"

text \<open>
  The body of \<^verbatim>\<open>for (const m of cd.getMembers())\<close>: what one class member adds to
  \<^verbatim>\<open>members\<close> (nothing, for a member of another kind).
\<close>

definition classMemberItems ::
    "runtime \<Rightarrow> NormalizedOptions \<Rightarrow> bool \<Rightarrow> fv \<Rightarrow> fv \<Rightarrow> error + jv list" where
  "classMemberItems rt opts onlyMode cd m =
     bindE (asKindOpt m Constructor) (\<lambda>ctor.
     if ftruthy ctor then
       bindE (orElse (callOpt cd ''getName'') (Inr (FStr []))) (\<lambda>owner.
       bindE (bindE (functionLikeToItem rt ctor ''sub'' (opts JSDoc))
                (\<lambda>f. applyFunctionItemOptions f opts onlyMode)) (\<lambda>func.
       Inr [JObj [(''type'', JStr ''constructor''), (''for'', toJ owner),
                  (''function'', func)]]))
     else
     bindE (asKindOpt m MethodDeclaration) (\<lambda>meth.
     if ftruthy meth then
       bindE (orElse (callOpt meth ''getName'') (Inr (FStr []))) (\<lambda>name.
       bindE (callOpt1 meth ''hasModifier'' (FStr ''private'')) (\<lambda>isPrivate.
       bindE (if ftruthy isPrivate then Inr (JStr ''private'')
              else bindE (callOpt1 meth ''hasModifier'' (FStr ''protected'')) (\<lambda>isProtected.
                   Inr (if ftruthy isProtected then JStr ''protected'' else JUndefined)))
         (\<lambda>accessibility.
       bindE (orElse (callOpt meth ''isStatic'') (Inr (FBool False))) (\<lambda>static.
       bindE (orElse (callOpt meth ''isAsync'') (Inr (FBool False))) (\<lambda>async.
       bindE (orElse (callOpt meth ''isAbstract'') (Inr (FBool False))) (\<lambda>abstract.
       bindE (parseDecorators meth) (\<lambda>decorators.
       bindE (bindE (orElse (callOpt meth ''getParameters'') (Inr (FArr [])))
                (mapF (methodParamInfo rt))) (\<lambda>arguments.
       bindE (typeParamsOf meth) (\<lambda>typeParameters.
       bindE (textOf meth ''getReturnTypeNode'') (\<lambda>returnType.
       bindE (bindE (callOpt meth ''getReturnTypeNode'') parseTypeNode) (\<lambda>returnTypeAst.
       bindE (getJsDocText meth (opts JSDoc)) (\<lambda>jsdoc.
       bindE (locOf meth) (\<lambda>loc.
       bindE (applyMethodItemOptions
                (JObj [(''name'', toJ name), (''accessibility'', accessibility),
                       (''static'', toJ static), (''async'', toJ async),
                       (''abstract'', toJ abstract),
                       (''decorators'', orUndefined decorators),
                       (''arguments'', arguments), (''typeParameters'', typeParameters),
                       (''returnType'', toJ returnType),
                       (''returnTypeAst'', returnTypeAst), (''jsdoc'', jsdoc),
                       (''loc'', orUndefined loc)])
                opts onlyMode) (\<lambda>item. Inr [item]))))))))))))))
     else
     bindE (asKindOpt m GetAccessor) (\<lambda>getter.
     if ftruthy getter then
       bindE (orElse (callOpt getter ''getName'') (Inr (FStr []))) (\<lambda>name.
       bindE (textOf getter ''getReturnTypeNode'') (\<lambda>returnType.
       bindE (getJsDocText getter (opts JSDoc)) (\<lambda>jsdoc.
       bindE (applyMethodItemOptions
                (JObj [(''name'', toJ name), (''isGetter'', JBool True),
                       (''arguments'', JArr []), (''returnType'', toJ returnType),
                       (''jsdoc'', jsdoc)])
                opts onlyMode) (\<lambda>item. Inr [item]))))
     else
     bindE (asKindOpt m SetAccessor) (\<lambda>setter.
     if ftruthy setter then
       bindE (orElse (callOpt setter ''getName'') (Inr (FStr []))) (\<lambda>name.
       bindE (bindE (orElse (callOpt setter ''getParameters'') (Inr (FArr [])))
                (mapF (methodParamInfo rt))) (\<lambda>arguments.
       bindE (getJsDocText setter (opts JSDoc)) (\<lambda>jsdoc.
       bindE (applyMethodItemOptions
                (JObj [(''name'', toJ name), (''isSetter'', JBool True),
                       (''arguments'', arguments), (''jsdoc'', jsdoc)])
                opts onlyMode) (\<lambda>item. Inr [item]))))
     else
     bindE (asKindOpt m PropertyDeclaration) (\<lambda>prop.
     if ftruthy prop then
       bindE (orElse (callOpt prop ''getName'') (Inr (FStr []))) (\<lambda>name.
       bindE (callOpt1 prop ''hasModifier'' (FStr ''private'')) (\<lambda>hasPrivate.
       bindE (if ftruthy hasPrivate then Inr (toJ hasPrivate)
              else bindE (asString name) (\<lambda>n. Inr (JBool (take 1 n = ''#''))))
         (\<lambda>isPrivate.
       bindE (orElse (callOpt prop ''isStatic'') (Inr (FBool False))) (\<lambda>static.
       bindE (orElse (callOpt prop ''isReadonly'') (Inr (FBool False))) (\<lambda>readonly.
       bindE (bindE (callOpt prop ''getInitializer'') (literalValueText rt)) (\<lambda>val.
       bindE (textOf prop ''getTypeNode'') (\<lambda>ty.
       bindE (parseDecorators prop) (\<lambda>decorators.
       bindE (locOf prop) (\<lambda>loc.
       bindE (applyClassMemberPropertyOptions
                (JObj [(''name'', toJ name), (''private'', isPrivate),
                       (''static'', toJ static), (''readonly'', toJ readonly),
                       (''value'', val), (''type'', toJ ty),
                       (''decorators'', orUndefined decorators),
                       (''loc'', orUndefined loc)])
                opts onlyMode) (\<lambda>item. Inr [item]))))))))))
     else
     bindE (asKindOpt m IndexSignature) (\<lambda>idx.
     if ftruthy idx then
       bindE (indexSignatureItem rt opts onlyMode idx) (\<lambda>item. Inr [item])
     else Inr []))))))"

text \<open>
  The callback of the second \<^verbatim>\<open>item.items.map\<close>, in \<^verbatim>\<open>parseWithTsMorph\<close>: only a
  constructor is pruned again.
\<close>

definition reapplyConstructor :: "jv \<Rightarrow> NormalizedOptions \<Rightarrow> bool \<Rightarrow> error + jv" where
  "reapplyConstructor m opts onlyMode =
     (if getp m ''type'' = JStr ''constructor'' then
        bindE (pruneObject m [(''for'', Some For), (''function'', Some Members)] opts onlyMode)
          (\<lambda>ctor.
            if truthy (getp ctor ''function'')
            then bindE (applyFunctionItemOptions (getp ctor ''function'') opts onlyMode)
                   (\<lambda>f. Inr (setp ctor ''function'' f))
            else Inr ctor)
      else Inr m)"

definition classItem :: "runtime \<Rightarrow> NormalizedOptions \<Rightarrow> bool \<Rightarrow> fv \<Rightarrow> error + jv" where
  "classItem rt opts onlyMode cd =
     bindE (bindE (callStrict cd ''getMembers'') forOf) (\<lambda>ms.
     bindE (mapE (classMemberItems rt opts onlyMode cd) ms) (\<lambda>members.
     bindE (orElse (callOpt cd ''getName'') (Inr FNull)) (\<lambda>name.
     bindE (exportKind cd) (\<lambda>exports.
     bindE (getJsDocText cd (opts JSDoc)) (\<lambda>jsdoc.
     bindE (typeParamsOf cd) (\<lambda>typeParameters.
     bindE (applyBaseItemOptions
              (JObj [(''name'', toJ name), (''type'', JStr ''class''), (''level'', JStr ''top''),
                     (''exports'', exports), (''jsdoc'', jsdoc),
                     (''items'', JArr (concat members)),
                     (''typeParameters'', typeParameters)])
              opts onlyMode) (\<lambda>item.
     bindE (mapField ''typeParameters''
              (\<lambda>tp. applyTypeParameterOptions tp opts onlyMode) item) (\<lambda>item.
     bindE (mapField ''items'' (\<lambda>m. reapplyConstructor m opts onlyMode) item) (\<lambda>item.
     pruneObject item [(''items'', Some Members), (''typeParameters'', Some TypeParameters)]
       opts onlyMode)))))))))"

text \<open>The body of \<^verbatim>\<open>for (const m of id.getMembers())\<close>, for an interface.\<close>

definition interfaceMemberItems ::
    "runtime \<Rightarrow> NormalizedOptions \<Rightarrow> bool \<Rightarrow> fv \<Rightarrow> error + jv list" where
  "interfaceMemberItems rt opts onlyMode m =
     bindE (asKindOpt m PropertySignature) (\<lambda>prop.
     if ftruthy prop then
       bindE (orElse (callOpt prop ''getName'') (Inr (FStr []))) (\<lambda>name.
       bindE (orElse (callOpt prop ''hasQuestionToken'') (Inr (FBool False))) (\<lambda>optional.
       bindE (orElse (callOpt1 prop ''hasModifier'' (FStr ''readonly''))
                (Inr (FBool False))) (\<lambda>readonly.
       bindE (textOf prop ''getTypeNode'') (\<lambda>ty.
       bindE (getJsDocText prop (opts JSDoc)) (\<lambda>jsdoc.
       bindE (locOf prop) (\<lambda>loc.
       bindE (applyInterfaceMemberPropertyOptions
                (JObj [(''name'', toJ name), (''optional'', toJ optional),
                       (''readonly'', toJ readonly), (''type'', toJ ty),
                       (''jsdoc'', jsdoc), (''loc'', orUndefined loc)])
                opts onlyMode) (\<lambda>item. Inr [item])))))))
     else
     bindE (asKindOpt m MethodSignature) (\<lambda>ms.
     if ftruthy ms then
       bindE (orElse (callOpt ms ''getName'') (Inr (FStr []))) (\<lambda>name.
       bindE (bindE (orElse (callOpt ms ''getParameters'') (Inr (FArr [])))
                (mapF (paramInfo rt))) (\<lambda>arguments.
       bindE (textOf ms ''getReturnTypeNode'') (\<lambda>returnType.
       bindE (orElse (callOpt ms ''hasQuestionToken'') (Inr (FBool False))) (\<lambda>optional.
       bindE (getJsDocText ms (opts JSDoc)) (\<lambda>jsdoc.
       bindE (locOf ms) (\<lambda>loc.
       bindE (applyInterfaceMemberMethodOptions
                (JObj [(''name'', toJ name), (''arguments'', arguments),
                       (''returnType'', toJ returnType), (''optional'', toJ optional),
                       (''jsdoc'', jsdoc), (''loc'', orUndefined loc)])
                opts onlyMode) (\<lambda>item. Inr [item])))))))
     else
     bindE (asKindOpt m IndexSignature) (\<lambda>idx.
     if ftruthy idx then
       bindE (indexSignatureItem rt opts onlyMode idx) (\<lambda>item. Inr [item])
     else Inr [])))"

definition interfaceItem :: "runtime \<Rightarrow> NormalizedOptions \<Rightarrow> bool \<Rightarrow> fv \<Rightarrow> error + jv" where
  "interfaceItem rt opts onlyMode decl =
     bindE (bindE (callStrict decl ''getMembers'') forOf) (\<lambda>ms.
     bindE (mapE (interfaceMemberItems rt opts onlyMode) ms) (\<lambda>members.
     bindE (orElse (callOpt decl ''getName'') (Inr FNull)) (\<lambda>name.
     bindE (exportKind decl) (\<lambda>exports.
     bindE (getJsDocText decl (opts JSDoc)) (\<lambda>jsdoc.
     bindE (typeParamsOf decl) (\<lambda>typeParameters.
     bindE (applyBaseItemOptions
              (JObj [(''name'', toJ name), (''type'', JStr ''interface''),
                     (''level'', JStr ''top''), (''exports'', exports), (''jsdoc'', jsdoc),
                     (''members'', JArr (concat members)),
                     (''typeParameters'', typeParameters)])
              opts onlyMode) (\<lambda>item.
     bindE (mapField ''typeParameters''
              (\<lambda>tp. applyTypeParameterOptions tp opts onlyMode) item) (\<lambda>item.
     bindE (mapField ''members'' (\<lambda>m. applyInterfaceMember m opts onlyMode) item) (\<lambda>item.
     pruneObject item [(''members'', Some Members), (''typeParameters'', Some TypeParameters)]
       opts onlyMode)))))))))"

text \<open>
  A namespace (\<^verbatim>\<open>ModuleDeclaration\<close>). Every statement of the body is given back to the
  front end as text and parsed by a recursive call of \<^verbatim>\<open>parseWithTsMorph\<close>, here the
  parameter \<open>recurse\<close>; the items it returns are copied with \<^verbatim>\<open>level: "sub"\<close>.
\<close>

definition namespaceItem ::
    "runtime \<Rightarrow> (string \<Rightarrow> string \<Rightarrow> ParseOptions option \<Rightarrow> error + jv list)
     \<Rightarrow> NormalizedOptions \<Rightarrow> bool \<Rightarrow> ParseOptions option \<Rightarrow> fv \<Rightarrow> fv \<Rightarrow> error + jv" where
  "namespaceItem rt recurse opts onlyMode options src md =
     bindE (callOpt md ''getBody'') (\<lambda>body.
     bindE (if ftruthy body \<and> ftruthy (propOf body ''getStatements'') then
              bindE (bindE (callStrict body ''getStatements'') forOf) (\<lambda>stmts.
              bindE (mapE (\<lambda>s.
                       bindE (callStrict src ''getProject'') (\<lambda>project.
                       bindE (callStrict s ''getText'') (\<lambda>txt.
                       case txt of
                         FStr t \<Rightarrow>
                           bindE (callStrict (createSourceFile rt ''__tmp.ts'' t) ''getFullText'')
                             (\<lambda>full.
                               case full of
                                 FStr fullText \<Rightarrow>
                                   bindE (recurse fullText ''__tmp.ts'' options)
                                     (\<lambda>items. Inr (map withLevelSub items))
                               | _ \<Rightarrow> Inl IllTyped)
                       | _ \<Rightarrow> Inl IllTyped))) stmts) (\<lambda>parts.
              Inr (concat parts)))
            else Inr []) (\<lambda>members.
     bindE (orElse (callOpt md ''getName'') (Inr FNull)) (\<lambda>name.
     bindE (callOpt md ''isExported'') (\<lambda>exported.
     bindE (getJsDocText md (opts JSDoc)) (\<lambda>jsdoc.
     bindE (applyBaseItemOptions
              (JObj [(''name'', toJ name), (''type'', JStr ''namespace''),
                     (''level'', JStr ''top''),
                     (''exports'', JStr (if ftruthy exported then ''normal'' else ''none'')),
                     (''jsdoc'', jsdoc), (''members'', JArr members)])
              opts onlyMode) (\<lambda>item.
     bindE (mapField ''members'' (\<lambda>m. applyParsedItemOptions m opts onlyMode) item) (\<lambda>item.
     pruneObject item [(''members'', Some Members)] opts onlyMode)))))))"

text \<open>
  The body of \<^verbatim>\<open>for (const stmt of src.getStatements())\<close>: the items one statement
  adds to \<^verbatim>\<open>out\<close>. A statement of a kind that is not listed adds nothing.
\<close>

definition statementItems ::
    "runtime \<Rightarrow> (string \<Rightarrow> string \<Rightarrow> ParseOptions option \<Rightarrow> error + jv list)
     \<Rightarrow> NormalizedOptions \<Rightarrow> bool \<Rightarrow> ParseOptions option \<Rightarrow> fv \<Rightarrow> fv \<Rightarrow> error + jv list" where
  "statementItems rt recurse opts onlyMode options src stmt =
     bindE (asKindStrict stmt VariableStatement) (\<lambda>vs.
     if ftruthy vs then variableStatementItems rt opts onlyMode vs else
     bindE (asKindStrict stmt FunctionDeclaration) (\<lambda>fd.
     if ftruthy fd then
       bindE (bindE (functionLikeToItem rt fd ''top'' (opts JSDoc))
                (\<lambda>f. applyFunctionItemOptions f opts onlyMode)) (\<lambda>item. Inr [item])
     else
     bindE (asKindStrict stmt TypeAliasDeclaration) (\<lambda>ta.
     if ftruthy ta then bindE (typeAliasItem opts onlyMode ta) (\<lambda>item. Inr [item]) else
     bindE (asKindStrict stmt EnumDeclaration) (\<lambda>ed.
     if ftruthy ed then bindE (enumItem rt opts onlyMode ed) (\<lambda>item. Inr [item]) else
     bindE (asKindStrict stmt ExportAssignment) (\<lambda>ea.
     if ftruthy ea then exportAssignmentItems rt opts onlyMode src ea else
     bindE (asKindStrict stmt ClassDeclaration) (\<lambda>cd.
     if ftruthy cd then bindE (classItem rt opts onlyMode cd) (\<lambda>item. Inr [item]) else
     bindE (asKindStrict stmt InterfaceDeclaration) (\<lambda>decl.
     if ftruthy decl then bindE (interfaceItem rt opts onlyMode decl) (\<lambda>item. Inr [item]) else
     bindE (asKindStrict stmt ModuleDeclaration) (\<lambda>md.
     if ftruthy md then
       bindE (namespaceItem rt recurse opts onlyMode options src md) (\<lambda>item. Inr [item])
     else Inr []))))))))"

subsection \<open>The parser\<close>

text \<open>
  \<^verbatim>\<open>parseWithTsMorph(sourceText, fileName = "file.ts", options)\<close>. The recursion goes
  through the external front end (the text of a statement of a namespace body is parsed
  again), so it is counted: each call uses one unit of \<open>fuel\<close>, and a call without
  fuel stops with \<open>OutOfFuel\<close>.
\<close>

fun parseWithTsMorph ::
    "runtime \<Rightarrow> nat \<Rightarrow> string \<Rightarrow> string \<Rightarrow> ParseOptions option \<Rightarrow> error + jv list" where
  "parseWithTsMorph rt 0 sourceText fileName options = Inl OutOfFuel"
| "parseWithTsMorph rt (Suc fuel) sourceText fileName options =
     (let opts = normalizeOptions options;
          onlyMode = onlyModeOf opts;
          autoName = (if fileName = ''file.ts''
                      then ''file.'' @ (if isProbablyTS rt sourceText then ''ts'' else ''js'')
                      else fileName);
          src = createSourceFile rt autoName sourceText
      in bindE (bindE (callStrict src ''getStatements'') forOf) (\<lambda>stmts.
         bindE (mapE (statementItems rt
                        (\<lambda>text name given. parseWithTsMorph rt fuel text name given)
                        opts onlyMode options src) stmts) (\<lambda>parts.
         Inr (concat parts))))"

section \<open>Example source units\<close>

text \<open>
  The syntax trees the front end returns for a few small source units, with the
  accessors the parser calls on them (location accessors left out, so \<^verbatim>\<open>loc\<close> is
  \<^verbatim>\<open>undefined\<close> in the examples), and a runtime around each.
\<close>

text \<open>\<^verbatim>\<open>Number\<close> on the decimal integer literals of the examples.\<close>

definition decimalNumber :: "fv \<Rightarrow> jv" where
  "decimalNumber v =
     (case v of
        FStr s \<Rightarrow>
          if s \<noteq> [] \<and> set s \<subseteq> set ''0123456789''
          then JNum (int (foldl (\<lambda>n c. 10 * n + (of_char c - 48)) 0 s))
          else JUndefined
      | _ \<Rightarrow> JUndefined)"

text \<open>
  A runtime whose front end knows the listed texts (and returns a source file without
  statements for any other).
\<close>

definition runtimeOf :: "(string \<times> fv) list \<Rightarrow> runtime" where
  "runtimeOf files =
     \<lparr> Number = decimalNumber,
       createSourceFile = (\<lambda>name text.
          case map_of files text of
            Some tree \<Rightarrow> tree
          | None \<Rightarrow> FNode [(''getStatements'', Method (FArr []))]),
       isProbablyTS = (\<lambda>text. False),
       matchIndexKey = (\<lambda>text. None),
       matchIndexReturn = (\<lambda>text. None) \<rparr>"

text \<open>An initializer that is a call, \<^verbatim>\<open>f(xxx...)\<close>, 250 characters long.\<close>

definition longCall :: fv where
  "longCall = FNode [(''getKind'', Method (FNum 213)),
                     (''getText'', Method (FStr (replicate 250 (CHR ''x''))))]"

text \<open>A string literal of 250 characters.\<close>

definition longString :: fv where
  "longString = FNode [(''getKind'', Method (FNum (SyntaxKind StringLiteral))),
                       (''getText'', Method (FStr (replicate 252 (CHR ''y'')))),
                       (''getLiteralText'', Method (FStr (replicate 250 (CHR ''y''))))]"

text \<open>
  \<^verbatim>\<open>type T = A | B;\<close>: the union type node \<^verbatim>\<open>A | B\<close> with its two type references,
  the alias declaration and the source file.
\<close>

definition typeRef :: "string \<Rightarrow> fv" where
  "typeRef name =
     FNode [(''getKindName'', Method (FStr ''TypeReference'')),
            (''getKind'', Method (FNum (SyntaxKind TypeReference))),
            (''getText'', Method (FStr name)),
            (''getTypeName'', Method (FNode [(''getText'', Method (FStr name))])),
            (''getTypeArguments'', Method (FArr []))]"

definition unionAB :: fv where
  "unionAB =
     FNode [(''getKindName'', Method (FStr ''UnionType'')),
            (''getKind'', Method (FNum (SyntaxKind UnionType))),
            (''getText'', Method (FStr ''A | B'')),
            (''getTypeNodes'', Method (FArr [typeRef ''A'', typeRef ''B'']))]"

definition aliasT :: fv where
  "aliasT =
     FNode [(''getKind'', Method (FNum (SyntaxKind TypeAliasDeclaration))),
            (''getName'', Method (FStr ''T'')),
            (''isDefaultExport'', Method (FBool False)),
            (''isExported'', Method (FBool False)),
            (''getJsDocs'', Method (FArr [])),
            (''getTypeNode'', Method unionAB),
            (''getTypeParameters'', Method (FArr []))]"

definition aliasSource :: fv where
  "aliasSource = FNode [(''getStatements'', Method (FArr [aliasT]))]"

text \<open>A type node whose \<^verbatim>\<open>getText\<close> accessor throws.\<close>

definition throwingNode :: fv where
  "throwingNode =
     FNode [(''getKindName'', Method (FStr ''UnionType'')),
            (''getKind'', Method (FNum (SyntaxKind UnionType))),
            (''getText'', Raises ''Error: boom''),
            (''getTypeNodes'', Method (FArr []))]"

text \<open>
  \<^verbatim>\<open>const x = 1;\<close> and \<^verbatim>\<open>const x = 1; export default x;\<close>: the numeric literal, the
  declaration of \<open>x\<close>, the variable statement, the export assignment, and the two
  source files.
\<close>

definition literalOne :: fv where
  "literalOne = FNode [(''getKind'', Method (FNum (SyntaxKind NumericLiteral))),
                       (''getText'', Method (FStr ''1''))]"

definition declarationX :: fv where
  "declarationX = FNode [(''getName'', Method (FStr ''x'')),
                         (''getInitializer'', Method literalOne)]"

definition constX :: fv where
  "constX =
     FNode [(''getKind'', Method (FNum (SyntaxKind VariableStatement))),
            (''getDeclarationKind'', Method (FStr ''const'')),
            (''getDeclarationList'',
               Method (FNode [(''getDeclarations'', Method (FArr [declarationX]))])),
            (''isDefaultExport'', Method (FBool False)),
            (''isExported'', Method (FBool False))]"

definition exportDefaultX :: fv where
  "exportDefaultX =
     FNode [(''getKind'', Method (FNum (SyntaxKind ExportAssignment))),
            (''getExpression'',
               Method (FNode [(''getKindName'', Method (FStr ''Identifier'')),
                              (''getText'', Method (FStr ''x''))]))]"

definition constSource :: fv where
  "constSource =
     FNode [(''getStatements'', Method (FArr [constX])),
            (''getVariableDeclaration'', Method1 [(FStr ''x'', declarationX)])]"

definition defaultExportSource :: fv where
  "defaultExportSource =
     FNode [(''getStatements'', Method (FArr [constX, exportDefaultX])),
            (''getVariableDeclaration'', Method1 [(FStr ''x'', declarationX)])]"

text \<open>\<^verbatim>\<open>let y = 1; export default y;\<close>\<close>

definition declarationY :: fv where
  "declarationY = FNode [(''getName'', Method (FStr ''y'')),
                         (''getInitializer'', Method literalOne)]"

definition letY :: fv where
  "letY =
     FNode [(''getKind'', Method (FNum (SyntaxKind VariableStatement))),
            (''getDeclarationKind'', Method (FStr ''let'')),
            (''getDeclarationList'',
               Method (FNode [(''getDeclarations'', Method (FArr [declarationY]))])),
            (''isDefaultExport'', Method (FBool False)),
            (''isExported'', Method (FBool False))]"

definition exportDefaultY :: fv where
  "exportDefaultY =
     FNode [(''getKind'', Method (FNum (SyntaxKind ExportAssignment))),
            (''getExpression'',
               Method (FNode [(''getKindName'', Method (FStr ''Identifier'')),
                              (''getText'', Method (FStr ''y''))]))]"

definition letExportSource :: fv where
  "letExportSource =
     FNode [(''getStatements'', Method (FArr [letY, exportDefaultY])),
            (''getVariableDeclaration'', Method1 [(FStr ''y'', declarationY)])]"

text \<open>\<^verbatim>\<open>function f() {}\<close>, without a documentation comment.\<close>

definition functionF :: fv where
  "functionF =
     FNode [(''getKind'', Method (FNum (SyntaxKind FunctionDeclaration))),
            (''getName'', Method (FStr ''f'')),
            (''isDefaultExport'', Method (FBool False)),
            (''isExported'', Method (FBool False)),
            (''getJsDocs'', Method (FArr [])),
            (''getParameters'', Method (FArr [])),
            (''getTypeParameters'', Method (FArr [])),
            (''getReturnTypeNode'', Method FUndef)]"

definition functionSource :: fv where
  "functionSource = FNode [(''getStatements'', Method (FArr [functionF]))]"

text \<open>
  \<^verbatim>\<open>function f() {} export default f;\<close>: the front end answers \<^verbatim>\<open>isDefaultExport\<close> of
  the function declaration with true, and the source file has no variable
  declaration named \<^verbatim>\<open>f\<close>.
\<close>

definition defaultF :: fv where
  "defaultF =
     FNode [(''getKind'', Method (FNum (SyntaxKind FunctionDeclaration))),
            (''getName'', Method (FStr ''f'')),
            (''isDefaultExport'', Method (FBool True)),
            (''isExported'', Method (FBool True)),
            (''getJsDocs'', Method (FArr [])),
            (''getParameters'', Method (FArr [])),
            (''getTypeParameters'', Method (FArr [])),
            (''getReturnTypeNode'', Method FUndef)]"

definition exportDefaultF :: fv where
  "exportDefaultF =
     FNode [(''getKind'', Method (FNum (SyntaxKind ExportAssignment))),
            (''getExpression'',
               Method (FNode [(''getKindName'', Method (FStr ''Identifier'')),
                              (''getText'', Method (FStr ''f''))]))]"

definition functionExportSource :: fv where
  "functionExportSource =
     FNode [(''getStatements'', Method (FArr [defaultF, exportDefaultF])),
            (''getVariableDeclaration'', Method1 [])]"

text \<open>\<^verbatim>\<open>class C { constructor() {} m() {} }\<close>\<close>

definition constructorOfC :: fv where
  "constructorOfC =
     FNode [(''getKind'', Method (FNum (SyntaxKind Constructor))),
            (''getJsDocs'', Method (FArr [])),
            (''getParameters'', Method (FArr [])),
            (''getTypeParameters'', Method (FArr [])),
            (''getReturnTypeNode'', Method FUndef)]"

definition methodM :: fv where
  "methodM =
     FNode [(''getKind'', Method (FNum (SyntaxKind MethodDeclaration))),
            (''getName'', Method (FStr ''m'')),
            (''hasModifier'', Method1 [(FStr ''private'', FBool False),
                                       (FStr ''protected'', FBool False)]),
            (''isStatic'', Method (FBool False)),
            (''isAsync'', Method (FBool False)),
            (''isAbstract'', Method (FBool False)),
            (''getDecorators'', Method (FArr [])),
            (''getParameters'', Method (FArr [])),
            (''getTypeParameters'', Method (FArr [])),
            (''getReturnTypeNode'', Method FUndef),
            (''getJsDocs'', Method (FArr []))]"

definition classC :: fv where
  "classC =
     FNode [(''getKind'', Method (FNum (SyntaxKind ClassDeclaration))),
            (''getName'', Method (FStr ''C'')),
            (''isDefaultExport'', Method (FBool False)),
            (''isExported'', Method (FBool False)),
            (''getJsDocs'', Method (FArr [])),
            (''getMembers'', Method (FArr [constructorOfC, methodM])),
            (''getTypeParameters'', Method (FArr []))]"

definition classSource :: fv where
  "classSource = FNode [(''getStatements'', Method (FArr [classC]))]"

text \<open>
  \<^verbatim>\<open>namespace N { const x = 1; }\<close>, parsed as \<^verbatim>\<open>file.ts\<close>. The statement of the body
  gives its text, and the front end parses that text into the source file
  \<^verbatim>\<open>__tmp.ts\<close> of the recursive call.
\<close>

definition bodySource :: fv where
  "bodySource =
     FNode [(''getFullText'', Method (FStr ''const x = 1;'')),
            (''getStatements'', Method (FArr [constX])),
            (''getProject'', Method (FNode []))]"

definition namespaceN :: fv where
  "namespaceN =
     FNode [(''getKind'', Method (FNum (SyntaxKind ModuleDeclaration))),
            (''getName'', Method (FStr ''N'')),
            (''isExported'', Method (FBool False)),
            (''getJsDocs'', Method (FArr [])),
            (''getBody'',
               Method (FNode [(''getStatements'',
                  Method (FArr [FNode [(''getText'', Method (FStr ''const x = 1;''))]]))]))]"

definition namespaceSource :: fv where
  "namespaceSource =
     FNode [(''getStatements'', Method (FArr [namespaceN])),
            (''getProject'', Method (FNode []))]"

definition namespaceRuntime :: runtime where
  "namespaceRuntime =
     runtimeOf [(''namespace N { const x = 1; }'', namespaceSource),
                (''const x = 1;'', bodySource)]"

text \<open>
  \<^verbatim>\<open>namespace A { namespace N {} const x = 1; }\<close>, parsed as \<^verbatim>\<open>file.ts\<close>: a namespace
  with an empty namespace and a constant in its body.
\<close>

definition emptyN :: fv where
  "emptyN =
     FNode [(''getKind'', Method (FNum (SyntaxKind ModuleDeclaration))),
            (''getName'', Method (FStr ''N'')),
            (''isExported'', Method (FBool False)),
            (''getJsDocs'', Method (FArr [])),
            (''getBody'', Method (FNode [(''getStatements'', Method (FArr []))]))]"

definition emptySource :: fv where
  "emptySource =
     FNode [(''getFullText'', Method (FStr ''namespace N {}'')),
            (''getStatements'', Method (FArr [emptyN])),
            (''getProject'', Method (FNode []))]"

definition namespaceA :: fv where
  "namespaceA =
     FNode [(''getKind'', Method (FNum (SyntaxKind ModuleDeclaration))),
            (''getName'', Method (FStr ''A'')),
            (''isExported'', Method (FBool False)),
            (''getJsDocs'', Method (FArr [])),
            (''getBody'',
               Method (FNode [(''getStatements'',
                  Method (FArr [FNode [(''getText'', Method (FStr ''namespace N {}''))],
                                FNode [(''getText'', Method (FStr ''const x = 1;''))]]))]))]"

definition outerSource :: fv where
  "outerSource =
     FNode [(''getStatements'', Method (FArr [namespaceA])),
            (''getProject'', Method (FNode []))]"

definition outerRuntime :: runtime where
  "outerRuntime =
     runtimeOf [(''namespace A { namespace N {} const x = 1; }'', outerSource),
                (''namespace N {}'', emptySource),
                (''const x = 1;'', bodySource)]"

text \<open>
  \<^verbatim>\<open>namespace A { namespace N { const x = 1; } }\<close>, parsed as \<^verbatim>\<open>file.ts\<close>. In the
  recursive call the source file of \<^verbatim>\<open>N\<close> is itself \<^verbatim>\<open>__tmp.ts\<close>, so creating
  \<^verbatim>\<open>__tmp.ts\<close> again for the statement of its body (with \<^verbatim>\<open>overwrite: true\<close>) replaces
  that file: the front end forgets the node \<^verbatim>\<open>N\<close>, and the accessors called on it
  after the loop throw.
\<close>

definition forgottenN :: fv where
  "forgottenN =
     FNode [(''getKind'', Method (FNum (SyntaxKind ModuleDeclaration))),
            (''getBody'',
               Method (FNode [(''getStatements'',
                  Method (FArr [FNode [(''getText'', Method (FStr ''const x = 1;''))]]))])),
            (''getName'',
               Raises ''Attempted to get information from a node that was removed or forgotten.''),
            (''isExported'',
               Raises ''Attempted to get information from a node that was removed or forgotten.''),
            (''getJsDocs'',
               Raises ''Attempted to get information from a node that was removed or forgotten.'')]"

definition overwrittenSource :: fv where
  "overwrittenSource =
     FNode [(''getFullText'', Method (FStr ''namespace N { const x = 1; }'')),
            (''getStatements'', Method (FArr [forgottenN])),
            (''getProject'', Method (FNode []))]"

definition namespaceB :: fv where
  "namespaceB =
     FNode [(''getKind'', Method (FNum (SyntaxKind ModuleDeclaration))),
            (''getName'', Method (FStr ''A'')),
            (''isExported'', Method (FBool False)),
            (''getJsDocs'', Method (FArr [])),
            (''getBody'',
               Method (FNode [(''getStatements'',
                  Method (FArr [FNode [(''getText'',
                     Method (FStr ''namespace N { const x = 1; }''))]]))]))]"

definition nestedSource :: fv where
  "nestedSource =
     FNode [(''getStatements'', Method (FArr [namespaceB])),
            (''getProject'', Method (FNode []))]"

definition nestedRuntime :: runtime where
  "nestedRuntime =
     runtimeOf [(''namespace A { namespace N { const x = 1; } }'', nestedSource),
                (''namespace N { const x = 1; }'', overwrittenSource),
                (''const x = 1;'', bodySource)]"

text \<open>
  An item tree as the extractor builds it for
  \<^verbatim>\<open>namespace N { class C<T> { constructor(a) {} m(): void {} [k: string]: number; p: number } }\<close>,
  and a configuration that drops the parameter lists and the key types.
\<close>

definition classTree :: jv where
  "classTree =
     JObj [(''name'', JStr ''C''), (''type'', JStr ''class''), (''level'', JStr ''sub''),
           (''exports'', JStr ''none''),
           (''items'', JArr
              [JObj [(''type'', JStr ''constructor''), (''for'', JStr ''C''),
                     (''function'',
                      JObj [(''name'', JNull), (''type'', JStr ''function''),
                            (''level'', JStr ''sub''),
                            (''arguments'',
                             JArr [JObj [(''name'', JStr ''a''),
                                         (''isJSType'', JBool False)]])])],
               JObj [(''name'', JStr ''m''), (''static'', JBool False),
                     (''arguments'', JArr []), (''returnType'', JStr ''void'')],
               JObj [(''keyType'', JStr ''string''), (''returnType'', JStr ''number''),
                     (''readonly'', JBool False)],
               JObj [(''name'', JStr ''p''), (''type'', JStr ''number'')]]),
           (''typeParameters'', JArr [JObj [(''name'', JStr ''T'')]])]"

definition namespaceTree :: jv where
  "namespaceTree =
     JObj [(''name'', JStr ''N''), (''type'', JStr ''namespace''), (''level'', JStr ''top''),
           (''members'', JArr [classTree])]"

definition withoutArguments :: NormalizedOptions where
  "withoutArguments = normalizeOptions (Some [Arguments \<mapsto> Never, KeyType \<mapsto> Never])"

section \<open>Evaluation rules\<close>

lemma bindE_simps [simp]: "bindE (Inr x) f = f x" "bindE (Inl e) f = Inl e"
  by (simp_all add: bindE_def)

lemma orElse_simps [simp]:
  "orElse (Inr v) b = (if nullish v then b else Inr v)" "orElse (Inl e) b = Inl e"
  by (simp_all add: orElse_def)

lemma catchE_simps [simp]:
  "catchE (Inr x) h = Inr x" "catchE (Inl (Thrown err)) h = h err"
  "catchE (Inl IllTyped) h = Inl IllTyped" "catchE (Inl OutOfFuel) h = Inl OutOfFuel"
  by (simp_all add: catchE_def)

lemma bindE_eq_Inr: "bindE m f = Inr y \<longleftrightarrow> (\<exists>x. m = Inr x \<and> f x = Inr y)"
  by (cases m) simp_all


lemma mapE_eq_Inr_nth:
  "mapE f xs = Inr ys \<Longrightarrow> i < length xs \<Longrightarrow> f (xs ! i) = Inr (ys ! i)"
proof (induction xs arbitrary: ys i)
  case Nil
  then show ?case by simp
next
  case (Cons x xs)
  then show ?case by (cases i) (auto simp: bindE_eq_Inr)
qed

lemma mapE_eq_Inr_set:
  "mapE f xs = Inr ys \<Longrightarrow> y \<in> set ys \<Longrightarrow> \<exists>x \<in> set xs. f x = Inr y"
  by (induction xs arbitrary: ys) (auto simp: bindE_eq_Inr)

section \<open>Properties of the configuration\<close>

lemma OptionKeys_complete: "key \<in> set OptionKeys"
  by (cases key) (simp_all add: OptionKeys_def)

lemma onlyModeOf_iff: "onlyModeOf opts \<longleftrightarrow> (\<exists>key. opts key = Some Only)"
proof
  assume "onlyModeOf opts"
  then show "\<exists>key. opts key = Some Only"
    unfolding onlyModeOf_def by (metis (no_types) imageE list.set_map)
next
  assume "\<exists>key. opts key = Some Only"
  then obtain key where "opts key = Some Only" ..
  moreover have "key \<in> set OptionKeys" by (rule OptionKeys_complete)
  ultimately show "onlyModeOf opts"
    unfolding onlyModeOf_def by (metis (no_types) image_eqI list.set_map)
qed

lemma normalizeOptions_given:
  "normalizeOptions (Some given) key = (case given key of None \<Rightarrow> Some Include | Some m \<Rightarrow> Some m)"
  by (simp add: normalizeOptions_def DEFAULT_OPTIONS_def map_add_def split: option.splits)

lemma normalizeOptions_absent: "normalizeOptions None key = Some Include"
  by (simp add: normalizeOptions_def DEFAULT_OPTIONS_def)

lemma onlyModeOf_normalizeOptions:
  "onlyModeOf (normalizeOptions (Some given)) \<longleftrightarrow> (\<exists>key. given key = Some Only)"
  by (auto simp: onlyModeOf_iff normalizeOptions_given split: option.splits)

lemma pruneObject_retains:
  assumes "pruneObject (JObj props) fmap options onlyMode = Inr (JObj props')"
  shows "name \<in> fst ` set props' \<longleftrightarrow> name \<in> fst ` set props \<and> keeps fmap options onlyMode name"
  using assms by (auto simp: image_iff)

section \<open>Properties of the normalizer\<close>

text \<open>A computation that stops only by a thrown exception.\<close>

definition throwsOnly :: "error + 'a \<Rightarrow> bool" where
  "throwsOnly m \<longleftrightarrow> (\<forall>e. m = Inl e \<longrightarrow> (\<exists>s. e = Thrown s))"

lemma throwsOnly_Inr: "throwsOnly (Inr x)"
  by (simp add: throwsOnly_def)

lemma throwsOnly_bindE:
  "throwsOnly m \<Longrightarrow> (\<And>x. m = Inr x \<Longrightarrow> throwsOnly (f x)) \<Longrightarrow> throwsOnly (bindE m f)"
  by (auto simp: throwsOnly_def bindE_def split: sum.splits)

lemma throwsOnly_callOpt: "throwsOnly (callOpt n a)"
  by (cases n) (auto simp: throwsOnly_def split: option.splits member.splits)

lemma throwsOnly_callOpt1: "throwsOnly (callOpt1 n a x)"
  by (cases n) (auto simp: throwsOnly_def split: option.splits member.splits)

lemma throwsOnly_chainOpt: "throwsOnly (chainOpt n a)"
  by (simp add: chainOpt_def throwsOnly_callOpt throwsOnly_Inr)

lemma throwsOnly_textOf: "throwsOnly (textOf n a)"
  unfolding textOf_def by (intro throwsOnly_bindE throwsOnly_callOpt throwsOnly_chainOpt)

lemma throwsOnly_orElse: "throwsOnly a \<Longrightarrow> throwsOnly b \<Longrightarrow> throwsOnly (orElse a b)"
  unfolding orElse_def by (auto intro!: throwsOnly_bindE throwsOnly_Inr)

lemma throwsOnly_mapE:
  "(\<And>x. x \<in> set xs \<Longrightarrow> throwsOnly (f x)) \<Longrightarrow> throwsOnly (mapE f xs)"
  by (induction xs) (auto intro!: throwsOnly_bindE throwsOnly_Inr)

lemma throwsOnly_mapF:
  "(\<And>xs x. v = FArr xs \<Longrightarrow> x \<in> set xs \<Longrightarrow> throwsOnly (f x)) \<Longrightarrow> throwsOnly (mapF f v)"
proof (cases v)
  case (FArr xs)
  assume "\<And>xs x. v = FArr xs \<Longrightarrow> x \<in> set xs \<Longrightarrow> throwsOnly (f x)"
  with FArr have "throwsOnly (mapE f xs)" by (intro throwsOnly_mapE) simp
  with FArr show ?thesis by (auto intro!: throwsOnly_bindE throwsOnly_Inr)
qed (simp_all add: throwsOnly_def)

lemma throwsOnly_catchE:
  "throwsOnly m \<Longrightarrow> (\<And>err. throwsOnly (h err)) \<Longrightarrow> throwsOnly (catchE m h)"
  by (auto simp: throwsOnly_def catchE_def split: sum.splits error.splits)

lemma throwsOnly_if:
  "(c \<Longrightarrow> throwsOnly a) \<Longrightarrow> (\<not> c \<Longrightarrow> throwsOnly b) \<Longrightarrow> throwsOnly (if c then a else b)"
  by simp

lemma parseTypeNode_throwsOnly: "throwsOnly (parseTypeNode node)"
proof (induction node rule: parseTypeNode.induct)
  case (1 node)
  show ?case
    apply (subst parseTypeNode.simps)
    apply (intro throwsOnly_if throwsOnly_bindE throwsOnly_orElse throwsOnly_catchE
        throwsOnly_Inr throwsOnly_callOpt throwsOnly_callOpt1 throwsOnly_textOf throwsOnly_mapF
        | (rule "1.IH"; assumption))+
    done
qed

text \<open>What every value that a computation can return satisfies.\<close>

definition returnsOnly :: "('a \<Rightarrow> bool) \<Rightarrow> error + 'a \<Rightarrow> bool" where
  "returnsOnly P m \<longleftrightarrow> (\<forall>r. m = Inr r \<longrightarrow> P r)"

lemma returnsOnly_Inr: "P x \<Longrightarrow> returnsOnly P (Inr x)"
  by (simp add: returnsOnly_def)

lemma returnsOnly_bindE: "(\<And>x. m = Inr x \<Longrightarrow> returnsOnly P (f x)) \<Longrightarrow> returnsOnly P (bindE m f)"
  by (cases m) (auto simp: returnsOnly_def)

lemma returnsOnly_catchE:
  "returnsOnly P m \<Longrightarrow> (\<And>err. returnsOnly P (h err)) \<Longrightarrow> returnsOnly P (catchE m h)"
  by (auto simp: returnsOnly_def catchE_def split: sum.splits error.splits)

lemma returnsOnly_if:
  "(c \<Longrightarrow> returnsOnly P a) \<Longrightarrow> (\<not> c \<Longrightarrow> returnsOnly P b) \<Longrightarrow> returnsOnly P (if c then a else b)"
  by simp

text \<open>The record of a node: it has a kind and carries the text.\<close>

definition typeRecord :: "jv \<Rightarrow> jv \<Rightarrow> bool" where
  "typeRecord text r \<longleftrightarrow> (\<exists>kind rest. r = JObj ((''kind'', JStr kind) # (''text'', text) # rest))
     \<or> (\<exists>kind kindName rest. r = JObj ((''kind'', JStr kind) # (''kindName'', kindName) # (''text'', text) # rest))"

lemma parseTypeNode_body_typeRecord:
  assumes "ftruthy node"
    and "orElse (callOpt node ''getText'') (Inr (FStr (String node))) = Inr text"
  shows "returnsOnly (typeRecord (toJ text)) (parseTypeNode node)"
  apply (subst parseTypeNode.simps)
  apply (simp only: assms bindE_simps simp_thms if_False if_True)
  apply (intro returnsOnly_if returnsOnly_bindE returnsOnly_catchE returnsOnly_Inr)
  apply (simp_all add: typeRecord_def)
  done

lemma catchE_not_Thrown: "(\<And>err. h err \<noteq> Inl (Thrown s)) \<Longrightarrow> catchE m h \<noteq> Inl (Thrown s)"
  by (auto simp: catchE_def split: sum.splits error.splits)

lemma parseTypeNode_returns:
  assumes "ftruthy node"
    and "orElse (orElse (callOpt node ''getKindName'') (callOpt node ''getKind''))
           (Inr (propOf node ''kind'')) = Inr kind"
    and "orElse (callOpt node ''getText'') (Inr (FStr (String node))) = Inr text"
  shows "\<exists>r. parseTypeNode node = Inr r \<and> typeRecord (toJ text) r"
proof (cases "parseTypeNode node")
  case (Inr r)
  with parseTypeNode_body_typeRecord [OF assms(1,3)] show ?thesis
    by (simp add: returnsOnly_def)
next
  case (Inl e)
  with parseTypeNode_throwsOnly [of node] obtain s where "parseTypeNode node = Inl (Thrown s)"
    by (auto simp: throwsOnly_def)
  moreover have "parseTypeNode node \<noteq> Inl (Thrown s)"
    apply (subst parseTypeNode.simps)
    apply (simp only: assms bindE_simps simp_thms if_False)
    apply (rule catchE_not_Thrown)
    apply simp
    done
  ultimately show ?thesis by simp
qed

lemma typeRecord_text: "typeRecord text r \<Longrightarrow> getp r ''text'' = text"
  by (auto simp: typeRecord_def)

section \<open>Properties of the extractor\<close>

text \<open>With the default configuration nothing is pruned.\<close>

lemma onlyModeOf_default: "\<not> onlyModeOf (normalizeOptions None)"
  by (simp add: onlyModeOf_iff normalizeOptions_absent)

lemma keeps_default: "keeps fmap (normalizeOptions None) False key"
  by (simp add: keeps_def shouldInclude_def normalizeOptions_absent split: option.splits)

lemma pruneObject_default:
  "pruneObject (JObj props) fmap (normalizeOptions None) False = Inr (JObj props)"
  by (simp add: keeps_default)

lemma applyVariableItemOptions_default:
  "applyVariableItemOptions (JObj props) (normalizeOptions None) False = Inr (JObj props)"
  by (simp add: applyVariableItemOptions_def applyBaseItemOptions_def keeps_default)

lemma mapE_append:
  "mapE f (xs @ ys) = bindE (mapE f xs) (\<lambda>a. bindE (mapE f ys) (\<lambda>b. Inr (a @ b)))"
  by (induction xs) (auto simp: bindE_def split: sum.splits)

lemma asKindStrict_of_kind:
  assumes "callOpt stmt ''getKind'' = Inr (FNum k)"
  shows "asKindStrict stmt kind = Inr (if k = SyntaxKind kind then stmt else FUndef)"
proof (cases stmt)
  case (FNode ms)
  with assms show ?thesis by (simp add: asKind_def del: callOpt.simps)
qed (use assms in simp_all)

lemma exportAssignmentItems_identifier:
  assumes "callOpt ea ''getExpression'' = Inr expr" "ftruthy expr"
    and "callOpt expr ''getKindName'' = Inr k"
      "k \<noteq> FStr ''FunctionExpression''" "k \<noteq> FStr ''ArrowFunction''"
    and "callOpt expr ''getText'' = Inr ident" "ftruthy ident"
    and "callStrict1 src ''getVariableDeclaration'' ident = Inr vd" "ftruthy vd"
    and "exportAssignmentItems rt (normalizeOptions None) False src ea = Inr items"
  shows "\<exists>item name. items = [item]
      \<and> callStrict vd ''getName'' = Inr name
      \<and> getp item ''name'' = toJ name \<and> getp item ''type'' = JStr ''variable''
      \<and> getp item ''subtype'' = JStr ''constant'' \<and> getp item ''exports'' = JStr ''default''"
  using assms(10) unfolding exportAssignmentItems_def
  by (auto simp: assms(1-9) bindE_eq_Inr applyVariableItemOptions_default)

lemma statementItems_exportAssignment:
  assumes "callOpt stmt ''getKind'' = Inr (FNum (SyntaxKind ExportAssignment))"
  shows "statementItems rt recurse opts onlyMode options src stmt
    = exportAssignmentItems rt opts onlyMode src stmt"
proof -
  have truthy: "ftruthy stmt" using assms by (cases stmt) simp_all
  show ?thesis
    unfolding statementItems_def by (simp add: asKindStrict_of_kind [OF assms] truthy)
qed

lemma getp_assign_other: "k' \<noteq> key \<Longrightarrow> map_of (assign props key v) k' = map_of props k'"
  by (induction props) auto

lemma getp_setp_other: "k' \<noteq> key \<Longrightarrow> getp (setp item key v) k' = getp item k'"
  by (cases item) (simp_all add: getp_assign_other)

lemma mapField_getp_other:
  "mapField key f item = Inr item' \<Longrightarrow> k' \<noteq> key \<Longrightarrow> getp item' k' = getp item k'"
  by (auto simp: mapField_def bindE_eq_Inr getp_setp_other split: if_splits)

lemma pruneObject_default_Inr:
  "pruneObject v fmap (normalizeOptions None) False = Inr w \<Longrightarrow> w = v"
  by (cases v) (simp_all add: keeps_default)

lemma map_of_filter_key:
  "map_of (filter (\<lambda>(key, v). P key) props) k = (if P k then map_of props k else None)"
  by (induction props) auto

lemma getp_pruneObject:
  "pruneObject v fmap options onlyMode = Inr w
   \<Longrightarrow> getp w k = (if keeps fmap options onlyMode k then getp v k else JUndefined)"
  by (cases v) (auto simp: map_of_filter_key)







subsection \<open>The elements of a property\<close>

fun elems :: "jv \<Rightarrow> jv list" where
  "elems (JArr xs) = xs"
| "elems v = []"

lemma size_elems_lt: "x \<in> set (elems (getp item key)) \<Longrightarrow> size x < size item"
  by (cases "getp item key") (auto dest: size_getp_elem_lt)

lemma map_of_assign_same: "map_of (assign props key v) key = Some v"
  by (induction props) auto

lemma mapField_head:
  "mapField key f item = Inr item'
   \<Longrightarrow> (key \<noteq> ''level'' \<longrightarrow> getp item' ''level'' = getp item ''level'')
     \<and> (key \<noteq> ''type'' \<longrightarrow> getp item' ''type'' = getp item ''type'')"
  by (auto simp: mapField_getp_other)

lemma mapField_elems:
  assumes "mapField key f item = Inr item'" and "y \<in> set (elems (getp item' key))"
  shows "\<exists>x \<in> set (elems (getp item key)). f x = Inr y \<or> y = x"
proof (cases "truthy (getp item key)")
  case False
  with assms show ?thesis by (auto simp: mapField_def)
next
  case True
  with assms(1) obtain ys' where ys': "mapArr f (getp item key) = Inr ys'"
    and item': "item' = setp item key ys'"
    by (auto simp: mapField_def bindE_eq_Inr)
  from ys' obtain xs ys where xs: "getp item key = JArr xs" and ys: "mapE f xs = Inr ys"
    and "ys' = JArr ys"
    by (cases "getp item key") (auto simp: bindE_eq_Inr)
  from xs obtain props where "item = JObj props" by (cases item) auto
  with item' \<open>ys' = JArr ys\<close> have "getp item' key = JArr ys"
    by (simp add: map_of_assign_same)
  with assms(2) have "y \<in> set ys" by simp
  with ys obtain x where "x \<in> set xs" "f x = Inr y" by (blast dest: mapE_eq_Inr_set)
  with xs show ?thesis by auto
qed

section \<open>Properties of the projection\<close>

text \<open>
  A record is \<open>pruned\<close> by a field map when each of its properties is one the map keeps:
  these are the records \<^verbatim>\<open>pruneObject\<close> leaves as they are.
\<close>

fun pruned :: "FieldMap \<Rightarrow> NormalizedOptions \<Rightarrow> bool \<Rightarrow> jv \<Rightarrow> bool" where
  "pruned fmap options onlyMode (JObj props) =
     list_all (\<lambda>(key, v). keeps fmap options onlyMode key) props"
| "pruned fmap options onlyMode v = False"

lemma pruneObject_pruned:
  "pruneObject v fmap options onlyMode = Inr w \<Longrightarrow> pruned fmap options onlyMode w"
  by (cases v) (auto simp: list_all_iff)

lemma pruned_pruneObject:
  "pruned fmap options onlyMode w \<Longrightarrow> pruneObject w fmap options onlyMode = Inr w"
  by (cases w) (auto simp: list_all_iff filter_id_conv)

lemma pruned_after_pruneObject:
  "pruned fmap options onlyMode v \<Longrightarrow> pruneObject v fmap' options' onlyMode' = Inr w
   \<Longrightarrow> pruned fmap options onlyMode w"
  by (cases v) (auto simp: list_all_iff)

lemma assign_keys: "k \<in> fst ` set props \<Longrightarrow> fst ` set (assign props k x) = fst ` set props"
proof (induction props)
  case Nil
  then show ?case by simp
next
  case (Cons p props)
  obtain k' x' where p: "p = (k', x')" by (cases p)
  show ?case
  proof (cases "k' = k")
    case True
    then show ?thesis by (simp add: p)
  next
    case False
    with Cons.prems have "k \<in> fst ` set props" by (simp add: p)
    from Cons.IH [OF this] False show ?thesis by (simp add: p)
  qed
qed

lemma truthy_getp_key:
  "truthy (getp v k) \<Longrightarrow> \<exists>props. v = JObj props \<and> k \<in> fst ` set props"
  by (cases v) (auto split: option.splits dest: map_of_SomeD intro: rev_image_eqI)

lemma pruned_setp:
  assumes "pruned fmap options onlyMode v" and "truthy (getp v k)"
  shows "pruned fmap options onlyMode (setp v k x)"
proof -
  from truthy_getp_key [OF assms(2)] obtain props where
    v: "v = JObj props" and k: "k \<in> fst ` set props"
    by blast
  have "\<forall>key \<in> fst ` set (assign props k x). keeps fmap options onlyMode key"
    using assms(1) unfolding assign_keys [OF k] v by (auto simp: list_all_iff)
  then show ?thesis
    unfolding v by (auto simp: list_all_iff)
qed

lemma pruned_after_mapField:
  "pruned fmap options onlyMode v \<Longrightarrow> mapField k f v = Inr w \<Longrightarrow> pruned fmap options onlyMode w"
  by (auto simp: mapField_def bindE_eq_Inr pruned_setp split: if_splits)

lemma assign_same: "map_of props k = Some x \<Longrightarrow> assign props k x = props"
  by (induction props) (auto split: if_splits)

lemma setp_getp_same: "truthy (getp v k) \<Longrightarrow> setp v k (getp v k) = v"
  by (cases v) (auto split: option.splits simp: assign_same)

text \<open>
  A record is \<open>settled\<close> for a mapped property when \<^verbatim>\<open>item.key = item.key.map(f)\<close> leaves
  it as it is.
\<close>

definition settled :: "string \<Rightarrow> (jv \<Rightarrow> error + jv) \<Rightarrow> jv \<Rightarrow> bool" where
  "settled key f w \<longleftrightarrow>
     (truthy (getp w key) \<longrightarrow> (\<exists>ys. getp w key = JArr ys \<and> mapE f ys = Inr ys))"

lemma mapE_fixed: "(\<And>y. y \<in> set ys \<Longrightarrow> f y = Inr y) \<Longrightarrow> mapE f ys = Inr ys"
  by (induction ys) simp_all

lemma settled_mapField: "settled key f w \<Longrightarrow> mapField key f w = Inr w"
  unfolding settled_def mapField_def
  by (auto simp: bindE_eq_Inr dest: setp_getp_same)

lemma mapField_settled:
  assumes "mapField key f v = Inr w"
    and idem: "\<And>x y. x \<in> set (elems (getp v key)) \<Longrightarrow> f x = Inr y \<Longrightarrow> f y = Inr y"
  shows "settled key f w"
proof (cases "truthy (getp v key)")
  case False
  with assms(1) show ?thesis by (auto simp: mapField_def settled_def)
next
  case True
  with assms(1) obtain xs ys where xs: "getp v key = JArr xs" and ys: "mapE f xs = Inr ys"
    and w: "w = setp v key (JArr ys)"
    by (cases "getp v key") (auto simp: mapField_def bindE_eq_Inr)
  from xs obtain props where "v = JObj props" by (cases v) auto
  with w have field: "getp w key = JArr ys"
    by (simp add: map_of_assign_same)
  have "f y = Inr y" if "y \<in> set ys" for y
  proof -
    from mapE_eq_Inr_set [OF ys that] obtain x where "x \<in> set xs" "f x = Inr y" by blast
    with xs show ?thesis by (auto intro: idem)
  qed
  then have "mapE f ys = Inr ys" by (rule mapE_fixed)
  with field show ?thesis by (simp add: settled_def)
qed

lemma truthy_JUndefined: "\<not> truthy JUndefined"
  by simp

lemma settled_after_pruneObject:
  "settled key f v \<Longrightarrow> pruneObject v fmap options onlyMode = Inr w \<Longrightarrow> settled key f w"
  unfolding settled_def by (auto simp: getp_pruneObject)

lemma settled_after_mapField:
  "settled key f v \<Longrightarrow> mapField key' g v = Inr w \<Longrightarrow> key' \<noteq> key \<Longrightarrow> settled key f w"
  unfolding settled_def by (auto simp: mapField_getp_other)

text \<open>A function on records is idempotent where it returns.\<close>

definition idempotent :: "(jv \<Rightarrow> error + jv) \<Rightarrow> bool" where
  "idempotent f \<longleftrightarrow> (\<forall>x y. f x = Inr y \<longrightarrow> f y = Inr y)"

lemma idempotentD: "idempotent f \<Longrightarrow> f x = Inr y \<Longrightarrow> f y = Inr y"
  unfolding idempotent_def by blast

lemma pruneObject_idempotent:
  "idempotent (\<lambda>v. pruneObject v fmap options onlyMode)"
  unfolding idempotent_def by (blast intro: pruned_pruneObject pruneObject_pruned)

lemma applyParamOptions_idempotent: "idempotent (\<lambda>p. applyParamOptions p options onlyMode)"
  unfolding applyParamOptions_def by (rule pruneObject_idempotent)

lemma applyTypeParameterOptions_idempotent:
  "idempotent (\<lambda>tp. applyTypeParameterOptions tp options onlyMode)"
  unfolding applyTypeParameterOptions_def by (rule pruneObject_idempotent)

lemma applyEnumMemberOptions_idempotent:
  "idempotent (\<lambda>m. applyEnumMemberOptions m options onlyMode)"
  unfolding applyEnumMemberOptions_def by (rule pruneObject_idempotent)

lemma pruneObject_twice:
  assumes "pruneObject v fmap options onlyMode = Inr x"
    and "pruneObject x fmap' options onlyMode = Inr y"
  shows "pruneObject y fmap options onlyMode = Inr y"
    and "pruneObject y fmap' options onlyMode = Inr y"
proof -
  from assms(1) have "pruned fmap options onlyMode x" by (rule pruneObject_pruned)
  then have "pruned fmap options onlyMode y" using assms(2) by (rule pruned_after_pruneObject)
  then show "pruneObject y fmap options onlyMode = Inr y" by (rule pruned_pruneObject)
  from assms(2) have "pruned fmap' options onlyMode y" by (rule pruneObject_pruned)
  then show "pruneObject y fmap' options onlyMode = Inr y" by (rule pruned_pruneObject)
qed

lemma applyMethodParamOptions_idempotent:
  "idempotent (\<lambda>p. applyMethodParamOptions p options onlyMode)"
  unfolding idempotent_def applyMethodParamOptions_def applyParamOptions_def bindE_eq_Inr
  by (blast dest: pruneObject_twice)

lemma applyVariableItemOptions_idempotent:
  "idempotent (\<lambda>item. applyVariableItemOptions item options onlyMode)"
  unfolding idempotent_def applyVariableItemOptions_def applyBaseItemOptions_def bindE_eq_Inr
  by (blast dest: pruneObject_twice)

lemma applyFunctionItemOptions_idempotent:
  "idempotent (\<lambda>item. applyFunctionItemOptions item options onlyMode)"
  unfolding idempotent_def
proof (intro allI impI)
  fix item item'
  let ?params = "\<lambda>p. applyParamOptions p options onlyMode"
  let ?tparams = "\<lambda>tp. applyTypeParameterOptions tp options onlyMode"
  let ?base = "[(''name'', Some Name), (''type'', Some ItemType), (''level'', Some Level),
        (''exports'', Some ExportInfo), (''jsdoc'', Some JSDoc),
        (''decorators'', Some Decorators), (''loc'', Some Location)]"
  let ?own = "[(''arguments'', Some Arguments), (''typeParameters'', Some TypeParameters),
        (''returnType'', Some ReturnType), (''returnTypeAst'', Some ReturnTypeAST)]"
  assume "applyFunctionItemOptions item options onlyMode = Inr item'"
  then obtain i1 i2 i3 where
    s1: "mapField ''arguments'' ?params item = Inr i1"
    and s2: "mapField ''typeParameters'' ?tparams i1 = Inr i2"
    and s3: "pruneObject i2 ?base options onlyMode = Inr i3"
    and s4: "pruneObject i3 ?own options onlyMode = Inr item'"
    unfolding applyFunctionItemOptions_def applyBaseItemOptions_def bindE_eq_Inr by blast
  have "settled ''arguments'' ?params i1"
    using s1 by (rule mapField_settled) (rule idempotentD [OF applyParamOptions_idempotent])
  then have "settled ''arguments'' ?params i2"
    using s2 by (rule settled_after_mapField) simp
  then have "settled ''arguments'' ?params i3"
    using s3 by (rule settled_after_pruneObject)
  then have "settled ''arguments'' ?params item'"
    using s4 by (rule settled_after_pruneObject)
  then have r1: "mapField ''arguments'' ?params item' = Inr item'"
    by (rule settled_mapField)
  have "settled ''typeParameters'' ?tparams i2"
    using s2 by (rule mapField_settled) (rule idempotentD [OF applyTypeParameterOptions_idempotent])
  then have "settled ''typeParameters'' ?tparams i3"
    using s3 by (rule settled_after_pruneObject)
  then have "settled ''typeParameters'' ?tparams item'"
    using s4 by (rule settled_after_pruneObject)
  then have r2: "mapField ''typeParameters'' ?tparams item' = Inr item'"
    by (rule settled_mapField)
  note r3 = pruneObject_twice [OF s3 s4]
  show "applyFunctionItemOptions item' options onlyMode = Inr item'"
    unfolding applyFunctionItemOptions_def applyBaseItemOptions_def
    by (simp add: r1 r2 r3)
qed

lemma pruneObject_JObj: "pruneObject v fmap options onlyMode = Inr w \<Longrightarrow> \<exists>props. w = JObj props"
  by (cases v) auto

lemma applyFunctionItemOptions_JObj:
  "applyFunctionItemOptions item options onlyMode = Inr item' \<Longrightarrow> \<exists>props. item' = JObj props"
  unfolding applyFunctionItemOptions_def bindE_eq_Inr by (blast dest: pruneObject_JObj)

lemma applyMethodItemOptions_idempotent:
  "idempotent (\<lambda>item. applyMethodItemOptions item options onlyMode)"
  unfolding idempotent_def
proof (intro allI impI)
  fix item item'
  let ?params = "\<lambda>p. applyMethodParamOptions p options onlyMode"
  let ?tparams = "\<lambda>tp. applyTypeParameterOptions tp options onlyMode"
  let ?own = "[(''name'', Some Name), (''accessibility'', Some Accessibility),
        (''static'', Some Static), (''async'', Some Async), (''abstract'', Some Abstract),
        (''isGetter'', Some GetterSetter), (''isSetter'', Some GetterSetter),
        (''readonly'', Some Readonly), (''arguments'', Some Arguments),
        (''typeParameters'', Some TypeParameters), (''returnType'', Some ReturnType),
        (''returnTypeAst'', Some ReturnTypeAST), (''decorators'', Some Decorators),
        (''loc'', Some Location), (''jsdoc'', Some JSDoc)]"
  assume "applyMethodItemOptions item options onlyMode = Inr item'"
  then obtain i1 i2 where
    s1: "mapField ''arguments'' ?params item = Inr i1"
    and s2: "mapField ''typeParameters'' ?tparams i1 = Inr i2"
    and s3: "pruneObject i2 ?own options onlyMode = Inr item'"
    unfolding applyMethodItemOptions_def bindE_eq_Inr by blast
  have "settled ''arguments'' ?params i1"
    using s1 by (rule mapField_settled) (rule idempotentD [OF applyMethodParamOptions_idempotent])
  then have "settled ''arguments'' ?params i2"
    using s2 by (rule settled_after_mapField) simp
  then have "settled ''arguments'' ?params item'"
    using s3 by (rule settled_after_pruneObject)
  then have r1: "mapField ''arguments'' ?params item' = Inr item'"
    by (rule settled_mapField)
  have "settled ''typeParameters'' ?tparams i2"
    using s2 by (rule mapField_settled) (rule idempotentD [OF applyTypeParameterOptions_idempotent])
  then have "settled ''typeParameters'' ?tparams item'"
    using s3 by (rule settled_after_pruneObject)
  then have r2: "mapField ''typeParameters'' ?tparams item' = Inr item'"
    by (rule settled_mapField)
  from s3 have r3: "pruneObject item' ?own options onlyMode = Inr item'"
    by (rule idempotentD [OF pruneObject_idempotent])
  show "applyMethodItemOptions item' options onlyMode = Inr item'"
    unfolding applyMethodItemOptions_def by (simp add: r1 r2 r3)
qed

lemma applyInterfaceMemberMethodOptions_idempotent:
  "idempotent (\<lambda>item. applyInterfaceMemberMethodOptions item options onlyMode)"
  unfolding idempotent_def
proof (intro allI impI)
  fix item item'
  let ?params = "\<lambda>p. applyParamOptions p options onlyMode"
  let ?own = "[(''name'', Some Name), (''arguments'', Some Arguments),
        (''returnType'', Some ReturnType), (''optional'', Some Optional),
        (''jsdoc'', Some JSDoc), (''loc'', Some Location)]"
  assume "applyInterfaceMemberMethodOptions item options onlyMode = Inr item'"
  then obtain i1 where
    s1: "mapField ''arguments'' ?params item = Inr i1"
    and s2: "pruneObject i1 ?own options onlyMode = Inr item'"
    unfolding applyInterfaceMemberMethodOptions_def bindE_eq_Inr by blast
  have "settled ''arguments'' ?params i1"
    using s1 by (rule mapField_settled) (rule idempotentD [OF applyParamOptions_idempotent])
  then have "settled ''arguments'' ?params item'"
    using s2 by (rule settled_after_pruneObject)
  then have r1: "mapField ''arguments'' ?params item' = Inr item'"
    by (rule settled_mapField)
  from s2 have r2: "pruneObject item' ?own options onlyMode = Inr item'"
    by (rule idempotentD [OF pruneObject_idempotent])
  show "applyInterfaceMemberMethodOptions item' options onlyMode = Inr item'"
    unfolding applyInterfaceMemberMethodOptions_def by (simp add: r1 r2)
qed

subsection \<open>The shapes of class and interface members\<close>

text \<open>
  The property names of the interfaces \<^verbatim>\<open>MethodItem\<close>, \<^verbatim>\<open>IndexSignature\<close> and
  \<^verbatim>\<open>InterfaceMemberMethod\<close> of the source.
\<close>

definition MethodItem :: "string list" where
  "MethodItem = [''name'', ''accessibility'', ''static'', ''async'', ''abstract'', ''isGetter'',
     ''isSetter'', ''readonly'', ''arguments'', ''typeParameters'', ''returnType'',
     ''returnTypeAst'', ''decorators'', ''loc'', ''jsdoc'']"

definition IndexSignatureKeys :: "string list" where
  "IndexSignatureKeys = [''keyType'', ''returnType'', ''readonly'']"

definition InterfaceMemberMethod :: "string list" where
  "InterfaceMemberMethod = [''name'', ''arguments'', ''returnType'', ''optional'', ''jsdoc'',
     ''loc'']"

fun hasOnly :: "string list \<Rightarrow> jv \<Rightarrow> bool" where
  "hasOnly names (JObj props) = list_all (\<lambda>(key, v). key \<in> set names) props"
| "hasOnly names v = True"

lemma hasOnly_getp: "hasOnly names v \<Longrightarrow> key \<notin> set names \<Longrightarrow> getp v key = JUndefined"
  by (cases v) (auto simp: list_all_iff split: option.splits dest: map_of_SomeD)

lemma hasOnly_after_pruneObject:
  "hasOnly names v \<Longrightarrow> pruneObject v fmap options onlyMode = Inr w \<Longrightarrow> hasOnly names w"
  by (cases v) (auto simp: list_all_iff)

lemma hasOnly_setp:
  assumes "hasOnly names v" and "truthy (getp v k)"
  shows "hasOnly names (setp v k x)"
proof -
  from truthy_getp_key [OF assms(2)] obtain props where
    v: "v = JObj props" and k: "k \<in> fst ` set props"
    by blast
  have "\<forall>key \<in> fst ` set (assign props k x). key \<in> set names"
    using assms(1) unfolding assign_keys [OF k] v by (auto simp: list_all_iff)
  then show ?thesis
    unfolding v by (auto simp: list_all_iff)
qed

lemma hasOnly_after_mapField:
  "hasOnly names v \<Longrightarrow> mapField k f v = Inr w \<Longrightarrow> hasOnly names w"
  by (auto simp: mapField_def bindE_eq_Inr hasOnly_setp split: if_splits)

lemma pruned_transfer:
  assumes "pruned fmap options onlyMode v" and "hasOnly names v"
    and "\<And>key. key \<in> set names \<Longrightarrow> keeps fmap options onlyMode key
           \<Longrightarrow> keeps fmap' options onlyMode key"
  shows "pruned fmap' options onlyMode v"
proof (cases v)
  case (JObj props)
  have "keeps fmap' options onlyMode key" if "(key, x) \<in> set props" for key x
  proof -
    from that assms(1,2) have "key \<in> set names" "keeps fmap options onlyMode key"
      unfolding JObj by (auto simp: list_all_iff)
    then show ?thesis by (rule assms(3))
  qed
  then show ?thesis
    unfolding JObj by (auto simp: list_all_iff)
qed (use assms(1) in simp_all)

definition classMemberShaped :: "jv \<Rightarrow> bool" where
  "classMemberShaped m \<longleftrightarrow>
     (getp m ''type'' \<noteq> JStr ''constructor'' \<longrightarrow>
        (if getp m ''arguments'' \<noteq> JUndefined then hasOnly MethodItem m
         else getp m ''keyType'' \<noteq> JUndefined \<longrightarrow> hasOnly IndexSignatureKeys m))"

definition interfaceMemberShaped :: "jv \<Rightarrow> bool" where
  "interfaceMemberShaped m \<longleftrightarrow>
     (if getp m ''keyType'' \<noteq> JUndefined then hasOnly IndexSignatureKeys m
      else getp m ''arguments'' \<noteq> JUndefined \<longrightarrow> hasOnly InterfaceMemberMethod m)"

lemma applyMethodItemOptions_pruned:
  "applyMethodItemOptions item options onlyMode = Inr item'
   \<Longrightarrow> pruned [(''name'', Some Name), (''accessibility'', Some Accessibility),
        (''static'', Some Static), (''async'', Some Async), (''abstract'', Some Abstract),
        (''isGetter'', Some GetterSetter), (''isSetter'', Some GetterSetter),
        (''readonly'', Some Readonly), (''arguments'', Some Arguments),
        (''typeParameters'', Some TypeParameters), (''returnType'', Some ReturnType),
        (''returnTypeAst'', Some ReturnTypeAST), (''decorators'', Some Decorators),
        (''loc'', Some Location), (''jsdoc'', Some JSDoc)] options onlyMode item'"
  unfolding applyMethodItemOptions_def bindE_eq_Inr by (blast dest: pruneObject_pruned)

lemma applyMethodItemOptions_hasOnly:
  "applyMethodItemOptions item options onlyMode = Inr item' \<Longrightarrow> hasOnly names item
   \<Longrightarrow> hasOnly names item'"
  unfolding applyMethodItemOptions_def bindE_eq_Inr
  by (blast dest: hasOnly_after_pruneObject hasOnly_after_mapField)

lemma applyInterfaceMemberMethodOptions_pruned:
  "applyInterfaceMemberMethodOptions item options onlyMode = Inr item'
   \<Longrightarrow> pruned [(''name'', Some Name), (''arguments'', Some Arguments),
        (''returnType'', Some ReturnType), (''optional'', Some Optional),
        (''jsdoc'', Some JSDoc), (''loc'', Some Location)] options onlyMode item'"
  unfolding applyInterfaceMemberMethodOptions_def bindE_eq_Inr by (blast dest: pruneObject_pruned)

lemma applyInterfaceMemberMethodOptions_hasOnly:
  "applyInterfaceMemberMethodOptions item options onlyMode = Inr item' \<Longrightarrow> hasOnly names item
   \<Longrightarrow> hasOnly names item'"
  unfolding applyInterfaceMemberMethodOptions_def bindE_eq_Inr
  by (blast dest: hasOnly_after_pruneObject hasOnly_after_mapField)

lemma method_as_property:
  assumes "key \<in> set MethodItem"
    and "keeps [(''name'', Some Name), (''accessibility'', Some Accessibility),
        (''static'', Some Static), (''async'', Some Async), (''abstract'', Some Abstract),
        (''isGetter'', Some GetterSetter), (''isSetter'', Some GetterSetter),
        (''readonly'', Some Readonly), (''arguments'', Some Arguments),
        (''typeParameters'', Some TypeParameters), (''returnType'', Some ReturnType),
        (''returnTypeAst'', Some ReturnTypeAST), (''decorators'', Some Decorators),
        (''loc'', Some Location), (''jsdoc'', Some JSDoc)] options False key"
  shows "keeps [(''name'', Some Name), (''private'', Some Private), (''static'', Some Static),
        (''readonly'', Some Readonly), (''value'', Some Value), (''type'', Some Type),
        (''decorators'', Some Decorators), (''loc'', Some Location)] options False key"
proof -
  have "\<forall>key \<in> set MethodItem.
      keeps [(''name'', Some Name), (''accessibility'', Some Accessibility),
        (''static'', Some Static), (''async'', Some Async), (''abstract'', Some Abstract),
        (''isGetter'', Some GetterSetter), (''isSetter'', Some GetterSetter),
        (''readonly'', Some Readonly), (''arguments'', Some Arguments),
        (''typeParameters'', Some TypeParameters), (''returnType'', Some ReturnType),
        (''returnTypeAst'', Some ReturnTypeAST), (''decorators'', Some Decorators),
        (''loc'', Some Location), (''jsdoc'', Some JSDoc)] options False key
      \<longrightarrow> keeps [(''name'', Some Name), (''private'', Some Private), (''static'', Some Static),
        (''readonly'', Some Readonly), (''value'', Some Value), (''type'', Some Type),
        (''decorators'', Some Decorators), (''loc'', Some Location)] options False key"
    unfolding MethodItem_def by (simp add: keeps_def)
  with assms show ?thesis by blast
qed

lemma index_as_property:
  assumes "key \<in> set IndexSignatureKeys"
    and "keeps [(''keyType'', Some KeyType), (''returnType'', Some ReturnType),
        (''readonly'', Some Readonly)] options False key"
  shows "keeps [(''name'', Some Name), (''private'', Some Private), (''static'', Some Static),
        (''readonly'', Some Readonly), (''value'', Some Value), (''type'', Some Type),
        (''decorators'', Some Decorators), (''loc'', Some Location)] options False key"
proof -
  have "\<forall>key \<in> set IndexSignatureKeys.
      keeps [(''keyType'', Some KeyType), (''returnType'', Some ReturnType),
        (''readonly'', Some Readonly)] options False key
      \<longrightarrow> keeps [(''name'', Some Name), (''private'', Some Private), (''static'', Some Static),
        (''readonly'', Some Readonly), (''value'', Some Value), (''type'', Some Type),
        (''decorators'', Some Decorators), (''loc'', Some Location)] options False key"
    unfolding IndexSignatureKeys_def by (simp add: keeps_def)
  with assms show ?thesis by blast
qed

lemma index_as_interface_property:
  assumes "key \<in> set IndexSignatureKeys"
    and "keeps [(''keyType'', Some KeyType), (''returnType'', Some ReturnType),
        (''readonly'', Some Readonly)] options False key"
  shows "keeps [(''name'', Some Name), (''optional'', Some Optional), (''readonly'', Some Readonly),
        (''type'', Some Type), (''jsdoc'', Some JSDoc), (''loc'', Some Location)] options False key"
proof -
  have "\<forall>key \<in> set IndexSignatureKeys.
      keeps [(''keyType'', Some KeyType), (''returnType'', Some ReturnType),
        (''readonly'', Some Readonly)] options False key
      \<longrightarrow> keeps [(''name'', Some Name), (''optional'', Some Optional), (''readonly'', Some Readonly),
        (''type'', Some Type), (''jsdoc'', Some JSDoc), (''loc'', Some Location)] options False key"
    unfolding IndexSignatureKeys_def by (simp add: keeps_def)
  with assms show ?thesis by blast
qed

lemma interface_method_as_property:
  assumes "key \<in> set InterfaceMemberMethod"
    and "keeps [(''name'', Some Name), (''arguments'', Some Arguments),
        (''returnType'', Some ReturnType), (''optional'', Some Optional),
        (''jsdoc'', Some JSDoc), (''loc'', Some Location)] options False key"
  shows "keeps [(''name'', Some Name), (''optional'', Some Optional), (''readonly'', Some Readonly),
        (''type'', Some Type), (''jsdoc'', Some JSDoc), (''loc'', Some Location)] options False key"
proof -
  have "\<forall>key \<in> set InterfaceMemberMethod.
      keeps [(''name'', Some Name), (''arguments'', Some Arguments),
        (''returnType'', Some ReturnType), (''optional'', Some Optional),
        (''jsdoc'', Some JSDoc), (''loc'', Some Location)] options False key
      \<longrightarrow> keeps [(''name'', Some Name), (''optional'', Some Optional), (''readonly'', Some Readonly),
        (''type'', Some Type), (''jsdoc'', Some JSDoc), (''loc'', Some Location)] options False key"
    unfolding InterfaceMemberMethod_def by (simp add: keeps_def)
  with assms show ?thesis by blast
qed

lemma applyClassMember_fixed:
  assumes shaped: "classMemberShaped m"
    and run: "applyClassMember m options False = Inr m'"
  shows "applyClassMember m' options False = Inr m'"
proof (cases "getp m ''type'' = JStr ''constructor''")
  case True
  let ?own = "[(''for'', Some For), (''function'', Some Members)]"
  from run True obtain c where c: "pruneObject m ?own options False = Inr c"
    and rest: "(if truthy (getp c ''function'')
           then bindE (applyFunctionItemOptions (getp c ''function'') options False)
                  (\<lambda>f. Inr (setp c ''function'' f))
           else Inr c) = Inr m'"
    by (auto simp: applyClassMember_def bindE_eq_Inr)
  from getp_pruneObject [OF c, of "''type''"] True
  have ctype: "getp c ''type'' = JStr ''constructor''"
    by (simp add: keeps_def)
  from c have cpruned: "pruned ?own options False c" by (rule pruneObject_pruned)
  show ?thesis
  proof (cases "truthy (getp c ''function'')")
    case False
    with rest have "m' = c" by simp
    with False ctype pruned_pruneObject [OF cpruned] show ?thesis
      by (simp add: applyClassMember_def)
  next
    case present: True
    with rest obtain f where f: "applyFunctionItemOptions (getp c ''function'') options False = Inr f"
      and m': "m' = setp c ''function'' f"
      by (auto simp: bindE_eq_Inr)
    from pruneObject_JObj [OF c] obtain props where props: "c = JObj props" ..
    from applyFunctionItemOptions_JObj [OF f] obtain fprops where fprops: "f = JObj fprops" ..
    have field: "getp m' ''function'' = f"
      unfolding m' props by (simp add: map_of_assign_same)
    have type': "getp m' ''type'' = JStr ''constructor''"
      unfolding m' using ctype by (simp add: getp_setp_other)
    have "pruned ?own options False m'"
      unfolding m' using cpruned present by (rule pruned_setp)
    then have again: "pruneObject m' ?own options False = Inr m'"
      by (rule pruned_pruneObject)
    have truthy': "truthy (getp m' ''function'')"
      unfolding field fprops by simp
    from f have fixed: "applyFunctionItemOptions f options False = Inr f"
      by (rule idempotentD [OF applyFunctionItemOptions_idempotent])
    from setp_getp_same [OF truthy'] have same: "setp m' ''function'' f = m'"
      unfolding field .
    show ?thesis
      unfolding applyClassMember_def using type' again truthy' fixed same
      by (simp add: field)
  qed
next
  case other: False
  let ?methodMap = "[(''name'', Some Name), (''accessibility'', Some Accessibility),
        (''static'', Some Static), (''async'', Some Async), (''abstract'', Some Abstract),
        (''isGetter'', Some GetterSetter), (''isSetter'', Some GetterSetter),
        (''readonly'', Some Readonly), (''arguments'', Some Arguments),
        (''typeParameters'', Some TypeParameters), (''returnType'', Some ReturnType),
        (''returnTypeAst'', Some ReturnTypeAST), (''decorators'', Some Decorators),
        (''loc'', Some Location), (''jsdoc'', Some JSDoc)]"
  let ?index = "[(''keyType'', Some KeyType), (''returnType'', Some ReturnType),
        (''readonly'', Some Readonly)]"
  let ?property = "[(''name'', Some Name), (''private'', Some Private), (''static'', Some Static),
        (''readonly'', Some Readonly), (''value'', Some Value), (''type'', Some Type),
        (''decorators'', Some Decorators), (''loc'', Some Location)]"
  show ?thesis
  proof (cases "getp m ''arguments'' \<noteq> JUndefined")
    case True
    with other run have asMethod: "applyMethodItemOptions m options False = Inr m'"
      by (simp add: applyClassMember_def)
    from shaped other True have "hasOnly MethodItem m"
      by (simp add: classMemberShaped_def)
    with asMethod have only: "hasOnly MethodItem m'"
      by (rule applyMethodItemOptions_hasOnly)
    then have type': "getp m' ''type'' = JUndefined" and key': "getp m' ''keyType'' = JUndefined"
      by (auto intro: hasOnly_getp simp: MethodItem_def)
    have "pruned ?property options False m'"
      using applyMethodItemOptions_pruned [OF asMethod] only
      by (rule pruned_transfer) (rule method_as_property)
    then have "pruneObject m' ?property options False = Inr m'"
      by (rule pruned_pruneObject)
    moreover from asMethod have "applyMethodItemOptions m' options False = Inr m'"
      by (rule idempotentD [OF applyMethodItemOptions_idempotent])
    ultimately show ?thesis
      by (simp add: applyClassMember_def type' key' applyClassMemberPropertyOptions_def)
  next
    case noArguments: False
    show ?thesis
    proof (cases "getp m ''keyType'' \<noteq> JUndefined")
      case True
      with other noArguments run have index: "pruneObject m ?index options False = Inr m'"
        by (simp add: applyClassMember_def applyIndexSignatureOptions_def)
      from shaped other noArguments True have "hasOnly IndexSignatureKeys m"
        by (simp add: classMemberShaped_def)
      then have only: "hasOnly IndexSignatureKeys m'"
        using index by (rule hasOnly_after_pruneObject)
      then have type': "getp m' ''type'' = JUndefined"
        and arguments': "getp m' ''arguments'' = JUndefined"
        by (auto intro: hasOnly_getp simp: IndexSignatureKeys_def)
      have "pruned ?property options False m'"
        using pruneObject_pruned [OF index] only
        by (rule pruned_transfer) (rule index_as_property)
      then have "pruneObject m' ?property options False = Inr m'"
        by (rule pruned_pruneObject)
      moreover from index have "pruneObject m' ?index options False = Inr m'"
        by (rule idempotentD [OF pruneObject_idempotent])
      ultimately show ?thesis
        by (simp add: applyClassMember_def type' arguments' applyClassMemberPropertyOptions_def
            applyIndexSignatureOptions_def)
    next
      case False
      with other noArguments run have property: "pruneObject m ?property options False = Inr m'"
        by (simp add: applyClassMember_def applyClassMemberPropertyOptions_def)
      from getp_pruneObject [OF property] other noArguments False
      have "getp m' ''type'' \<noteq> JStr ''constructor''" "getp m' ''arguments'' = JUndefined"
        "getp m' ''keyType'' = JUndefined"
        by simp_all
      moreover from property have "pruneObject m' ?property options False = Inr m'"
        by (rule idempotentD [OF pruneObject_idempotent])
      ultimately show ?thesis
        by (simp add: applyClassMember_def applyClassMemberPropertyOptions_def)
    qed
  qed
qed

lemma applyInterfaceMember_fixed:
  assumes shaped: "interfaceMemberShaped m"
    and run: "applyInterfaceMember m options False = Inr m'"
  shows "applyInterfaceMember m' options False = Inr m'"
proof -
  let ?methodMap = "[(''name'', Some Name), (''arguments'', Some Arguments),
        (''returnType'', Some ReturnType), (''optional'', Some Optional),
        (''jsdoc'', Some JSDoc), (''loc'', Some Location)]"
  let ?index = "[(''keyType'', Some KeyType), (''returnType'', Some ReturnType),
        (''readonly'', Some Readonly)]"
  let ?property = "[(''name'', Some Name), (''optional'', Some Optional),
        (''readonly'', Some Readonly), (''type'', Some Type), (''jsdoc'', Some JSDoc),
        (''loc'', Some Location)]"
  show ?thesis
  proof (cases "getp m ''keyType'' \<noteq> JUndefined")
    case True
    with run have index: "pruneObject m ?index options False = Inr m'"
      by (simp add: applyInterfaceMember_def applyIndexSignatureOptions_def)
    from shaped True have "hasOnly IndexSignatureKeys m"
      by (simp add: interfaceMemberShaped_def)
    then have only: "hasOnly IndexSignatureKeys m'"
      using index by (rule hasOnly_after_pruneObject)
    then have arguments': "getp m' ''arguments'' = JUndefined"
      by (auto intro: hasOnly_getp simp: IndexSignatureKeys_def)
    have "pruned ?property options False m'"
      using pruneObject_pruned [OF index] only
      by (rule pruned_transfer) (rule index_as_interface_property)
    then have "pruneObject m' ?property options False = Inr m'"
      by (rule pruned_pruneObject)
    moreover from index have "pruneObject m' ?index options False = Inr m'"
      by (rule idempotentD [OF pruneObject_idempotent])
    ultimately show ?thesis
      by (simp add: applyInterfaceMember_def arguments' applyInterfaceMemberPropertyOptions_def
          applyIndexSignatureOptions_def)
  next
    case noKey: False
    show ?thesis
    proof (cases "getp m ''arguments'' \<noteq> JUndefined")
      case True
      with noKey run have asMethod: "applyInterfaceMemberMethodOptions m options False = Inr m'"
        by (simp add: applyInterfaceMember_def)
      from shaped noKey True have "hasOnly InterfaceMemberMethod m"
        by (simp add: interfaceMemberShaped_def)
      with asMethod have only: "hasOnly InterfaceMemberMethod m'"
        by (rule applyInterfaceMemberMethodOptions_hasOnly)
      then have key': "getp m' ''keyType'' = JUndefined"
        by (auto intro: hasOnly_getp simp: InterfaceMemberMethod_def)
      have "pruned ?property options False m'"
        using applyInterfaceMemberMethodOptions_pruned [OF asMethod] only
        by (rule pruned_transfer) (rule interface_method_as_property)
      then have "pruneObject m' ?property options False = Inr m'"
        by (rule pruned_pruneObject)
      moreover from asMethod have "applyInterfaceMemberMethodOptions m' options False = Inr m'"
        by (rule idempotentD [OF applyInterfaceMemberMethodOptions_idempotent])
      ultimately show ?thesis
        by (simp add: applyInterfaceMember_def key' applyInterfaceMemberPropertyOptions_def)
    next
      case False
      with noKey run have property: "pruneObject m ?property options False = Inr m'"
        by (simp add: applyInterfaceMember_def applyInterfaceMemberPropertyOptions_def)
      from getp_pruneObject [OF property] noKey False
      have "getp m' ''arguments'' = JUndefined" "getp m' ''keyType'' = JUndefined"
        by simp_all
      moreover from property have "pruneObject m' ?property options False = Inr m'"
        by (rule idempotentD [OF pruneObject_idempotent])
      ultimately show ?thesis
        by (simp add: applyInterfaceMember_def applyInterfaceMemberPropertyOptions_def)
    qed
  qed
qed

lemma prune_map_prune_fixed:
  assumes s1: "pruneObject item fmap options onlyMode = Inr i1"
    and s2: "mapField key f i1 = Inr i2"
    and s3: "pruneObject i2 fmap' options onlyMode = Inr item'"
    and idem: "\<And>x y. x \<in> set (elems (getp i1 key)) \<Longrightarrow> f x = Inr y \<Longrightarrow> f y = Inr y"
  shows "pruneObject item' fmap options onlyMode = Inr item'"
    and "mapField key f item' = Inr item'"
    and "pruneObject item' fmap' options onlyMode = Inr item'"
proof -
  from s1 have "pruned fmap options onlyMode i1" by (rule pruneObject_pruned)
  then have "pruned fmap options onlyMode i2" using s2 by (rule pruned_after_mapField)
  then have "pruned fmap options onlyMode item'" using s3 by (rule pruned_after_pruneObject)
  then show "pruneObject item' fmap options onlyMode = Inr item'" by (rule pruned_pruneObject)
  from s2 idem have "settled key f i2" by (rule mapField_settled)
  then have "settled key f item'" using s3 by (rule settled_after_pruneObject)
  then show "mapField key f item' = Inr item'" by (rule settled_mapField)
  from s3 show "pruneObject item' fmap' options onlyMode = Inr item'"
    by (rule idempotentD [OF pruneObject_idempotent])
qed

lemma prune_map_map_prune_fixed:
  assumes s1: "pruneObject item fmap options onlyMode = Inr i1"
    and s2: "mapField key f i1 = Inr i2"
    and s3: "mapField key' g i2 = Inr i3"
    and s4: "pruneObject i3 fmap' options onlyMode = Inr item'"
    and distinct: "key' \<noteq> key"
    and idem: "\<And>x y. x \<in> set (elems (getp i1 key)) \<Longrightarrow> f x = Inr y \<Longrightarrow> f y = Inr y"
    and idem': "\<And>x y. x \<in> set (elems (getp i2 key')) \<Longrightarrow> g x = Inr y \<Longrightarrow> g y = Inr y"
  shows "pruneObject item' fmap options onlyMode = Inr item'"
    and "mapField key f item' = Inr item'"
    and "mapField key' g item' = Inr item'"
    and "pruneObject item' fmap' options onlyMode = Inr item'"
proof -
  from s1 have "pruned fmap options onlyMode i1" by (rule pruneObject_pruned)
  then have "pruned fmap options onlyMode i2" using s2 by (rule pruned_after_mapField)
  then have "pruned fmap options onlyMode i3" using s3 by (rule pruned_after_mapField)
  then have "pruned fmap options onlyMode item'" using s4 by (rule pruned_after_pruneObject)
  then show "pruneObject item' fmap options onlyMode = Inr item'" by (rule pruned_pruneObject)
  from s2 idem have "settled key f i2" by (rule mapField_settled)
  then have "settled key f i3" using s3 distinct by (rule settled_after_mapField)
  then have "settled key f item'" using s4 by (rule settled_after_pruneObject)
  then show "mapField key f item' = Inr item'" by (rule settled_mapField)
  from s3 idem' have "settled key' g i3" by (rule mapField_settled)
  then have "settled key' g item'" using s4 by (rule settled_after_pruneObject)
  then show "mapField key' g item' = Inr item'" by (rule settled_mapField)
  from s4 show "pruneObject item' fmap' options onlyMode = Inr item'"
    by (rule idempotentD [OF pruneObject_idempotent])
qed

lemma untyped_fixed:
  assumes "getp item ''type'' = JUndefined" and "item = JObj props"
  shows "applyParsedItemOptions item options onlyMode = Inr item"
  by (subst applyParsedItemOptions.simps) (simp add: assms(1), simp add: assms(2))

function wellShaped :: "jv \<Rightarrow> bool" where
  "wellShaped item =
     (if getp item ''type'' = JStr ''class'' then
        list_all classMemberShaped (elems (getp item ''items''))
      else if getp item ''type'' = JStr ''interface'' then
        list_all interfaceMemberShaped (elems (getp item ''members''))
      else if getp item ''type'' = JStr ''namespace'' then
        list_all wellShaped (elems (getp item ''members''))
      else True)"
  by pat_completeness auto
termination
  by (relation "measure size") (auto dest: size_elems_lt)

declare wellShaped.simps [simp del]

definition keptOrDropped :: "string \<Rightarrow> jv \<Rightarrow> jv \<Rightarrow> bool" where
  "keptOrDropped key v w \<longleftrightarrow> getp w key = getp v key \<or> getp w key = JUndefined"

lemma keptOrDropped_pruneObject:
  "pruneObject v fmap options onlyMode = Inr w \<Longrightarrow> keptOrDropped key v w"
  by (simp add: keptOrDropped_def getp_pruneObject)

lemma keptOrDropped_mapField:
  "mapField key' f v = Inr w \<Longrightarrow> key' \<noteq> key \<Longrightarrow> keptOrDropped key v w"
  by (simp add: keptOrDropped_def mapField_getp_other)

lemma keptOrDropped_trans:
  "keptOrDropped key a b \<Longrightarrow> keptOrDropped key b c \<Longrightarrow> keptOrDropped key a c"
  unfolding keptOrDropped_def by auto

lemma keptOrDropped_elems:
  "keptOrDropped key v w \<Longrightarrow> x \<in> set (elems (getp w key)) \<Longrightarrow> x \<in> set (elems (getp v key))"
  unfolding keptOrDropped_def by auto

lemma unlisted_only:
  assumes "pruneObject v fmap options onlyMode = Inr w" and "map_of fmap key = None"
    and "getp w key \<noteq> JUndefined"
  shows "\<not> onlyMode"
  using getp_pruneObject [OF assms(1), of key] assms(2,3)
  by (auto simp: keeps_def split: if_splits)

lemma retyped_fixed:
  assumes "keptOrDropped ''type'' item item'" and "item' = JObj props"
    and "getp item' ''type'' = getp item ''type''
         \<Longrightarrow> applyParsedItemOptions item' options onlyMode = Inr item'"
  shows "applyParsedItemOptions item' options onlyMode = Inr item'"
  using assms unfolding keptOrDropped_def by (auto intro: untyped_fixed)

lemma applyParsedItemOptions_fixed:
  "applyParsedItemOptions item options onlyMode = Inr item' \<Longrightarrow> wellShaped item
   \<Longrightarrow> applyParsedItemOptions item' options onlyMode = Inr item'"
proof (induction item options onlyMode arbitrary: item' rule: applyParsedItemOptions.induct)
  case (1 item options onlyMode)
  note run = "1.prems"(1) and shaped = "1.prems"(2)
  let ?base = "[(''name'', Some Name), (''type'', Some ItemType), (''level'', Some Level),
        (''exports'', Some ExportInfo), (''jsdoc'', Some JSDoc),
        (''decorators'', Some Decorators), (''loc'', Some Location)]"
  let ?tparams = "\<lambda>tp. applyTypeParameterOptions tp options onlyMode"
  from run have nonnull: "\<not> (item = JNull \<or> item = JUndefined)"
    by (subst (asm) applyParsedItemOptions.simps) auto
  consider (isVariable) "getp item ''type'' = JStr ''variable''"
    | (isFunction) "getp item ''type'' = JStr ''function''"
    | (isAlias) "getp item ''type'' = JStr ''type-alias''"
    | (isEnum) "getp item ''type'' = JStr ''enum''"
    | (isClass) "getp item ''type'' = JStr ''class''"
    | (isInterface) "getp item ''type'' = JStr ''interface''"
    | (isNamespace) "getp item ''type'' = JStr ''namespace''"
    | (isOther) "getp item ''type'' \<noteq> JStr ''variable''" "getp item ''type'' \<noteq> JStr ''function''"
        "getp item ''type'' \<noteq> JStr ''type-alias''" "getp item ''type'' \<noteq> JStr ''enum''"
        "getp item ''type'' \<noteq> JStr ''class''" "getp item ''type'' \<noteq> JStr ''interface''"
        "getp item ''type'' \<noteq> JStr ''namespace''"
    by blast
  then show ?case
  proof cases
    case isVariable
    let ?own = "[(''subtype'', Some SubType), (''value'', Some Value),
        (''valueText'', Some ValueText), (''valueParsed'', Some ValueParsed),
        (''arguments'', Some Arguments)]"
    from run isVariable nonnull
    have first: "applyVariableItemOptions item options onlyMode = Inr item'"
      by (subst (asm) applyParsedItemOptions.simps) simp
    then obtain i1 where s1: "pruneObject item ?base options onlyMode = Inr i1"
      and s2: "pruneObject i1 ?own options onlyMode = Inr item'"
      unfolding applyVariableItemOptions_def applyBaseItemOptions_def bindE_eq_Inr by blast
    from pruneObject_JObj [OF s2] obtain props where props: "item' = JObj props" ..
    then have nonnull': "item' \<noteq> JNull" "item' \<noteq> JUndefined" by simp_all
    have "keptOrDropped ''type'' item item'"
      using keptOrDropped_pruneObject [OF s1] keptOrDropped_pruneObject [OF s2]
      by (rule keptOrDropped_trans)
    then show ?thesis using props
    proof (rule retyped_fixed)
      assume "getp item' ''type'' = getp item ''type''"
      with isVariable have "getp item' ''type'' = JStr ''variable''" by simp
      moreover from first have "applyVariableItemOptions item' options onlyMode = Inr item'"
        by (rule idempotentD [OF applyVariableItemOptions_idempotent])
      ultimately show "applyParsedItemOptions item' options onlyMode = Inr item'"
        by (subst applyParsedItemOptions.simps) (simp add: nonnull')
    qed
  next
    case isFunction
    let ?params = "\<lambda>p. applyParamOptions p options onlyMode"
    let ?own = "[(''arguments'', Some Arguments), (''typeParameters'', Some TypeParameters),
        (''returnType'', Some ReturnType), (''returnTypeAst'', Some ReturnTypeAST)]"
    from run isFunction nonnull
    have first: "applyFunctionItemOptions item options onlyMode = Inr item'"
      by (subst (asm) applyParsedItemOptions.simps) simp
    then obtain i1 i2 i3 where
      s1: "mapField ''arguments'' ?params item = Inr i1"
      and s2: "mapField ''typeParameters'' ?tparams i1 = Inr i2"
      and s3: "pruneObject i2 ?base options onlyMode = Inr i3"
      and s4: "pruneObject i3 ?own options onlyMode = Inr item'"
      unfolding applyFunctionItemOptions_def applyBaseItemOptions_def bindE_eq_Inr by blast
    from pruneObject_JObj [OF s4] obtain props where props: "item' = JObj props" ..
    then have nonnull': "item' \<noteq> JNull" "item' \<noteq> JUndefined" by simp_all
    have "keptOrDropped ''type'' item i1"
      using s1 by (rule keptOrDropped_mapField) simp
    moreover have "keptOrDropped ''type'' i1 i2"
      using s2 by (rule keptOrDropped_mapField) simp
    ultimately have "keptOrDropped ''type'' item i2" by (rule keptOrDropped_trans)
    then have "keptOrDropped ''type'' item i3"
      using keptOrDropped_pruneObject [OF s3] by (rule keptOrDropped_trans)
    then have "keptOrDropped ''type'' item item'"
      using keptOrDropped_pruneObject [OF s4] by (rule keptOrDropped_trans)
    then show ?thesis using props
    proof (rule retyped_fixed)
      assume "getp item' ''type'' = getp item ''type''"
      with isFunction have "getp item' ''type'' = JStr ''function''" by simp
      moreover from first have "applyFunctionItemOptions item' options onlyMode = Inr item'"
        by (rule idempotentD [OF applyFunctionItemOptions_idempotent])
      ultimately show "applyParsedItemOptions item' options onlyMode = Inr item'"
        by (subst applyParsedItemOptions.simps) (simp add: nonnull')
    qed
  next
    case isAlias
    let ?own = "[(''target'', Some Target), (''typeParameters'', Some TypeParameters)]"
    from run isAlias nonnull obtain i1 i2 where
      s1: "pruneObject item ?base options onlyMode = Inr i1"
      and s2: "mapField ''typeParameters'' ?tparams i1 = Inr i2"
      and s3: "pruneObject i2 ?own options onlyMode = Inr item'"
      by (subst (asm) applyParsedItemOptions.simps)
        (auto simp: bindE_eq_Inr applyBaseItemOptions_def)
    from pruneObject_JObj [OF s3] obtain props where props: "item' = JObj props" ..
    then have nonnull': "item' \<noteq> JNull" "item' \<noteq> JUndefined" by simp_all
    have "keptOrDropped ''type'' i1 i2"
      using s2 by (rule keptOrDropped_mapField) simp
    with keptOrDropped_pruneObject [OF s1] have "keptOrDropped ''type'' item i2"
      by (rule keptOrDropped_trans)
    then have "keptOrDropped ''type'' item item'"
      using keptOrDropped_pruneObject [OF s3] by (rule keptOrDropped_trans)
    then show ?thesis using props
    proof (rule retyped_fixed)
      assume "getp item' ''type'' = getp item ''type''"
      with isAlias have type': "getp item' ''type'' = JStr ''type-alias''" by simp
      note again = prune_map_prune_fixed [OF s1 s2 s3
          idempotentD [OF applyTypeParameterOptions_idempotent]]
      show "applyParsedItemOptions item' options onlyMode = Inr item'"
        by (subst applyParsedItemOptions.simps)
          (simp add: nonnull' type' again applyBaseItemOptions_def)
    qed
  next
    case isEnum
    let ?own = "[(''const'', Some Const), (''members'', Some Members)]"
    let ?member = "\<lambda>m. applyEnumMemberOptions m options onlyMode"
    from run isEnum nonnull obtain i1 i2 where
      s1: "pruneObject item ?base options onlyMode = Inr i1"
      and s2: "mapField ''members'' ?member i1 = Inr i2"
      and s3: "pruneObject i2 ?own options onlyMode = Inr item'"
      by (subst (asm) applyParsedItemOptions.simps)
        (auto simp: bindE_eq_Inr applyBaseItemOptions_def)
    from pruneObject_JObj [OF s3] obtain props where props: "item' = JObj props" ..
    then have nonnull': "item' \<noteq> JNull" "item' \<noteq> JUndefined" by simp_all
    have "keptOrDropped ''type'' i1 i2"
      using s2 by (rule keptOrDropped_mapField) simp
    with keptOrDropped_pruneObject [OF s1] have "keptOrDropped ''type'' item i2"
      by (rule keptOrDropped_trans)
    then have "keptOrDropped ''type'' item item'"
      using keptOrDropped_pruneObject [OF s3] by (rule keptOrDropped_trans)
    then show ?thesis using props
    proof (rule retyped_fixed)
      assume "getp item' ''type'' = getp item ''type''"
      with isEnum have type': "getp item' ''type'' = JStr ''enum''" by simp
      note again = prune_map_prune_fixed [OF s1 s2 s3
          idempotentD [OF applyEnumMemberOptions_idempotent]]
      show "applyParsedItemOptions item' options onlyMode = Inr item'"
        by (subst applyParsedItemOptions.simps)
          (simp add: nonnull' type' again applyBaseItemOptions_def)
    qed
  next
    case isClass
    let ?own = "[(''items'', Some Members), (''typeParameters'', Some TypeParameters)]"
    let ?member = "\<lambda>m. applyClassMember m options onlyMode"
    from run isClass nonnull obtain i1 i2 i3 where
      s1: "pruneObject item ?base options onlyMode = Inr i1"
      and s2: "mapField ''typeParameters'' ?tparams i1 = Inr i2"
      and s3: "mapField ''items'' ?member i2 = Inr i3"
      and s4: "pruneObject i3 ?own options onlyMode = Inr item'"
      by (subst (asm) applyParsedItemOptions.simps)
        (auto simp: bindE_eq_Inr applyBaseItemOptions_def)
    from pruneObject_JObj [OF s4] obtain props where props: "item' = JObj props" ..
    then have nonnull': "item' \<noteq> JNull" "item' \<noteq> JUndefined" by simp_all
    have "keptOrDropped ''type'' i1 i2"
      using s2 by (rule keptOrDropped_mapField) simp
    with keptOrDropped_pruneObject [OF s1] have "keptOrDropped ''type'' item i2"
      by (rule keptOrDropped_trans)
    moreover have "keptOrDropped ''type'' i2 i3"
      using s3 by (rule keptOrDropped_mapField) simp
    ultimately have "keptOrDropped ''type'' item i3" by (rule keptOrDropped_trans)
    then have "keptOrDropped ''type'' item item'"
      using keptOrDropped_pruneObject [OF s4] by (rule keptOrDropped_trans)
    then show ?thesis using props
    proof (rule retyped_fixed)
      assume "getp item' ''type'' = getp item ''type''"
      with isClass have type': "getp item' ''type'' = JStr ''class''" by simp
      with unlisted_only [OF s4, of "''type''"] have noOnly: "\<not> onlyMode"
        by simp
      have members: "?member y = Inr y"
        if "x \<in> set (elems (getp i2 ''items''))" and "?member x = Inr y" for x y
      proof -
        have "keptOrDropped ''items'' i1 i2"
          using s2 by (rule keptOrDropped_mapField) simp
        with keptOrDropped_pruneObject [OF s1] have "keptOrDropped ''items'' item i2"
          by (rule keptOrDropped_trans)
        then have "x \<in> set (elems (getp item ''items''))"
          using that(1) by (rule keptOrDropped_elems)
        with shaped isClass have "classMemberShaped x"
          by (subst (asm) wellShaped.simps) (simp add: list_all_iff)
        with that(2) noOnly show ?thesis
          by (simp add: applyClassMember_fixed)
      qed
      have "''items'' \<noteq> ''typeParameters''" by simp
      note again = prune_map_map_prune_fixed [OF s1 s2 s3 s4 this
          idempotentD [OF applyTypeParameterOptions_idempotent] members]
      show "applyParsedItemOptions item' options onlyMode = Inr item'"
        by (subst applyParsedItemOptions.simps)
          (simp add: nonnull' type' again applyBaseItemOptions_def)
    qed
  next
    case isInterface
    let ?own = "[(''members'', Some Members), (''typeParameters'', Some TypeParameters)]"
    let ?member = "\<lambda>m. applyInterfaceMember m options onlyMode"
    from run isInterface nonnull obtain i1 i2 i3 where
      s1: "pruneObject item ?base options onlyMode = Inr i1"
      and s2: "mapField ''typeParameters'' ?tparams i1 = Inr i2"
      and s3: "mapField ''members'' ?member i2 = Inr i3"
      and s4: "pruneObject i3 ?own options onlyMode = Inr item'"
      by (subst (asm) applyParsedItemOptions.simps)
        (auto simp: bindE_eq_Inr applyBaseItemOptions_def)
    from pruneObject_JObj [OF s4] obtain props where props: "item' = JObj props" ..
    then have nonnull': "item' \<noteq> JNull" "item' \<noteq> JUndefined" by simp_all
    have "keptOrDropped ''type'' i1 i2"
      using s2 by (rule keptOrDropped_mapField) simp
    with keptOrDropped_pruneObject [OF s1] have "keptOrDropped ''type'' item i2"
      by (rule keptOrDropped_trans)
    moreover have "keptOrDropped ''type'' i2 i3"
      using s3 by (rule keptOrDropped_mapField) simp
    ultimately have "keptOrDropped ''type'' item i3" by (rule keptOrDropped_trans)
    then have "keptOrDropped ''type'' item item'"
      using keptOrDropped_pruneObject [OF s4] by (rule keptOrDropped_trans)
    then show ?thesis using props
    proof (rule retyped_fixed)
      assume "getp item' ''type'' = getp item ''type''"
      with isInterface have type': "getp item' ''type'' = JStr ''interface''" by simp
      with unlisted_only [OF s4, of "''type''"] have noOnly: "\<not> onlyMode"
        by simp
      have members: "?member y = Inr y"
        if "x \<in> set (elems (getp i2 ''members''))" and "?member x = Inr y" for x y
      proof -
        have "keptOrDropped ''members'' i1 i2"
          using s2 by (rule keptOrDropped_mapField) simp
        with keptOrDropped_pruneObject [OF s1] have "keptOrDropped ''members'' item i2"
          by (rule keptOrDropped_trans)
        then have "x \<in> set (elems (getp item ''members''))"
          using that(1) by (rule keptOrDropped_elems)
        with shaped isInterface have "interfaceMemberShaped x"
          by (subst (asm) wellShaped.simps) (simp add: list_all_iff)
        with that(2) noOnly show ?thesis
          by (simp add: applyInterfaceMember_fixed)
      qed
      have "''members'' \<noteq> ''typeParameters''" by simp
      note again = prune_map_map_prune_fixed [OF s1 s2 s3 s4 this
          idempotentD [OF applyTypeParameterOptions_idempotent] members]
      show "applyParsedItemOptions item' options onlyMode = Inr item'"
        by (subst applyParsedItemOptions.simps)
          (simp add: nonnull' type' again applyBaseItemOptions_def)
    qed
  next
    case isNamespace
    let ?own = "[(''members'', Some Members)]"
    let ?member = "\<lambda>m. applyParsedItemOptions m options onlyMode"
    from run isNamespace nonnull obtain i1 i2 where
      s1: "pruneObject item ?base options onlyMode = Inr i1"
      and s2: "mapField ''members'' ?member i1 = Inr i2"
      and s3: "pruneObject i2 ?own options onlyMode = Inr item'"
      by (subst (asm) applyParsedItemOptions.simps)
        (auto simp: bindE_eq_Inr applyBaseItemOptions_def)
    from pruneObject_JObj [OF s3] obtain props where props: "item' = JObj props" ..
    then have nonnull': "item' \<noteq> JNull" "item' \<noteq> JUndefined" by simp_all
    have "keptOrDropped ''type'' i1 i2"
      using s2 by (rule keptOrDropped_mapField) simp
    with keptOrDropped_pruneObject [OF s1] have "keptOrDropped ''type'' item i2"
      by (rule keptOrDropped_trans)
    then have "keptOrDropped ''type'' item item'"
      using keptOrDropped_pruneObject [OF s3] by (rule keptOrDropped_trans)
    then show ?thesis using props
    proof (rule retyped_fixed)
      assume "getp item' ''type'' = getp item ''type''"
      with isNamespace have type': "getp item' ''type'' = JStr ''namespace''" by simp
      have members: "?member y = Inr y"
        if x: "x \<in> set (elems (getp i1 ''members''))" and y: "?member x = Inr y" for x y
      proof -
        from keptOrDropped_pruneObject [OF s1] x have "x \<in> set (elems (getp item ''members''))"
          by (rule keptOrDropped_elems)
        with shaped isNamespace have "wellShaped x"
          by (subst (asm) wellShaped.simps) (simp add: list_all_iff)
        moreover from x obtain xs where "getp i1 ''members'' = JArr xs" "x \<in> set xs"
          by (cases "getp i1 ''members''") auto
        moreover from s1 have "applyBaseItemOptions item options onlyMode = Inr i1"
          by (simp add: applyBaseItemOptions_def)
        ultimately show ?thesis
          using "1.IH" [OF nonnull _ _ _ _ _ _ isNamespace, of i1 xs x y] y isNamespace
          by simp
      qed
      note again = prune_map_prune_fixed [OF s1 s2 s3 members]
      show "applyParsedItemOptions item' options onlyMode = Inr item'"
        by (subst applyParsedItemOptions.simps)
          (simp add: nonnull' type' again applyBaseItemOptions_def)
    qed
  next
    case isOther
    with run nonnull have "item' = item"
      by (subst (asm) applyParsedItemOptions.simps) simp
    with run show ?thesis by simp
  qed
qed

text \<open>
  The shape of the members matters. A class member with a parameter list that also has
  a \<^verbatim>\<open>type\<close> property is none of the declared member shapes: pruned as a method it
  loses \<^verbatim>\<open>arguments\<close>, and pruned again it is taken for a property and loses \<^verbatim>\<open>type\<close>.
\<close>

lemma misshapen_member_pruned_twice:
  "applyClassMember
     (JObj [(''name'', JStr ''m''), (''type'', JStr ''number''), (''arguments'', JArr [])])
     (normalizeOptions (Some [Arguments \<mapsto> Never, Type \<mapsto> Never])) False
   = Inr (JObj [(''name'', JStr ''m''), (''type'', JStr ''number'')])"
  "applyClassMember (JObj [(''name'', JStr ''m''), (''type'', JStr ''number'')])
     (normalizeOptions (Some [Arguments \<mapsto> Never, Type \<mapsto> Never])) False
   = Inr (JObj [(''name'', JStr ''m'')])"
  by code_simp+

subsection \<open>The decision for one field\<close>

text \<open>
  The only-mode of an invocation is true iff some field of the configuration is set
  to "only". In only-mode the decision for a field is to retain it iff its mode is
  "only"; otherwise the decision is to retain it iff its mode is not "never". One
  pruning pass retains a property that its field map lists under a configuration field
  iff the record has it and that decision is to retain. What an invocation returns is
  the result of several passes with different field maps, and of the copies the parser
  makes after them.
\<close>

lemma only_mode_decision:
  "(onlyModeOf (normalizeOptions (Some given)) \<longleftrightarrow> (\<exists>k. given k = Some Only))
   \<and> (onlyModeOf (normalizeOptions (Some given)) \<longrightarrow>
        (shouldInclude (normalizeOptions (Some given)) True key \<longleftrightarrow> given key = Some Only))
   \<and> (\<not> onlyModeOf (normalizeOptions (Some given)) \<longrightarrow>
        (shouldInclude (normalizeOptions (Some given)) False key \<longleftrightarrow> given key \<noteq> Some Never))
   \<and> (map_of fmap name = Some (Some key) \<longrightarrow>
        pruneObject (JObj props) fmap (normalizeOptions (Some given)) onlyMode = Inr (JObj props') \<longrightarrow>
        (name \<in> fst ` set props' \<longleftrightarrow>
           name \<in> fst ` set props \<and> shouldInclude (normalizeOptions (Some given)) onlyMode key))"
proof (intro conjI impI)
  show "onlyModeOf (normalizeOptions (Some given)) \<longleftrightarrow> (\<exists>k. given k = Some Only)"
    by (rule onlyModeOf_normalizeOptions)
next
  show "shouldInclude (normalizeOptions (Some given)) True key \<longleftrightarrow> given key = Some Only"
    by (simp add: shouldInclude_def normalizeOptions_given split: option.splits)
next
  show "shouldInclude (normalizeOptions (Some given)) False key \<longleftrightarrow> given key \<noteq> Some Never"
    by (simp add: shouldInclude_def normalizeOptions_given split: option.splits)
next
  assume listed: "map_of fmap name = Some (Some key)"
    and pruned: "pruneObject (JObj props) fmap (normalizeOptions (Some given)) onlyMode = Inr (JObj props')"
  from listed have "keeps fmap (normalizeOptions (Some given)) onlyMode name
      \<longleftrightarrow> shouldInclude (normalizeOptions (Some given)) onlyMode key"
    by (simp add: keeps_def)
  with pruneObject_retains [OF pruned, of name]
  show "name \<in> fst ` set props' \<longleftrightarrow>
      name \<in> fst ` set props \<and> shouldInclude (normalizeOptions (Some given)) onlyMode key"
    by simp
qed

section \<open>Default exports\<close>

text \<open>
  A default export whose expression is an identifier that names a variable declaration
  of the source file, as the last statement of the source unit: the items of the
  statements before it are what those statements alone give, and one more Variable
  item follows, with the name of the declaration, the subtype \<^verbatim>\<open>"constant"\<close> written in
  the source and the export disposition \<^verbatim>\<open>"default"\<close>.
\<close>

lemma exportAssignment_appends_variable_item:
  assumes "src = createSourceFile rt
             (if fileName = ''file.ts''
              then ''file.'' @ (if isProbablyTS rt sourceText then ''ts'' else ''js'')
              else fileName) sourceText"
    and "callStrict src ''getStatements'' = Inr (FArr (before @ [stmt]))"
    and "callOpt stmt ''getKind'' = Inr (FNum (SyntaxKind ExportAssignment))"
    and "callOpt stmt ''getExpression'' = Inr expr" and "ftruthy expr"
    and "callOpt expr ''getKindName'' = Inr k"
    and "k \<noteq> FStr ''FunctionExpression''" and "k \<noteq> FStr ''ArrowFunction''"
    and "callOpt expr ''getText'' = Inr ident" and "ftruthy ident"
    and "callStrict1 src ''getVariableDeclaration'' ident = Inr vd" and "ftruthy vd"
    and "parseWithTsMorph rt (Suc fuel) sourceText fileName None = Inr out"
  shows "\<exists>parts item name.
      mapE (statementItems rt (\<lambda>text name given. parseWithTsMorph rt fuel text name given)
              (normalizeOptions None) False None src) before = Inr parts
      \<and> out = concat parts @ [item]
      \<and> callStrict vd ''getName'' = Inr name
      \<and> getp item ''name'' = toJ name \<and> getp item ''type'' = JStr ''variable''
      \<and> getp item ''subtype'' = JStr ''constant'' \<and> getp item ''exports'' = JStr ''default''"
proof -
  let ?items = "statementItems rt (\<lambda>text name given. parseWithTsMorph rt fuel text name given)
      (normalizeOptions None) False None src"
  from assms(13) have "bindE (mapE ?items (before @ [stmt])) (\<lambda>parts. Inr (concat parts)) = Inr out"
    by (simp add: Let_def assms(1) [symmetric] assms(2) onlyModeOf_default)
  then obtain parts items where parts: "mapE ?items before = Inr parts"
    and items: "?items stmt = Inr items" and out: "out = concat parts @ items"
    by (auto simp: mapE_append bindE_eq_Inr)
  from items have "exportAssignmentItems rt (normalizeOptions None) False src stmt = Inr items"
    by (simp add: statementItems_exportAssignment [OF assms(3)])
  from exportAssignmentItems_identifier [OF assms(4-12) this] parts out
  show ?thesis by auto
qed

text \<open>
  The subtype of the added item is \<^verbatim>\<open>"constant"\<close> also for a \<^verbatim>\<open>let\<close> declaration, whose own
  item has the subtype \<^verbatim>\<open>"let"\<close>.
\<close>

lemma default_export_of_let_is_constant:
  "parseWithTsMorph (runtimeOf [(''let y = 1; export default y;'', letExportSource)]) 1
     ''let y = 1; export default y;'' ''file.ts'' None
   = Inr [JObj [(''name'', JStr ''y''), (''type'', JStr ''variable''),
                (''subtype'', JStr ''let''), (''value'', JNum 1),
                (''valueText'', JStr ''1''), (''valueParsed'', JNum 1),
                (''exports'', JStr ''none''), (''level'', JStr ''top''),
                (''jsdoc'', JStr []), (''decorators'', JUndefined),
                (''loc'', JUndefined), (''arguments'', JArr [])],
          JObj [(''name'', JStr ''y''), (''type'', JStr ''variable''),
                (''subtype'', JStr ''constant''), (''value'', JNum 1),
                (''valueText'', JStr ''1''), (''valueParsed'', JNum 1),
                (''exports'', JStr ''default''), (''level'', JStr ''top''),
                (''jsdoc'', JStr []), (''arguments'', JArr [])]]"
  by code_simp

text \<open>
  An identifier that names a function adds nothing: the source file has no variable
  declaration of that name. The item of the function has the export disposition
  \<^verbatim>\<open>"default"\<close> because the front end answers \<^verbatim>\<open>isDefaultExport\<close> of the declaration
  with true.
\<close>

lemma default_export_of_function_adds_nothing:
  "parseWithTsMorph
     (runtimeOf [(''function f() {} export default f;'', functionExportSource)]) 1
     ''function f() {} export default f;'' ''file.ts'' None
   = Inr [JObj [(''name'', JStr ''f''), (''type'', JStr ''function''),
                (''level'', JStr ''top''), (''exports'', JStr ''default''),
                (''jsdoc'', JStr []), (''decorators'', JUndefined),
                (''loc'', JUndefined), (''arguments'', JArr []),
                (''typeParameters'', JUndefined), (''returnType'', JUndefined),
                (''returnTypeAst'', JUndefined)]]"
  by code_simp

section \<open>Nesting levels\<close>

text \<open>
  An item is \<open>levelled l\<close> when its level is \<open>l\<close> and, if it is a namespace, its
  members are levelled \<^verbatim>\<open>"sub"\<close>, and so on through nested namespaces.
\<close>

function levelled :: "string \<Rightarrow> jv \<Rightarrow> bool" where
  "levelled l item =
     (getp item ''level'' = JStr l
      \<and> (getp item ''type'' = JStr ''namespace''
           \<longrightarrow> list_all (levelled ''sub'') (elems (getp item ''members''))))"
  by pat_completeness auto
termination
  by (relation "measure (\<lambda>(l, item). size item)") (auto dest: size_elems_lt)

declare levelled.simps [simp del]

lemma getp_withLevelSub:
  "getp (withLevelSub item) k = (if k = ''level'' then JStr ''sub'' else getp item k)"
  by (cases item) (simp_all add: map_of_assign_same getp_assign_other)

lemma levelled_withLevelSub: "levelled l item \<Longrightarrow> levelled ''sub'' (withLevelSub item)"
  by (subst levelled.simps, subst (asm) levelled.simps) (simp add: getp_withLevelSub)

text \<open>
  Outside only-mode, with \<^verbatim>\<open>Level\<close> not "never", no pruning pass of the parser removes
  \<^verbatim>\<open>level\<close>: a field map lists it under \<^verbatim>\<open>Level\<close> or not at all. The \<^verbatim>\<open>type\<close> of a
  record is kept or removed.
\<close>

lemma pruneObject_head:
  assumes "pruneObject v fmap opts False = Inr w"
  shows "(shouldInclude opts False Level \<longrightarrow> map_of fmap ''level'' \<in> {None, Some (Some Level)}
            \<longrightarrow> getp w ''level'' = getp v ''level'')
         \<and> (getp w ''type'' = getp v ''type'' \<or> getp w ''type'' = JUndefined)"
  using getp_pruneObject [OF assms] by (auto simp: keeps_def)

lemma applyBaseItemOptions_head:
  assumes "applyBaseItemOptions v opts False = Inr w"
  shows "(shouldInclude opts False Level \<longrightarrow> getp w ''level'' = getp v ''level'')
         \<and> (getp w ''type'' = getp v ''type'' \<or> getp w ''type'' = JUndefined)"
  using pruneObject_head [OF assms [unfolded applyBaseItemOptions_def]] by simp

lemma applyVariableItemOptions_head:
  assumes "applyVariableItemOptions v opts False = Inr w"
  shows "(shouldInclude opts False Level \<longrightarrow> getp w ''level'' = getp v ''level'')
         \<and> (getp w ''type'' = getp v ''type'' \<or> getp w ''type'' = JUndefined)"
proof -
  from assms obtain i1 where s1: "applyBaseItemOptions v opts False = Inr i1"
    and s2: "pruneObject i1
       [(''subtype'', Some SubType), (''value'', Some Value), (''valueText'', Some ValueText),
        (''valueParsed'', Some ValueParsed), (''arguments'', Some Arguments)]
       opts False = Inr w"
    unfolding applyVariableItemOptions_def bindE_eq_Inr by blast
  from applyBaseItemOptions_head [OF s1] pruneObject_head [OF s2] show ?thesis
    by auto
qed

lemma applyFunctionItemOptions_head:
  assumes "applyFunctionItemOptions v opts False = Inr w"
  shows "(shouldInclude opts False Level \<longrightarrow> getp w ''level'' = getp v ''level'')
         \<and> (getp w ''type'' = getp v ''type'' \<or> getp w ''type'' = JUndefined)"
proof -
  from assms obtain i1 i2 i3 where
    s1: "mapField ''arguments'' (\<lambda>p. applyParamOptions p opts False) v = Inr i1"
    and s2: "mapField ''typeParameters'' (\<lambda>tp. applyTypeParameterOptions tp opts False) i1
        = Inr i2"
    and s3: "applyBaseItemOptions i2 opts False = Inr i3"
    and s4: "pruneObject i3
       [(''arguments'', Some Arguments), (''typeParameters'', Some TypeParameters),
        (''returnType'', Some ReturnType), (''returnTypeAst'', Some ReturnTypeAST)]
       opts False = Inr w"
    unfolding applyFunctionItemOptions_def bindE_eq_Inr by blast
  from mapField_head [OF s1] mapField_head [OF s2] applyBaseItemOptions_head [OF s3]
    pruneObject_head [OF s4]
  show ?thesis by auto
qed

lemma applyParsedItemOptions_head:
  assumes "applyParsedItemOptions item opts False = Inr item'"
  shows "(shouldInclude opts False Level \<longrightarrow> getp item' ''level'' = getp item ''level'')
         \<and> (getp item' ''type'' = getp item ''type'' \<or> getp item' ''type'' = JUndefined)"
  using assms
  apply (subst (asm) applyParsedItemOptions.simps)
  apply (auto simp: bindE_eq_Inr simp del: pruneObject.simps split: if_splits
      dest!: applyBaseItemOptions_head applyVariableItemOptions_head
        applyFunctionItemOptions_head mapField_head pruneObject_head)
  done

lemma applyParsedItemOptions_levelled:
  "applyParsedItemOptions item opts onlyMode = Inr item' \<Longrightarrow> \<not> onlyMode
   \<Longrightarrow> shouldInclude opts False Level \<Longrightarrow> levelled l item \<Longrightarrow> levelled l item'"
proof (induction item opts onlyMode arbitrary: item' l rule: applyParsedItemOptions.induct)
  case (1 item opts onlyMode)
  from "1.prems"(1,2) have run: "applyParsedItemOptions item opts False = Inr item'"
    by simp
  note retained = "1.prems"(3)
  from "1.prems"(4) have level: "getp item ''level'' = JStr l"
    by (subst (asm) levelled.simps) simp
  from applyParsedItemOptions_head [OF run] retained level
  have level': "getp item' ''level'' = JStr l"
    and type': "getp item' ''type'' = getp item ''type'' \<or> getp item' ''type'' = JUndefined"
    by simp_all
  show ?case
  proof (cases "getp item' ''type'' = JStr ''namespace''")
    case False
    with level' show ?thesis
      by (subst levelled.simps) simp
  next
    case True
    with type' have isNamespace: "getp item ''type'' = JStr ''namespace''" by auto
    then have nonnull: "\<not> (item = JNull \<or> item = JUndefined)" by auto
    from run isNamespace nonnull obtain i1 i2 where
      s1: "applyBaseItemOptions item opts False = Inr i1"
      and s2: "mapField ''members'' (\<lambda>m. applyParsedItemOptions m opts False) i1 = Inr i2"
      and s3: "pruneObject i2 [(''members'', Some Members)] opts False = Inr item'"
      by (subst (asm) applyParsedItemOptions.simps) (auto simp: bindE_eq_Inr)
    have "levelled ''sub'' y" if y: "y \<in> set (elems (getp item' ''members''))" for y
    proof -
      from keptOrDropped_pruneObject [OF s3] y have "y \<in> set (elems (getp i2 ''members''))"
        by (rule keptOrDropped_elems)
      from mapField_elems [OF s2 this] obtain x where
        x: "x \<in> set (elems (getp i1 ''members''))"
        and step: "applyParsedItemOptions x opts False = Inr y \<or> y = x"
        by blast
      from s1 have "keptOrDropped ''members'' item i1"
        unfolding applyBaseItemOptions_def by (rule keptOrDropped_pruneObject)
      then have "x \<in> set (elems (getp item ''members''))"
        using x by (rule keptOrDropped_elems)
      with "1.prems"(4) isNamespace have sub: "levelled ''sub'' x"
        by (subst (asm) levelled.simps) (simp add: list_all_iff)
      from x obtain xs where xs: "getp i1 ''members'' = JArr xs" "x \<in> set xs"
        by (cases "getp i1 ''members''") auto
      from step show ?thesis
      proof
        assume "y = x"
        with sub show ?thesis by simp
      next
        assume "applyParsedItemOptions x opts False = Inr y"
        with "1.IH" [OF nonnull _ _ _ _ _ _ isNamespace _ xs, of y "''sub''"] s1 sub
          "1.prems"(2) retained isNamespace
        show ?thesis by simp
      qed
    qed
    with level' show ?thesis
      by (subst levelled.simps) (simp add: list_all_iff)
  qed
qed

text \<open>The items of the statements of a source unit.\<close>

lemma variableItem_levelled:
  "variableItem rt opts False vs kind d = Inr item \<Longrightarrow> shouldInclude opts False Level
   \<Longrightarrow> levelled ''top'' item"
  unfolding variableItem_def
  by (auto simp: bindE_eq_Inr levelled.simps dest!: applyVariableItemOptions_head)

lemma variableStatementItems_levelled:
  "variableStatementItems rt opts False vs = Inr items \<Longrightarrow> shouldInclude opts False Level
   \<Longrightarrow> list_all (levelled ''top'') items"
  unfolding variableStatementItems_def list_all_iff
  by (auto simp: bindE_eq_Inr dest!: mapE_eq_Inr_set dest: variableItem_levelled)

lemma functionLikeToItem_head:
  "functionLikeToItem rt fn level mode = Inr item
   \<Longrightarrow> getp item ''level'' = JStr level \<and> getp item ''type'' = JStr ''function''"
  by (auto simp: functionLikeToItem_def bindE_eq_Inr)

lemma functionItem_levelled:
  "functionLikeToItem rt fd level mode = Inr f
   \<Longrightarrow> applyFunctionItemOptions f opts False = Inr item
   \<Longrightarrow> shouldInclude opts False Level \<Longrightarrow> levelled level item"
  by (auto simp: levelled.simps dest!: applyFunctionItemOptions_head functionLikeToItem_head)

lemma typeAliasItem_levelled:
  "typeAliasItem opts False ta = Inr item \<Longrightarrow> shouldInclude opts False Level
   \<Longrightarrow> levelled ''top'' item"
  unfolding typeAliasItem_def
  by (auto simp: bindE_eq_Inr levelled.simps simp del: pruneObject.simps
      dest!: applyBaseItemOptions_head mapField_head pruneObject_head)

lemma enumItem_levelled:
  "enumItem rt opts False ed = Inr item \<Longrightarrow> shouldInclude opts False Level
   \<Longrightarrow> levelled ''top'' item"
  unfolding enumItem_def
  by (auto simp: bindE_eq_Inr levelled.simps simp del: pruneObject.simps
      dest!: applyBaseItemOptions_head mapField_head pruneObject_head)

lemma classItem_levelled:
  "classItem rt opts False cd = Inr item \<Longrightarrow> shouldInclude opts False Level
   \<Longrightarrow> levelled ''top'' item"
  unfolding classItem_def
  by (auto simp: bindE_eq_Inr levelled.simps simp del: pruneObject.simps
      dest!: applyBaseItemOptions_head mapField_head pruneObject_head)

lemma interfaceItem_levelled:
  "interfaceItem rt opts False decl = Inr item \<Longrightarrow> shouldInclude opts False Level
   \<Longrightarrow> levelled ''top'' item"
  unfolding interfaceItem_def
  by (auto simp: bindE_eq_Inr levelled.simps simp del: pruneObject.simps
      dest!: applyBaseItemOptions_head mapField_head pruneObject_head)

lemma exportAssignmentItems_levelled:
  "exportAssignmentItems rt opts False src ea = Inr items \<Longrightarrow> shouldInclude opts False Level
   \<Longrightarrow> list_all (levelled ''top'') items"
  unfolding exportAssignmentItems_def
  by (auto simp: bindE_eq_Inr getp_setp_other levelled.simps
      split: if_splits
      dest!: applyFunctionItemOptions_head applyVariableItemOptions_head functionLikeToItem_head)

text \<open>
  A namespace: the items of the recursive calls are copied with \<^verbatim>\<open>level: "sub"\<close>, and
  the pruning of the members leaves the level.
\<close>

lemma namespaceItem_levelled:
  assumes recurse: "\<And>text name items. recurse text name options = Inr items
            \<Longrightarrow> list_all (levelled ''top'') items"
    and retained: "shouldInclude opts False Level"
    and item: "namespaceItem rt recurse opts False options src md = Inr item"
  shows "levelled ''top'' item"
    and "list_all (levelled ''sub'') (elems (getp item ''members''))"
proof -
  let ?unpack = "\<lambda>s.
     bindE (callStrict src ''getProject'') (\<lambda>project.
     bindE (callStrict s ''getText'') (\<lambda>txt.
       case txt of
         FStr t \<Rightarrow>
           bindE (callStrict (createSourceFile rt ''__tmp.ts'' t) ''getFullText'')
             (\<lambda>full.
               case full of
                 FStr fullText \<Rightarrow>
                   bindE (recurse fullText ''__tmp.ts'' options)
                     (\<lambda>items. Inr (map withLevelSub items))
               | _ \<Rightarrow> Inl IllTyped)
       | _ \<Rightarrow> Inl IllTyped))"
  let ?member = "\<lambda>m. applyParsedItemOptions m opts False"
  have unpack: "list_all (levelled ''sub'') part" if "?unpack s = Inr part" for s part
  proof -
    from that obtain bodyText where
      "(case bodyText of
          FStr t \<Rightarrow>
            bindE (callStrict (createSourceFile rt ''__tmp.ts'' t) ''getFullText'')
              (\<lambda>full.
                case full of
                  FStr fullText \<Rightarrow>
                    bindE (recurse fullText ''__tmp.ts'' options)
                      (\<lambda>items. Inr (map withLevelSub items))
                | _ \<Rightarrow> Inl IllTyped)
        | _ \<Rightarrow> Inl IllTyped) = Inr part"
      by (auto simp: bindE_eq_Inr)
    then obtain full where
      "(case full of
          FStr fullText \<Rightarrow>
            bindE (recurse fullText ''__tmp.ts'' options)
              (\<lambda>items. Inr (map withLevelSub items))
        | _ \<Rightarrow> Inl IllTyped) = Inr part"
      by (cases bodyText) (auto simp: bindE_eq_Inr)
    then obtain fullText items where "recurse fullText ''__tmp.ts'' options = Inr items"
      and part: "part = map withLevelSub items"
      by (cases full) (auto simp: bindE_eq_Inr)
    from recurse [OF this(1)] show ?thesis
      unfolding part list_all_iff by (auto dest: levelled_withLevelSub)
  qed
  from item obtain body members name exported jsdoc item0 item2 where
    unpacked: "(if ftruthy body \<and> ftruthy (propOf body ''getStatements'') then
              bindE (bindE (callStrict body ''getStatements'') forOf) (\<lambda>stmts.
              bindE (mapE ?unpack stmts) (\<lambda>parts. Inr (concat parts)))
            else Inr []) = Inr members"
    and s1: "applyBaseItemOptions
              (JObj [(''name'', toJ name), (''type'', JStr ''namespace''),
                     (''level'', JStr ''top''),
                     (''exports'', JStr (if ftruthy exported then ''normal'' else ''none'')),
                     (''jsdoc'', jsdoc), (''members'', JArr members)])
              opts False = Inr item0"
    and s2: "mapField ''members'' ?member item0 = Inr item2"
    and s3: "pruneObject item2 [(''members'', Some Members)] opts False = Inr item"
    unfolding namespaceItem_def bindE_eq_Inr by blast
  define item1 where "item1 = JObj [(''name'', toJ name), (''type'', JStr ''namespace''),
                     (''level'', JStr ''top''),
                     (''exports'', JStr (if ftruthy exported then ''normal'' else ''none'')),
                     (''jsdoc'', jsdoc), (''members'', JArr members)]"
  have base: "getp item1 ''members'' = JArr members" "getp item1 ''level'' = JStr ''top''"
    by (simp_all add: item1_def)
  note s1 = s1 [folded item1_def]
  have members: "list_all (levelled ''sub'') members"
  proof (cases "ftruthy body \<and> ftruthy (propOf body ''getStatements'')")
    case False
    with unpacked show ?thesis by auto
  next
    case True
    with unpacked obtain stmts parts where "mapE ?unpack stmts = Inr parts"
      and "members = concat parts"
      by (auto simp: bindE_eq_Inr)
    then show ?thesis
      unfolding list_all_iff using unpack [unfolded list_all_iff]
      by (auto dest!: mapE_eq_Inr_set)
  qed
  have "levelled ''sub'' y" if y: "y \<in> set (elems (getp item ''members''))" for y
  proof -
    from keptOrDropped_pruneObject [OF s3] y have "y \<in> set (elems (getp item2 ''members''))"
      by (rule keptOrDropped_elems)
    from mapField_elems [OF s2 this] obtain x where
      x: "x \<in> set (elems (getp item0 ''members''))"
      and step: "?member x = Inr y \<or> y = x"
      by blast
    from s1 have "keptOrDropped ''members'' item1 item0"
      unfolding applyBaseItemOptions_def by (rule keptOrDropped_pruneObject)
    then have "x \<in> set (elems (getp item1 ''members''))"
      using x by (rule keptOrDropped_elems)
    with members have "levelled ''sub'' x"
      by (simp add: base list_all_iff)
    with step retained show ?thesis
      by (auto dest: applyParsedItemOptions_levelled)
  qed
  then show all: "list_all (levelled ''sub'') (elems (getp item ''members''))"
    by (simp add: list_all_iff)
  from applyBaseItemOptions_head [OF s1] mapField_head [OF s2] pruneObject_head [OF s3]
    retained
  have "getp item ''level'' = JStr ''top''"
    by (simp add: base)
  with all show "levelled ''top'' item"
    by (subst levelled.simps) simp
qed

lemma statementItems_levelled:
  assumes recurse: "\<And>text name items. recurse text name options = Inr items
            \<Longrightarrow> list_all (levelled ''top'') items"
    and retained: "shouldInclude opts False Level"
    and items: "statementItems rt recurse opts False options src stmt = Inr items"
  shows "list_all (levelled ''top'') items"
proof -
  have inNamespace: "levelled ''top'' item"
    if "namespaceItem rt recurse opts False options src md = Inr item" for md item
    using recurse retained that by (rule namespaceItem_levelled)
  from items retained show ?thesis
    unfolding statementItems_def
    by (auto simp: bindE_eq_Inr split: if_splits
        dest: variableStatementItems_levelled functionItem_levelled typeAliasItem_levelled
          enumItem_levelled exportAssignmentItems_levelled classItem_levelled
          interfaceItem_levelled inNamespace)
qed

lemma parseWithTsMorph_levelled:
  "parseWithTsMorph rt fuel sourceText fileName options = Inr items
   \<Longrightarrow> \<not> onlyModeOf (normalizeOptions options)
   \<Longrightarrow> shouldInclude (normalizeOptions options) False Level
   \<Longrightarrow> list_all (levelled ''top'') items"
proof (induction fuel arbitrary: sourceText fileName items)
  case 0
  then show ?case by simp
next
  case (Suc fuel)
  from Suc.prems(1,2) obtain src stmts parts where
    parts: "mapE (statementItems rt (\<lambda>text name given. parseWithTsMorph rt fuel text name given)
                    (normalizeOptions options) False options src) stmts = Inr parts"
    and items: "items = concat parts"
    by (auto simp: Let_def bindE_eq_Inr)
  have "list_all (levelled ''top'') part" if "part \<in> set parts" for part
  proof -
    from mapE_eq_Inr_set [OF parts that] obtain stmt where
      "statementItems rt (\<lambda>text name given. parseWithTsMorph rt fuel text name given)
         (normalizeOptions options) False options src stmt = Inr part"
      by blast
    with Suc.prems(3) show ?thesis
      by (rule statementItems_levelled [rotated]) (rule Suc.IH [OF _ Suc.prems(2,3)])
  qed
  then show ?case
    unfolding items list_all_iff by auto
qed

text \<open>The constructor of a class: its function record is built with level \<^verbatim>\<open>"sub"\<close>.\<close>

lemma classMemberItems_constructor:
  assumes "asKindOpt m Constructor = Inr ctor" and "ftruthy ctor"
    and "shouldInclude opts False Level"
    and "classMemberItems rt opts False cd m = Inr members"
  shows "\<exists>owner f. members = [JObj [(''type'', JStr ''constructor''), (''for'', owner),
                                      (''function'', f)]]
                   \<and> getp f ''level'' = JStr ''sub''"
  using assms(4) unfolding classMemberItems_def
  by (auto simp: assms(1,2,3) bindE_eq_Inr
      dest!: functionLikeToItem_head applyFunctionItemOptions_head)

text \<open>
  With a namespace that has a statement in its body inside another namespace, the
  parser does not return: the recursive call creates \<^verbatim>\<open>__tmp.ts\<close> over its own source
  file, and \<^verbatim>\<open>md.getName()\<close> on the forgotten node throws. A namespace item below the
  first level of members is therefore an empty namespace, as in
  \<^verbatim>\<open>namespace A { namespace N {} const x = 1; }\<close>.
\<close>

lemma nested_namespace_throws:
  "parseWithTsMorph nestedRuntime 3 ''namespace A { namespace N { const x = 1; } }''
     ''file.ts'' None
   = Inl (Thrown ''Attempted to get information from a node that was removed or forgotten.'')"
  by code_simp

section \<open>Optional attributes\<close>

text \<open>
  The optional attributes \<^verbatim>\<open>jsdoc\<close>, \<^verbatim>\<open>decorators\<close> and \<^verbatim>\<open>accessibility\<close> of a record:
  \<^verbatim>\<open>jsdoc\<close> is undefined or a string, \<^verbatim>\<open>decorators\<close> is undefined or an array that is
  not empty, \<^verbatim>\<open>accessibility\<close> is undefined, \<^verbatim>\<open>"private"\<close> or \<^verbatim>\<open>"protected"\<close>. None of
  the three is \<^verbatim>\<open>null\<close>.
\<close>

fun absentOrString :: "jv \<Rightarrow> bool" where
  "absentOrString JUndefined = True"
| "absentOrString (JStr s) = True"
| "absentOrString v = False"

fun absentOrArray :: "jv \<Rightarrow> bool" where
  "absentOrArray JUndefined = True"
| "absentOrArray (JArr xs) = (xs \<noteq> [])"
| "absentOrArray v = False"

fun absentOrAccess :: "jv \<Rightarrow> bool" where
  "absentOrAccess JUndefined = True"
| "absentOrAccess (JStr s) = (s = ''private'' \<or> s = ''protected'')"
| "absentOrAccess v = False"

definition optionalOk :: "jv \<Rightarrow> bool" where
  "optionalOk r \<longleftrightarrow>
     absentOrString (getp r ''jsdoc'') \<and> absentOrArray (getp r ''decorators'')
     \<and> absentOrAccess (getp r ''accessibility'')"

lemma optionalOk_notNull:
  "optionalOk r \<Longrightarrow> getp r ''jsdoc'' \<noteq> JNull \<and> getp r ''decorators'' \<noteq> JNull
     \<and> getp r ''accessibility'' \<noteq> JNull"
  unfolding optionalOk_def by auto




















subsection \<open>The pruning functions keep the attributes sound\<close>




























subsection \<open>The records the extractor builds\<close>































subsection \<open>The items the parser returns\<close>






section \<open>Claims\<close>

text \<open>
  C1. The decision of the code for one field is the one the claim states (lemma
  \<open>only_mode_decision\<close>), but what an invocation retains in its output is not:

    \<^item> outside only-mode, with \<^verbatim>\<open>ItemType\<close> and \<^verbatim>\<open>Level\<close> at "never", the member of a
      namespace keeps \<^verbatim>\<open>level: "sub"\<close>, although the decision for \<^verbatim>\<open>Level\<close> is to drop
      it: the parser copies the member with \<^verbatim>\<open>{...it, level: "sub"}\<close> after the recursive
      call has pruned it, and \<^verbatim>\<open>applyParsedItemOptions\<close> leaves a record without \<^verbatim>\<open>type\<close>
      as it is;

    \<^item> in only-mode, with \<^verbatim>\<open>Name\<close> at "only", the item of \<^verbatim>\<open>function f() {}\<close> is the empty
      record, although the decision for \<^verbatim>\<open>Name\<close> is to retain it: the second pass of
      \<^verbatim>\<open>applyFunctionItemOptions\<close>, whose field map does not list \<^verbatim>\<open>name\<close>, deletes it.
\<close>

theorem C1_output_does_not_follow_the_decision:
  "\<not> onlyModeOf (normalizeOptions (Some [ItemType \<mapsto> Never, Level \<mapsto> Never]))
   \<and> \<not> shouldInclude (normalizeOptions (Some [ItemType \<mapsto> Never, Level \<mapsto> Never])) False Level
   \<and> parseWithTsMorph namespaceRuntime 2 ''namespace N { const x = 1; }'' ''file.ts''
         (Some [ItemType \<mapsto> Never, Level \<mapsto> Never])
       = Inr [JObj
               [(''name'', JStr ''N''), (''exports'', JStr ''none''), (''jsdoc'', JStr []),
                (''members'',
                 JArr
                  [JObj
                    [(''name'', JStr ''x''), (''subtype'', JStr ''constant''),
                     (''value'', JNum 1), (''valueText'', JStr ''1''),
                     (''valueParsed'', JNum 1), (''exports'', JStr ''none''),
                     (''jsdoc'', JStr []), (''decorators'', JUndefined),
                     (''loc'', JUndefined), (''arguments'', JArr []),
                     (''level'', JStr ''sub'')]])]]
   \<and> onlyModeOf (normalizeOptions (Some [Name \<mapsto> Only]))
   \<and> shouldInclude (normalizeOptions (Some [Name \<mapsto> Only])) True Name
   \<and> parseWithTsMorph (runtimeOf [(''function f() {}'', functionSource)]) 1
         ''function f() {}'' ''file.ts'' (Some [Name \<mapsto> Only])
       = Inr [JObj []]"
  by (intro conjI) code_simp+

text \<open>
  C10. An initializer expression has a kind (not the falsy \<^verbatim>\<open>Unknown\<close>). When the kind
  is none of string literal, numeric literal, \<^verbatim>\<open>true\<close>, \<^verbatim>\<open>false\<close>, \<^verbatim>\<open>null\<close>, and
  the source text of the expression is \<open>src\<close>, the parsed value is the first 200
  characters of \<open>src\<close> (all of it when it is shorter). A simple literal is never cut: a
  string literal gives its whole literal text, a numeric literal the number of its
  whole text, the three keywords their constants.
\<close>

theorem C10_literal_value_truncated:
  assumes "ftruthy init"
    and "orElse (callOpt init ''getKind'') (Inr (propOf init ''kind'')) = Inr k"
    and "ftruthy k"
  shows
    "(k \<notin> {FNum (SyntaxKind StringLiteral), FNum (SyntaxKind NumericLiteral),
            FNum (SyntaxKind TrueKeyword), FNum (SyntaxKind FalseKeyword),
            FNum (SyntaxKind NullKeyword)} \<longrightarrow>
        callOpt init ''getText'' = Inr (FStr src) \<longrightarrow>
          literalValueText rt init = Inr (JStr (take 200 src))
          \<and> length (take 200 src) \<le> 200
          \<and> (length src \<le> 200 \<longrightarrow> literalValueText rt init = Inr (JStr src)))
     \<and> (k = FNum (SyntaxKind StringLiteral) \<longrightarrow>
        callStrict init ''getLiteralText'' = Inr (FStr lit) \<longrightarrow>
          literalValueText rt init = Inr (JStr lit))
     \<and> (k = FNum (SyntaxKind NumericLiteral) \<longrightarrow>
        callStrict init ''getText'' = Inr (FStr src) \<longrightarrow>
          literalValueText rt init = Inr (Number rt (FStr src)))
     \<and> (k = FNum (SyntaxKind TrueKeyword) \<longrightarrow> literalValueText rt init = Inr (JBool True))
     \<and> (k = FNum (SyntaxKind FalseKeyword) \<longrightarrow> literalValueText rt init = Inr (JBool False))
     \<and> (k = FNum (SyntaxKind NullKeyword) \<longrightarrow> literalValueText rt init = Inr JNull)"
  using assms by (auto simp: literalValueText_def)

theorem C10_literal_value_truncated_witness:
  "literalValueText (runtimeOf []) longCall = Inr (JStr (replicate 200 (CHR ''x'')))
   \<and> literalValueText (runtimeOf []) longString = Inr (JStr (replicate 250 (CHR ''y'')))"
proof -
  have call: "ftruthy longCall"
    "orElse (callOpt longCall ''getKind'') (Inr (propOf longCall ''kind'')) = Inr (FNum 213)"
    "ftruthy (FNum 213)"
    "callOpt longCall ''getText'' = Inr (FStr (replicate 250 (CHR ''x'')))"
    by (simp_all add: longCall_def)
  have str: "ftruthy longString"
    "orElse (callOpt longString ''getKind'') (Inr (propOf longString ''kind''))
       = Inr (FNum (SyntaxKind StringLiteral))"
    "ftruthy (FNum (SyntaxKind StringLiteral))"
    "callStrict longString ''getLiteralText'' = Inr (FStr (replicate 250 (CHR ''y'')))"
    by (simp_all add: longString_def)
  from C10_literal_value_truncated [OF call(1-3), where src = "replicate 250 (CHR ''x'')"
      and rt = "runtimeOf []"] call(4)
  have "literalValueText (runtimeOf []) longCall = Inr (JStr (replicate 200 (CHR ''x'')))"
    by simp
  moreover from C10_literal_value_truncated [OF str(1-3), where lit = "replicate 250 (CHR ''y'')"
      and rt = "runtimeOf []"] str(4)
  have "literalValueText (runtimeOf []) longString = Inr (JStr (replicate 250 (CHR ''y'')))"
    by simp
  ultimately show ?thesis by simp
qed

text \<open>
  C8. The source rendering of a node is what its \<^verbatim>\<open>getText\<close> accessor returns (the
  front end renders a node without the trivia around it). For every node that is
  present, whose kind accessors return and whose rendering is the string \<open>s\<close>, the
  normalizer returns a record whose \<^verbatim>\<open>text\<close> field is \<open>s\<close>; for an absent node
  (\<^verbatim>\<open>undefined\<close> or \<^verbatim>\<open>null\<close>) it returns \<^verbatim>\<open>undefined\<close>.
\<close>

theorem C8_text_is_source_rendering:
  "parseTypeNode FUndef = Inr JUndefined \<and> parseTypeNode FNull = Inr JUndefined
   \<and> (ftruthy node \<longrightarrow>
        orElse (orElse (callOpt node ''getKindName'') (callOpt node ''getKind''))
          (Inr (propOf node ''kind'')) = Inr kind \<longrightarrow>
        callOpt node ''getText'' = Inr (FStr s) \<longrightarrow>
        (\<exists>r. parseTypeNode node = Inr r \<and> getp r ''text'' = JStr s))"
proof (intro conjI impI)
  show "parseTypeNode FUndef = Inr JUndefined" by (subst parseTypeNode.simps) simp
  show "parseTypeNode FNull = Inr JUndefined" by (subst parseTypeNode.simps) simp
next
  assume present: "ftruthy node"
    and kind: "orElse (orElse (callOpt node ''getKindName'') (callOpt node ''getKind''))
          (Inr (propOf node ''kind'')) = Inr kind"
    and rendering: "callOpt node ''getText'' = Inr (FStr s)"
  from rendering have "orElse (callOpt node ''getText'') (Inr (FStr (String node))) = Inr (FStr s)"
    by simp
  from parseTypeNode_returns [OF present kind this]
  show "\<exists>r. parseTypeNode node = Inr r \<and> getp r ''text'' = JStr s"
    by (auto dest: typeRecord_text)
qed

theorem C8_text_is_source_rendering_witness:
  "ftruthy unionAB
   \<and> callOpt unionAB ''getText'' = Inr (FStr ''A | B'')
   \<and> (\<exists>r. parseTypeNode unionAB = Inr r \<and> getp r ''text'' = JStr ''A | B'')"
  using C8_text_is_source_rendering [of unionAB "FStr ''UnionType''" "''A | B''"]
  by (simp add: unionAB_def)

text \<open>
  C4. The accessors \<^verbatim>\<open>getKindName\<close>, \<^verbatim>\<open>getKind\<close> and \<^verbatim>\<open>getText\<close> are called before
  the \<^verbatim>\<open>try\<close> block of \<^verbatim>\<open>parseTypeNode\<close>. On a node whose \<^verbatim>\<open>getText\<close> throws, the
  exception leaves the normalizer: no record is returned.
\<close>

theorem C4_text_accessor_failure_escapes:
  "parseTypeNode throwingNode = Inl (Thrown ''Error: boom'')"
  by (subst parseTypeNode.simps) (simp add: throwingNode_def)

text \<open>
  C2. Parsing \<^verbatim>\<open>const x = 1;\<close> with the configuration \<^verbatim>\<open>{Name: "only"}\<close> returns one
  record without any field: \<^verbatim>\<open>name\<close> is gone too, and so is the \<^verbatim>\<open>type\<close>
  discriminator.
\<close>

theorem C2_name_only_empties_the_item:
  "parseWithTsMorph (runtimeOf [(''const x = 1;'', constSource)]) 1
     ''const x = 1;'' ''file.ts'' (Some [Name \<mapsto> Only])
   = Inr [JObj []]"
  by code_simp

text \<open>
  C3. The claim fails on the code. For \<^verbatim>\<open>const x = 1; export default x;\<close> with the default
  configuration the parser returns two items named \<^verbatim>\<open>x\<close>: the item of the declaration,
  whose export disposition stays \<^verbatim>\<open>"none"\<close>, and one more Variable item with the export
  disposition \<^verbatim>\<open>"default"\<close>. Nothing is relabelled: the branch of the export assignment
  only pushes a new record to \<^verbatim>\<open>out\<close>.
\<close>

theorem C3_default_export_duplicates_item:
  "parseWithTsMorph (runtimeOf [(''const x = 1; export default x;'', defaultExportSource)]) 1
     ''const x = 1; export default x;'' ''file.ts'' None
   = Inr [JObj [(''name'', JStr ''x''), (''type'', JStr ''variable''),
                (''subtype'', JStr ''constant''), (''value'', JNum 1),
                (''valueText'', JStr ''1''), (''valueParsed'', JNum 1),
                (''exports'', JStr ''none''), (''level'', JStr ''top''),
                (''jsdoc'', JStr []), (''decorators'', JUndefined),
                (''loc'', JUndefined), (''arguments'', JArr [])],
          JObj [(''name'', JStr ''x''), (''type'', JStr ''variable''),
                (''subtype'', JStr ''constant''), (''value'', JNum 1),
                (''valueText'', JStr ''1''), (''valueParsed'', JNum 1),
                (''exports'', JStr ''default''), (''level'', JStr ''top''),
                (''jsdoc'', JStr []), (''arguments'', JArr [])]]"
  by code_simp

text \<open>
  C7 (as amended). With the default configuration the \<^verbatim>\<open>target\<close> of a TypeAlias item
  is the source text of the alias's type node, a string; the item carries no normalized
  target. For \<^verbatim>\<open>type T = A | B;\<close> the normalizer, applied to the type node of the
  alias, gives the union record, in which every record also has its \<^verbatim>\<open>text\<close> and
  a reference its (empty) list of type arguments.
\<close>

theorem C7_alias_target_is_text:
  "(textOf ta ''getTypeNode'' = Inr (FStr s) \<longrightarrow>
      typeAliasItem (normalizeOptions None) False ta = Inr item \<longrightarrow>
      getp item ''target'' = JStr s \<and> getp item ''type'' = JStr ''type-alias'')
   \<and> bindE (callOpt aliasT ''getTypeNode'') parseTypeNode
       = Inr (JObj [(''kind'', JStr ''union''), (''text'', JStr ''A | B''),
                    (''types'',
                     JArr [JObj [(''kind'', JStr ''reference''), (''text'', JStr ''A''),
                                 (''name'', JStr ''A''), (''typeArguments'', JArr [])],
                           JObj [(''kind'', JStr ''reference''), (''text'', JStr ''B''),
                                 (''name'', JStr ''B''), (''typeArguments'', JArr [])]])])"
proof (intro conjI impI)
  show "bindE (callOpt aliasT ''getTypeNode'') parseTypeNode
       = Inr (JObj [(''kind'', JStr ''union''), (''text'', JStr ''A | B''),
                    (''types'',
                     JArr [JObj [(''kind'', JStr ''reference''), (''text'', JStr ''A''),
                                 (''name'', JStr ''A''), (''typeArguments'', JArr [])],
                           JObj [(''kind'', JStr ''reference''), (''text'', JStr ''B''),
                                 (''name'', JStr ''B''), (''typeArguments'', JArr [])]])])"
    by code_simp
next
  assume typeText: "textOf ta ''getTypeNode'' = Inr (FStr s)"
    and returned: "typeAliasItem (normalizeOptions None) False ta = Inr item"
  have "getp item ''target'' = JStr s \<and> getp item ''type'' = JStr ''type-alias''"
  proof -
  from returned obtain name exports jsdoc typeParameters item1 item2 where
    pruned: "applyBaseItemOptions
       (JObj [(''name'', toJ name), (''type'', JStr ''type-alias''),
              (''level'', JStr ''top''), (''exports'', exports), (''jsdoc'', jsdoc),
              (''target'', JStr s), (''typeParameters'', typeParameters)])
       (normalizeOptions None) False = Inr item1"
    and mapped: "mapField ''typeParameters''
       (\<lambda>tp. applyTypeParameterOptions tp (normalizeOptions None) False) item1 = Inr item2"
    and last: "pruneObject item2 [(''target'', Some Target), (''typeParameters'', Some TypeParameters)]
       (normalizeOptions None) False = Inr item"
    unfolding typeAliasItem_def by (auto simp: typeText bindE_eq_Inr)
  from last have "item = item2" by (rule pruneObject_default_Inr)
  moreover from pruned have "item1 = JObj [(''name'', toJ name), (''type'', JStr ''type-alias''),
              (''level'', JStr ''top''), (''exports'', exports), (''jsdoc'', jsdoc),
              (''target'', JStr s), (''typeParameters'', typeParameters)]"
    unfolding applyBaseItemOptions_def by (rule pruneObject_default_Inr)
  moreover from mapped have "getp item2 ''target'' = getp item1 ''target''"
    "getp item2 ''type'' = getp item1 ''type''"
    by (simp_all add: mapField_getp_other)
  ultimately show ?thesis by simp
  qed
  then show "getp item ''target'' = JStr s" and "getp item ''type'' = JStr ''type-alias''"
    by simp_all
qed

theorem C7_alias_target_is_text_witness:
  "textOf aliasT ''getTypeNode'' = Inr (FStr ''A | B'')
   \<and> typeAliasItem (normalizeOptions None) False aliasT
       = Inr (JObj [(''name'', JStr ''T''), (''type'', JStr ''type-alias''),
                    (''level'', JStr ''top''), (''exports'', JStr ''none''),
                    (''jsdoc'', JStr []), (''target'', JStr ''A | B''),
                    (''typeParameters'', JUndefined)])
   \<and> getp (JObj [(''name'', JStr ''T''), (''type'', JStr ''type-alias''),
                  (''level'', JStr ''top''), (''exports'', JStr ''none''),
                  (''jsdoc'', JStr []), (''target'', JStr ''A | B''),
                  (''typeParameters'', JUndefined)]) ''target'' = JStr ''A | B''"
proof -
  have typeText: "textOf aliasT ''getTypeNode'' = Inr (FStr ''A | B'')"
    by code_simp
  have returned: "typeAliasItem (normalizeOptions None) False aliasT
       = Inr (JObj [(''name'', JStr ''T''), (''type'', JStr ''type-alias''),
                    (''level'', JStr ''top''), (''exports'', JStr ''none''),
                    (''jsdoc'', JStr []), (''target'', JStr ''A | B''),
                    (''typeParameters'', JUndefined)])"
    by code_simp
  from C7_alias_target_is_text [of aliasT "''A | B''"] typeText returned
  show ?thesis by blast
qed

theorem C7_alias_target_is_not_normalized:
  "parseWithTsMorph (runtimeOf [(''type T = A | B;'', aliasSource)]) 1
     ''type T = A | B;'' ''file.ts'' None
   = Inr [JObj [(''name'', JStr ''T''), (''type'', JStr ''type-alias''),
                (''level'', JStr ''top''), (''exports'', JStr ''none''),
                (''jsdoc'', JStr []), (''target'', JStr ''A | B''),
                (''typeParameters'', JUndefined)]]"
  by code_simp




text \<open>
  C6 (as amended). For every source unit and every configuration that retains the
  level (no field is "only" and \<^verbatim>\<open>Level\<close> is not "never"), whenever the parser returns:
  every item of the returned sequence has level \<^verbatim>\<open>"top"\<close>; every member of a namespace
  item has level \<^verbatim>\<open>"sub"\<close>; a member whose \<^verbatim>\<open>type\<close> is \<^verbatim>\<open>"namespace"\<close> has members of level
  \<^verbatim>\<open>"sub"\<close> again, to any depth (this is the predicate \<open>levelled\<close>); and the function
  record of a class constructor has level \<^verbatim>\<open>"sub"\<close> wherever the class stands, also
  outside any namespace.
\<close>

theorem C6_levels:
  "(\<not> onlyModeOf (normalizeOptions options) \<longrightarrow>
      shouldInclude (normalizeOptions options) False Level \<longrightarrow>
      parseWithTsMorph rt fuel sourceText fileName options = Inr items \<longrightarrow>
      list_all (levelled ''top'') items)
   \<and> (\<not> onlyModeOf (normalizeOptions options) \<longrightarrow>
        shouldInclude (normalizeOptions options) False Level \<longrightarrow>
        namespaceItem rt (\<lambda>text name given. parseWithTsMorph rt fuel text name given)
          (normalizeOptions options) False options src md = Inr item \<longrightarrow>
        getp item ''level'' = JStr ''top''
        \<and> list_all (levelled ''sub'') (elems (getp item ''members'')))
   \<and> (asKindOpt m Constructor = Inr ctor \<longrightarrow> ftruthy ctor \<longrightarrow>
        shouldInclude opts False Level \<longrightarrow>
        classMemberItems rt opts False cd m = Inr members \<longrightarrow>
        (\<exists>owner f. members = [JObj [(''type'', JStr ''constructor''), (''for'', owner),
                                     (''function'', f)]]
                  \<and> getp f ''level'' = JStr ''sub''))"
proof (intro conjI impI)
  assume "\<not> onlyModeOf (normalizeOptions options)"
    and "shouldInclude (normalizeOptions options) False Level"
    and "parseWithTsMorph rt fuel sourceText fileName options = Inr items"
  then show "list_all (levelled ''top'') items"
    by (blast intro: parseWithTsMorph_levelled)
next
  assume noOnly: "\<not> onlyModeOf (normalizeOptions options)"
    and retained: "shouldInclude (normalizeOptions options) False Level"
    and built: "namespaceItem rt (\<lambda>text name given. parseWithTsMorph rt fuel text name given)
          (normalizeOptions options) False options src md = Inr item"
  have recurse: "list_all (levelled ''top'') inner"
    if "parseWithTsMorph rt fuel bodyText name options = Inr inner" for bodyText name inner
    using that noOnly retained by (rule parseWithTsMorph_levelled)
  from namespaceItem_levelled(1) [OF recurse retained built]
  have "levelled ''top'' item" .
  then show "getp item ''level'' = JStr ''top''"
    by (subst (asm) levelled.simps) simp
  from namespaceItem_levelled(2) [OF recurse retained built]
  show "list_all (levelled ''sub'') (elems (getp item ''members''))" .
next
  assume "asKindOpt m Constructor = Inr ctor" and "ftruthy ctor"
    and "shouldInclude opts False Level"
    and "classMemberItems rt opts False cd m = Inr members"
  then show "\<exists>owner f. members = [JObj [(''type'', JStr ''constructor''), (''for'', owner),
                                          (''function'', f)]]
                       \<and> getp f ''level'' = JStr ''sub''"
    by (rule classMemberItems_constructor)
qed

theorem C6_levels_witness:
  "\<not> onlyModeOf (normalizeOptions (Some [JSDoc \<mapsto> Never]))
   \<and> shouldInclude (normalizeOptions (Some [JSDoc \<mapsto> Never])) False Level
   \<and> parseWithTsMorph outerRuntime 2 ''namespace A { namespace N {} const x = 1; }''
       ''file.ts'' (Some [JSDoc \<mapsto> Never])
     = Inr [JObj
            [(''name'', JStr ''A''), (''type'', JStr ''namespace''),
             (''level'', JStr ''top''), (''exports'', JStr ''none''),
             (''members'',
              JArr
               [JObj
                 [(''name'', JStr ''N''), (''type'', JStr ''namespace''),
                  (''level'', JStr ''sub''), (''exports'', JStr ''none''),
                  (''members'', JArr [])],
                JObj
                 [(''name'', JStr ''x''), (''type'', JStr ''variable''),
                  (''subtype'', JStr ''constant''), (''value'', JNum 1),
                  (''valueText'', JStr ''1''), (''valueParsed'', JNum 1),
                  (''exports'', JStr ''none''), (''level'', JStr ''sub''),
                  (''decorators'', JUndefined), (''loc'', JUndefined),
                  (''arguments'', JArr [])]])]]
   \<and> list_all (levelled ''top'')
        [JObj
            [(''name'', JStr ''A''), (''type'', JStr ''namespace''),
             (''level'', JStr ''top''), (''exports'', JStr ''none''),
             (''members'',
              JArr
               [JObj
                 [(''name'', JStr ''N''), (''type'', JStr ''namespace''),
                  (''level'', JStr ''sub''), (''exports'', JStr ''none''),
                  (''members'', JArr [])],
                JObj
                 [(''name'', JStr ''x''), (''type'', JStr ''variable''),
                  (''subtype'', JStr ''constant''), (''value'', JNum 1),
                  (''valueText'', JStr ''1''), (''valueParsed'', JNum 1),
                  (''exports'', JStr ''none''), (''level'', JStr ''sub''),
                  (''decorators'', JUndefined), (''loc'', JUndefined),
                  (''arguments'', JArr [])]])]]
   \<and> namespaceItem outerRuntime
        (\<lambda>text name given. parseWithTsMorph outerRuntime 1 text name given)
        (normalizeOptions (Some [JSDoc \<mapsto> Never])) False (Some [JSDoc \<mapsto> Never]) outerSource namespaceA
     = Inr (JObj
            [(''name'', JStr ''A''), (''type'', JStr ''namespace''),
             (''level'', JStr ''top''), (''exports'', JStr ''none''),
             (''members'',
              JArr
               [JObj
                 [(''name'', JStr ''N''), (''type'', JStr ''namespace''),
                  (''level'', JStr ''sub''), (''exports'', JStr ''none''),
                  (''members'', JArr [])],
                JObj
                 [(''name'', JStr ''x''), (''type'', JStr ''variable''),
                  (''subtype'', JStr ''constant''), (''value'', JNum 1),
                  (''valueText'', JStr ''1''), (''valueParsed'', JNum 1),
                  (''exports'', JStr ''none''), (''level'', JStr ''sub''),
                  (''decorators'', JUndefined), (''loc'', JUndefined),
                  (''arguments'', JArr [])]])])
   \<and> list_all (levelled ''sub'')
        (elems (getp (JObj
            [(''name'', JStr ''A''), (''type'', JStr ''namespace''),
             (''level'', JStr ''top''), (''exports'', JStr ''none''),
             (''members'',
              JArr
               [JObj
                 [(''name'', JStr ''N''), (''type'', JStr ''namespace''),
                  (''level'', JStr ''sub''), (''exports'', JStr ''none''),
                  (''members'', JArr [])],
                JObj
                 [(''name'', JStr ''x''), (''type'', JStr ''variable''),
                  (''subtype'', JStr ''constant''), (''value'', JNum 1),
                  (''valueText'', JStr ''1''), (''valueParsed'', JNum 1),
                  (''exports'', JStr ''none''), (''level'', JStr ''sub''),
                  (''decorators'', JUndefined), (''loc'', JUndefined),
                  (''arguments'', JArr [])]])]) ''members''))
   \<and> asKindOpt constructorOfC Constructor = Inr constructorOfC
   \<and> ftruthy constructorOfC
   \<and> classMemberItems (runtimeOf []) (normalizeOptions (Some [JSDoc \<mapsto> Never])) False classC
        constructorOfC
       = Inr [JObj [(''type'', JStr ''constructor''), (''for'', JStr ''C''),
                    (''function'',
                     JObj [(''name'', JNull), (''type'', JStr ''function''),
                  (''level'', JStr ''sub''), (''exports'', JStr ''none''),
                  (''decorators'', JUndefined), (''loc'', JUndefined),
                  (''arguments'', JArr []), (''typeParameters'', JUndefined),
                  (''returnType'', JUndefined), (''returnTypeAst'', JUndefined)])]]
   \<and> getp (JObj [(''name'', JNull), (''type'', JStr ''function''),
                  (''level'', JStr ''sub''), (''exports'', JStr ''none''),
                  (''decorators'', JUndefined), (''loc'', JUndefined),
                  (''arguments'', JArr []), (''typeParameters'', JUndefined),
                  (''returnType'', JUndefined), (''returnTypeAst'', JUndefined)]) ''level'' = JStr ''sub''"
proof -
  let ?given = "Some [JSDoc \<mapsto> Never]"
  let ?A = "JObj
            [(''name'', JStr ''A''), (''type'', JStr ''namespace''),
             (''level'', JStr ''top''), (''exports'', JStr ''none''),
             (''members'',
              JArr
               [JObj
                 [(''name'', JStr ''N''), (''type'', JStr ''namespace''),
                  (''level'', JStr ''sub''), (''exports'', JStr ''none''),
                  (''members'', JArr [])],
                JObj
                 [(''name'', JStr ''x''), (''type'', JStr ''variable''),
                  (''subtype'', JStr ''constant''), (''value'', JNum 1),
                  (''valueText'', JStr ''1''), (''valueParsed'', JNum 1),
                  (''exports'', JStr ''none''), (''level'', JStr ''sub''),
                  (''decorators'', JUndefined), (''loc'', JUndefined),
                  (''arguments'', JArr [])]])]"
  let ?f = "JObj [(''name'', JNull), (''type'', JStr ''function''),
                  (''level'', JStr ''sub''), (''exports'', JStr ''none''),
                  (''decorators'', JUndefined), (''loc'', JUndefined),
                  (''arguments'', JArr []), (''typeParameters'', JUndefined),
                  (''returnType'', JUndefined), (''returnTypeAst'', JUndefined)]"
  let ?members = "[JObj [(''type'', JStr ''constructor''), (''for'', JStr ''C''),
                         (''function'', ?f)]]"
  have noOnly: "\<not> onlyModeOf (normalizeOptions ?given)"
    by code_simp
  have retained: "shouldInclude (normalizeOptions ?given) False Level"
    by code_simp
  have parsed: "parseWithTsMorph outerRuntime 2
      ''namespace A { namespace N {} const x = 1; }'' ''file.ts'' ?given = Inr [?A]"
    by code_simp
  have unpacked: "namespaceItem outerRuntime
      (\<lambda>text name given. parseWithTsMorph outerRuntime 1 text name given)
      (normalizeOptions ?given) False ?given outerSource namespaceA = Inr ?A"
    by code_simp
  have ctor: "asKindOpt constructorOfC Constructor = Inr constructorOfC"
    "ftruthy constructorOfC"
    by (simp_all add: constructorOfC_def asKind_def)
  have built: "classMemberItems (runtimeOf []) (normalizeOptions ?given) False classC
      constructorOfC = Inr ?members"
    by code_simp
  note C6 = C6_levels [where options = ?given and rt = outerRuntime and fuel = 2
      and sourceText = "''namespace A { namespace N {} const x = 1; }''"
      and fileName = "''file.ts''" and items = "[?A]"]
    C6_levels [where options = ?given and rt = outerRuntime and fuel = 1
      and src = outerSource and md = namespaceA and item = ?A]
    C6_levels [where rt = "runtimeOf []" and m = constructorOfC and ctor = constructorOfC
      and opts = "normalizeOptions ?given" and cd = classC and members = ?members]
  from C6(1) noOnly retained parsed have top: "list_all (levelled ''top'') [?A]"
    by blast
  from C6(2) noOnly retained unpacked
  have sub: "list_all (levelled ''sub'') (elems (getp ?A ''members''))"
    by blast
  from C6(3) ctor retained built have "getp ?f ''level'' = JStr ''sub''"
    by blast
  with noOnly retained parsed top unpacked sub ctor built show ?thesis
    by (intro conjI) assumption+
qed

text \<open>
  Against the claim as it stands: with the default configuration the function record
  of the constructor of a class outside any namespace has level \<^verbatim>\<open>"sub"\<close>; with \<^verbatim>\<open>Level\<close>
  at "never" an item outside any namespace has no level; and in only-mode, even with
  \<^verbatim>\<open>Level\<close> itself at "only", the item is the empty record.
\<close>

theorem C6_constructor_is_sub_and_level_is_pruned:
  "parseWithTsMorph (runtimeOf [(''class C { constructor() {} m() {} }'', classSource)]) 1
     ''class C { constructor() {} m() {} }'' ''file.ts'' None
   = Inr [JObj
            [(''name'', JStr ''C''), (''type'', JStr ''class''),
             (''level'', JStr ''top''), (''exports'', JStr ''none''),
             (''jsdoc'', JStr []),
             (''items'',
              JArr
               [JObj
                 [(''type'', JStr ''constructor''), (''for'', JStr ''C''),
                  (''function'',
                   JObj
                    [(''name'', JNull), (''type'', JStr ''function''),
                     (''level'', JStr ''sub''), (''exports'', JStr ''none''),
                     (''jsdoc'', JStr []), (''decorators'', JUndefined),
                     (''loc'', JUndefined), (''arguments'', JArr []),
                     (''typeParameters'', JUndefined), (''returnType'', JUndefined),
                     (''returnTypeAst'', JUndefined)])],
                JObj
                 [(''name'', JStr ''m''), (''accessibility'', JUndefined),
                  (''static'', JBool False), (''async'', JBool False),
                  (''abstract'', JBool False), (''decorators'', JUndefined),
                  (''arguments'', JArr []), (''typeParameters'', JUndefined),
                  (''returnType'', JUndefined), (''returnTypeAst'', JUndefined),
                  (''jsdoc'', JStr []), (''loc'', JUndefined)]]),
             (''typeParameters'', JUndefined)]]
   \<and> parseWithTsMorph (runtimeOf [(''const x = 1;'', constSource)]) 1
       ''const x = 1;'' ''file.ts'' (Some [Level \<mapsto> Never])
     = Inr [JObj [(''name'', JStr ''x''), (''type'', JStr ''variable''),
                  (''subtype'', JStr ''constant''), (''value'', JNum 1),
                  (''valueText'', JStr ''1''), (''valueParsed'', JNum 1),
                  (''exports'', JStr ''none''), (''jsdoc'', JStr []),
                  (''decorators'', JUndefined), (''loc'', JUndefined),
                  (''arguments'', JArr [])]]
   \<and> parseWithTsMorph (runtimeOf [(''const x = 1;'', constSource)]) 1
       ''const x = 1;'' ''file.ts'' (Some [Level \<mapsto> Only])
     = Inr [JObj []]"
  by (intro conjI) code_simp+

text \<open>
  C5. Projection is idempotent: when \<^verbatim>\<open>pruneObject\<close> returns a record, pruning that
  record again with the same field map and configuration returns it unchanged; and
  when \<^verbatim>\<open>applyParsedItemOptions\<close> returns a tree for a declaration item tree, applying
  it again with the same configuration to the returned tree returns that tree. This
  holds for every configuration, in only-mode and outside it. A declaration item tree
  is a tree whose class and interface members have the shapes the source declares
  (\<open>wellShaped\<close>): a member told to be a method or an index signature has only the
  properties of \<^verbatim>\<open>MethodItem\<close>, \<^verbatim>\<open>InterfaceMemberMethod\<close> or \<^verbatim>\<open>IndexSignature\<close>.
\<close>

theorem C5_projection_idempotent:
  "(pruneObject v fmap options onlyMode = Inr w
      \<longrightarrow> pruneObject w fmap options onlyMode = Inr w)
   \<and> (wellShaped item \<longrightarrow> applyParsedItemOptions item options onlyMode = Inr item'
      \<longrightarrow> applyParsedItemOptions item' options onlyMode = Inr item')"
  by (blast intro: applyParsedItemOptions_fixed idempotentD [OF pruneObject_idempotent])

theorem C5_projection_idempotent_witness:
  "wellShaped namespaceTree
   \<and> applyParsedItemOptions namespaceTree withoutArguments (onlyModeOf withoutArguments)
     = Inr (JObj
            [(''name'', JStr ''N''), (''type'', JStr ''namespace''),
             (''level'', JStr ''top''),
             (''members'',
              JArr
               [JObj
                 [(''name'', JStr ''C''), (''type'', JStr ''class''),
                  (''level'', JStr ''sub''), (''exports'', JStr ''none''),
                  (''items'',
                   JArr
                    [JObj
                      [(''type'', JStr ''constructor''), (''for'', JStr ''C''),
                       (''function'',
                        JObj [(''name'', JNull), (''type'', JStr ''function''),
                              (''level'', JStr ''sub'')])],
                     JObj [(''name'', JStr ''m''), (''static'', JBool False),
                           (''returnType'', JStr ''void'')],
                     JObj [(''returnType'', JStr ''number''), (''readonly'', JBool False)],
                     JObj [(''name'', JStr ''p''), (''type'', JStr ''number'')]]),
                  (''typeParameters'', JArr [JObj [(''name'', JStr ''T'')]])]])])
   \<and> applyParsedItemOptions
       (JObj
            [(''name'', JStr ''N''), (''type'', JStr ''namespace''),
             (''level'', JStr ''top''),
             (''members'',
              JArr
               [JObj
                 [(''name'', JStr ''C''), (''type'', JStr ''class''),
                  (''level'', JStr ''sub''), (''exports'', JStr ''none''),
                  (''items'',
                   JArr
                    [JObj
                      [(''type'', JStr ''constructor''), (''for'', JStr ''C''),
                       (''function'',
                        JObj [(''name'', JNull), (''type'', JStr ''function''),
                              (''level'', JStr ''sub'')])],
                     JObj [(''name'', JStr ''m''), (''static'', JBool False),
                           (''returnType'', JStr ''void'')],
                     JObj [(''returnType'', JStr ''number''), (''readonly'', JBool False)],
                     JObj [(''name'', JStr ''p''), (''type'', JStr ''number'')]]),
                  (''typeParameters'', JArr [JObj [(''name'', JStr ''T'')]])]])])
       withoutArguments (onlyModeOf withoutArguments)
     = Inr (JObj
            [(''name'', JStr ''N''), (''type'', JStr ''namespace''),
             (''level'', JStr ''top''),
             (''members'',
              JArr
               [JObj
                 [(''name'', JStr ''C''), (''type'', JStr ''class''),
                  (''level'', JStr ''sub''), (''exports'', JStr ''none''),
                  (''items'',
                   JArr
                    [JObj
                      [(''type'', JStr ''constructor''), (''for'', JStr ''C''),
                       (''function'',
                        JObj [(''name'', JNull), (''type'', JStr ''function''),
                              (''level'', JStr ''sub'')])],
                     JObj [(''name'', JStr ''m''), (''static'', JBool False),
                           (''returnType'', JStr ''void'')],
                     JObj [(''returnType'', JStr ''number''), (''readonly'', JBool False)],
                     JObj [(''name'', JStr ''p''), (''type'', JStr ''number'')]]),
                  (''typeParameters'', JArr [JObj [(''name'', JStr ''T'')]])]])])
   \<and> pruneObject (JObj [(''name'', JStr ''m''), (''arguments'', JArr [])])
       [(''name'', Some Name), (''arguments'', Some Arguments)] withoutArguments False
     = Inr (JObj [(''name'', JStr ''m'')])
   \<and> pruneObject (JObj [(''name'', JStr ''m'')])
       [(''name'', Some Name), (''arguments'', Some Arguments)] withoutArguments False
     = Inr (JObj [(''name'', JStr ''m'')])"
proof -
  let ?pruned = "JObj
            [(''name'', JStr ''N''), (''type'', JStr ''namespace''),
             (''level'', JStr ''top''),
             (''members'',
              JArr
               [JObj
                 [(''name'', JStr ''C''), (''type'', JStr ''class''),
                  (''level'', JStr ''sub''), (''exports'', JStr ''none''),
                  (''items'',
                   JArr
                    [JObj
                      [(''type'', JStr ''constructor''), (''for'', JStr ''C''),
                       (''function'',
                        JObj [(''name'', JNull), (''type'', JStr ''function''),
                              (''level'', JStr ''sub'')])],
                     JObj [(''name'', JStr ''m''), (''static'', JBool False),
                           (''returnType'', JStr ''void'')],
                     JObj [(''returnType'', JStr ''number''), (''readonly'', JBool False)],
                     JObj [(''name'', JStr ''p''), (''type'', JStr ''number'')]]),
                  (''typeParameters'', JArr [JObj [(''name'', JStr ''T'')]])]])]"
  let ?fmap = "[(''name'', Some Name), (''arguments'', Some Arguments)]"
  have shaped: "wellShaped namespaceTree"
    by code_simp
  have once: "applyParsedItemOptions namespaceTree withoutArguments (onlyModeOf withoutArguments)
      = Inr ?pruned"
    by code_simp
  have single: "pruneObject (JObj [(''name'', JStr ''m''), (''arguments'', JArr [])])
      ?fmap withoutArguments False = Inr (JObj [(''name'', JStr ''m'')])"
    by code_simp
  note C5 = C5_projection_idempotent [where item = namespaceTree and item' = ?pruned
      and options = withoutArguments and onlyMode = "onlyModeOf withoutArguments"]
    C5_projection_idempotent [where options = withoutArguments and onlyMode = False
      and fmap = ?fmap and v = "JObj [(''name'', JStr ''m''), (''arguments'', JArr [])]"
      and w = "JObj [(''name'', JStr ''m'')]"]
  from C5(1) shaped once
  have twice: "applyParsedItemOptions ?pruned withoutArguments (onlyModeOf withoutArguments)
      = Inr ?pruned"
    by blast
  from C5(2) single
  have "pruneObject (JObj [(''name'', JStr ''m'')]) ?fmap withoutArguments False
      = Inr (JObj [(''name'', JStr ''m'')])"
    by blast
  with shaped once twice single show ?thesis
    by blast
qed

end
